theory Spec2Isabelle
  imports Main "HOL-Library.Log_Nat"
begin

section \<open>JavaScript numbers\<close>

text \<open>
  Balances and amounts are JavaScript Numbers, that is IEEE-754 binary64 values.  A finite
  value is modelled by the rational it denotes (\<open>Fin q\<close>); the two zeros are identified,
  which no expression of \<^verbatim>\<open>server.js\<close> can tell apart (\<^verbatim>\<open><\<close>, \<^verbatim>\<open>+\<close>, \<^verbatim>\<open>-\<close>,
  \<^verbatim>\<open>toFixed\<close> and JSON output treat them alike).  Every arithmetic result is rounded
  to the nearest binary64 value by \<open>rd\<close> (ties to even, gradual underflow, overflow to
  an infinity), so \<^verbatim>\<open>a + b\<close> is \<open>rd (a + b)\<close> and not the exact sum.
\<close>

datatype jsnum = Fin rat | PInf | NInf | NaN

definition pow2 :: "int \<Rightarrow> rat" where
  "pow2 k = (if 0 \<le> k then 2 ^ nat k else 1 / 2 ^ nat (- k))"

text \<open>For \<open>m > 0\<close>, \<open>ilog2 m\<close> is the exponent \<open>e\<close> with \<open>2^e \<le> m < 2^(e+1)\<close>.\<close>

definition ilog2 :: "rat \<Rightarrow> int" where
  "ilog2 m = (case quotient_of m of (p, d) \<Rightarrow>
     let k = bitlen p - bitlen d
     in if pow2 k \<le> m then k else k - 1)"

definition round_half_even :: "rat \<Rightarrow> int" where
  "round_half_even x = (let f = \<lfloor>x\<rfloor>; r = x - of_int f
     in if r < 1 / 2 then f else if 1 / 2 < r then f + 1
        else if even f then f else f + 1)"

text \<open>
  Rounding of a rational to binary64: the spacing of representable values around \<open>m\<close> is
  \<open>2^t\<close> with \<open>t = max e (-1022) - 52\<close> (53 significant bits, subnormal below
  \<open>2^-1022\<close>); a result of magnitude \<open>2^1024\<close> or more is an infinity.
\<close>

definition rd :: "rat \<Rightarrow> jsnum" where
  "rd q = (if q = 0 then Fin 0 else
     let m = \<bar>q\<bar>;
         t = max (ilog2 m) (- 1022) - 52;
         v = of_int (round_half_even (m / pow2 t)) * pow2 t
     in if pow2 1024 \<le> v then (if 0 < q then PInf else NInf)
        else Fin (if 0 < q then v else - v))"

fun js_neg :: "jsnum \<Rightarrow> jsnum" where
  "js_neg (Fin q) = Fin (- q)"
| "js_neg PInf = NInf"
| "js_neg NInf = PInf"
| "js_neg NaN = NaN"

text \<open>\<^verbatim>\<open>a + b\<close> on Numbers.\<close>

fun js_add :: "jsnum \<Rightarrow> jsnum \<Rightarrow> jsnum" where
  "js_add (Fin a) (Fin b) = rd (a + b)"
| "js_add NaN _ = NaN"
| "js_add _ NaN = NaN"
| "js_add PInf NInf = NaN"
| "js_add NInf PInf = NaN"
| "js_add PInf _ = PInf"
| "js_add _ PInf = PInf"
| "js_add NInf _ = NInf"
| "js_add _ NInf = NInf"

text \<open>\<^verbatim>\<open>a - b\<close> on Numbers.\<close>

definition js_sub :: "jsnum \<Rightarrow> jsnum \<Rightarrow> jsnum" where
  "js_sub a b = js_add a (js_neg b)"

text \<open>\<^verbatim>\<open>a < b\<close> on Numbers: false as soon as one side is NaN.\<close>

fun js_lt :: "jsnum \<Rightarrow> jsnum \<Rightarrow> bool" where
  "js_lt (Fin a) (Fin b) = (a < b)"
| "js_lt NaN _ = False"
| "js_lt _ NaN = False"
| "js_lt _ NInf = False"
| "js_lt NInf _ = True"
| "js_lt PInf _ = False"
| "js_lt _ PInf = True"


fun isFinite :: "jsnum \<Rightarrow> bool" where
  "isFinite (Fin q) = True"
| "isFinite _ = False"

subsection \<open>Decimal rendering\<close>

text \<open>
  The decimal digits of an integer \<open>n \<ge> 0\<close>, and \<^verbatim>\<open>`${n}`\<close> for an integer Number
  below \<open>10^21\<close> in magnitude (the clock readings are such).
\<close>

definition digit_char :: "int \<Rightarrow> char" where
  "digit_char d = ''0123456789'' ! nat d"

function digits :: "int \<Rightarrow> string" where
  "digits n = (if n < 10 then [digit_char n] else digits (n div 10) @ [digit_char (n mod 10)])"
  by pat_completeness auto
termination
  by (relation "measure nat") auto

declare digits.simps [simp del]

definition show_int :: "int \<Rightarrow> string" where
  "show_int n = (if n < 0 then ''-'' @ digits (- n) else digits n)"

text \<open>
  \<^verbatim>\<open>x.toFixed(2)\<close> on a finite \<open>x\<close> with \<open>|x| < 10^21\<close> picks the integer \<open>n\<close> for which
  \<open>n / 100\<close> is closest to \<open>|x|\<close>, the larger one of two; \<open>cents\<close> is that \<open>n\<close>.
\<close>

definition cents :: "rat \<Rightarrow> int" where
  "cents m = \<lfloor>100 * m + 1 / 2\<rfloor>"

definition fixed2 :: "rat \<Rightarrow> string" where
  "fixed2 m = (let n = cents m
     in digits (n div 100) @ ''.'' @ [digit_char (n div 10 mod 10), digit_char (n mod 10)])"

text \<open>
  From \<open>10^21\<close> on, \<^verbatim>\<open>toFixed\<close> hands over to \<^verbatim>\<open>Number::toString\<close>: the shortest digit string
  \<open>s\<close> (\<open>k\<close> digits) with \<open>s * 10^(n-k)\<close> rounding to the value, the closest such \<open>s\<close> when
  there are two, printed in exponent notation because \<open>n > 21\<close>.
\<close>

definition digits_for :: "rat \<Rightarrow> nat \<Rightarrow> nat \<Rightarrow> int option" where
  "digits_for q n0 k = (let scale = 10 ^ (n0 - k); lo = \<lfloor>q / scale\<rfloor>; hi = lo + 1
     in if rd (of_int lo * scale) = Fin q then
          (if rd (of_int hi * scale) = Fin q \<and> of_int hi * scale - q < q - of_int lo * scale
           then Some hi else Some lo)
        else if rd (of_int hi * scale) = Fin q then Some hi
        else None)"

function shortest_digits :: "rat \<Rightarrow> nat \<Rightarrow> nat \<Rightarrow> int \<times> nat" where
  "shortest_digits q n0 k =
     (if 17 < k then (\<lfloor>q / 10 ^ (n0 - k)\<rfloor>, k)
      else case digits_for q n0 k of Some s \<Rightarrow> (s, k) | None \<Rightarrow> shortest_digits q n0 (Suc k))"
  by pat_completeness auto
termination
  by (relation "measure (\<lambda>(q, n0, k). 18 - k)") auto

declare shortest_digits.simps [simp del]

fun strip_zeros :: "string \<Rightarrow> string" where
  "strip_zeros [] = []"
| "strip_zeros (c # cs) = (let r = strip_zeros cs in if r = [] \<and> c = CHR ''0'' then [] else c # r)"

text \<open>
  \<open>n0\<close> is the number of digits of the integer part; a candidate \<open>s = 10^k\<close> has one
  digit more than \<open>k\<close> and moves the decimal exponent up by one.
\<close>

definition exp_notation :: "rat \<Rightarrow> string" where
  "exp_notation q = (let n0 = length (digits \<lfloor>q\<rfloor>);
       (s, k) = shortest_digits q n0 1;
       n = n0 + (length (digits s) - k);
       ds = strip_zeros (digits s)
     in (case ds of [] \<Rightarrow> [] | d # rest \<Rightarrow>
          d # (if rest = [] then [] else ''.'' @ rest) @ ''e+'' @ digits (int n - 1)))"

text \<open>\<^verbatim>\<open>x.toFixed(2)\<close>.\<close>

fun toFixed2 :: "jsnum \<Rightarrow> string" where
  "toFixed2 NaN = ''NaN''"
| "toFixed2 PInf = ''Infinity''"
| "toFixed2 NInf = ''-Infinity''"
| "toFixed2 (Fin q) = (if q < 0 then ''-'' else []) @
     (if 10 ^ 21 \<le> \<bar>q\<bar> then exp_notation \<bar>q\<bar> else fixed2 \<bar>q\<bar>)"

text \<open>
  \<^verbatim>\<open>Number(x.toFixed(2))\<close>, at the level of values: reading the numeral \<open>n / 100\<close> back
  gives the binary64 value nearest to it, with the sign of \<open>x\<close>; the strings \<^verbatim>\<open>"NaN"\<close>
  and \<^verbatim>\<open>"Infinity"\<close> and the exponent notation read back as the value they were printed
  from.
\<close>

fun Number_toFixed2 :: "jsnum \<Rightarrow> jsnum" where
  "Number_toFixed2 (Fin q) =
     (if 10 ^ 21 \<le> \<bar>q\<bar> then Fin q
      else if q < 0 then js_neg (rd (of_int (cents \<bar>q\<bar>) / 100))
      else rd (of_int (cents \<bar>q\<bar>) / 100))"
| "Number_toFixed2 x = x"

text \<open>\<^verbatim>\<open>s.includes(t)\<close> on strings.\<close>

fun starts_with :: "string \<Rightarrow> string \<Rightarrow> bool" where
  "starts_with ys [] = True"
| "starts_with [] (x # xs) = False"
| "starts_with (y # ys) (x # xs) = (x = y \<and> starts_with ys xs)"

fun str_includes :: "string \<Rightarrow> string \<Rightarrow> bool" where
  "str_includes [] xs = (xs = [])"
| "str_includes (y # ys) xs = (starts_with (y # ys) xs \<or> str_includes ys xs)"

section \<open>Request values\<close>

text \<open>
  A field of a JSON body is a scalar of JSON, or absent (\<open>JUndefined\<close>).  The handlers test
  \<^verbatim>\<open>amount\<close> with \<^verbatim>\<open>typeof\<close>, so it is kept as such a value.  Identifiers, \<^verbatim>\<open>reference\<close>
  and \<^verbatim>\<open>description\<close> are strings in the interface contract and are tested for
  truthiness only: they are optional strings, \<open>None\<close> standing for an absent or
  \<^verbatim>\<open>null\<close> field.  A character stands for a UTF-16 code unit below 256.
\<close>

datatype jsval = JUndefined | JNull | JBool bool | JNum jsnum | JStr string

text \<open>\<^verbatim>\<open>!!v\<close> for an optional string: absent and the empty string are falsy.\<close>

fun truthy :: "string option \<Rightarrow> bool" where
  "truthy None = False"
| "truthy (Some s) = (s \<noteq> [])"

text \<open>The string held by a field; applied only behind a \<open>truthy\<close> test.\<close>

fun str :: "string option \<Rightarrow> string" where
  "str (Some s) = s"
| "str None = []"

text \<open>The Number held by a field; applied only behind \<open>isPositiveNumber\<close>.\<close>

fun num_of :: "jsval \<Rightarrow> jsnum" where
  "num_of (JNum n) = n"
| "num_of _ = NaN"

fun isPositiveNumber :: "jsval \<Rightarrow> bool" where
  "isPositiveNumber (JNum x) = (isFinite x \<and> js_lt (Fin 0) x)"
| "isPositiveNumber _ = False"

section \<open>The database\<close>

text \<open>
  The collections of \<^verbatim>\<open>db.json\<close>, each a list in insertion order.  A time stamp made
  by \<^verbatim>\<open>nowISO()\<close> is kept as the clock reading (milliseconds) that it renders.
\<close>

record bank =
  b_id :: int
  b_bankId :: string
  b_name :: string
  b_currency :: string
  b_status :: string
  b_createdAt :: int
  b_updatedAt :: int

record wallet =
  w_id :: int
  w_walletId :: string
  w_bankId :: string
  w_ownerId :: string
  w_ownerName :: string
  w_phoneNumber :: string
  w_balance :: jsnum
  w_status :: string
  w_createdAt :: int
  w_updatedAt :: int

text \<open>
  A transaction record; \<open>t_description\<close> is \<open>None\<close> where the object has no such
  property (credit, debit), \<open>Some None\<close> for \<^verbatim>\<open>null\<close>.
\<close>

record txn =
  t_id :: int
  t_createdAt :: int
  t_processedAt :: int
  t_transactionId :: string
  t_walletId :: string
  t_type :: string
  t_status :: string
  t_amount :: jsnum
  t_balanceBefore :: jsnum
  t_balanceAfter :: jsnum
  t_reference :: string
  t_description :: "string option option"
  t_timestamp :: int

text \<open>The body answered by credit and debit.\<close>

record txn_response =
  x_transactionId :: string
  x_walletId :: string
  x_type :: string
  x_status :: string
  x_amount :: jsnum
  x_balanceBefore :: jsnum
  x_balanceAfter :: jsnum
  x_reference :: string
  x_timestamp :: int

text \<open>The body answered by a transfer, also the payload cached under the idempotency key.\<close>

record transfer_response =
  r_transactionId :: string
  r_sourceWalletId :: string
  r_destinationWalletId :: string
  r_amount :: jsnum
  r_status :: string
  r_sourceBalanceBefore :: jsnum
  r_sourceBalanceAfter :: jsnum
  r_destinationBalanceBefore :: jsnum
  r_destinationBalanceAfter :: jsnum
  r_reference :: string
  r_description :: "string option"
  r_timestamp :: int

record idem =
  i_id :: int
  i_key :: string
  i_response :: transfer_response
  i_createdAt :: int

datatype payload =
    WalletCreated string string string string jsnum string int
  | WalletOperation string string jsnum jsnum jsnum string string int
  | TransferCompleted transfer_response

record event =
  ev_id :: int
  ev_topic :: string
  ev_payload :: payload
  ev_createdAt :: int

record db =
  banks :: "bank list"
  wallets :: "wallet list"
  transactions :: "txn list"
  events :: "event list"
  idempotency :: "idem list"

section \<open>Helpers of server.js\<close>

text \<open>The error body \<^verbatim>\<open>{ timestamp, status, error, message }\<close>.\<close>

record http_error =
  err_timestamp :: int
  err_status :: int
  err_error :: string
  err_message :: string

definition badRequest :: "int \<Rightarrow> string \<Rightarrow> string \<Rightarrow> http_error" where
  "badRequest now e m = \<lparr>err_timestamp = now, err_status = 400, err_error = e, err_message = m\<rparr>"

definition notFound :: "int \<Rightarrow> string \<Rightarrow> string \<Rightarrow> http_error" where
  "notFound now e m = \<lparr>err_timestamp = now, err_status = 404, err_error = e, err_message = m\<rparr>"

definition conflict :: "int \<Rightarrow> string \<Rightarrow> string \<Rightarrow> http_error" where
  "conflict now e m = \<lparr>err_timestamp = now, err_status = 409, err_error = e, err_message = m\<rparr>"

text \<open>
  \<^verbatim>\<open>db.get(c).find({ k })\<close> yields the first record whose field equals the value;
  \<^verbatim>\<open>.find({ k }).assign(o).write()\<close> overwrites fields of that first record and leaves the
  collection alone when there is none.
\<close>

definition findBankByBankId :: "db \<Rightarrow> string \<Rightarrow> bank option" where
  "findBankByBankId s bankId = find (\<lambda>b. b_bankId b = bankId) (banks s)"

definition findWalletByWalletId :: "db \<Rightarrow> string \<Rightarrow> wallet option" where
  "findWalletByWalletId s walletId = find (\<lambda>w. w_walletId w = walletId) (wallets s)"

definition walletExistsByPhone :: "db \<Rightarrow> string \<Rightarrow> bool" where
  "walletExistsByPhone s phoneNumber = (find (\<lambda>w. w_phoneNumber w = phoneNumber) (wallets s) \<noteq> None)"

fun assign_first :: "('a \<Rightarrow> bool) \<Rightarrow> ('a \<Rightarrow> 'a) \<Rightarrow> 'a list \<Rightarrow> 'a list" where
  "assign_first P f [] = []"
| "assign_first P f (x # xs) = (if P x then f x # xs else x # assign_first P f xs)"

text \<open>\<^verbatim>\<open>assign({ balance: after, updatedAt: nowISO() })\<close> on the wallet found by its identifier.\<close>

definition setBalance :: "string \<Rightarrow> jsnum \<Rightarrow> int \<Rightarrow> db \<Rightarrow> db" where
  "setBalance walletId after now s =
     s\<lparr>wallets := assign_first (\<lambda>w. w_walletId w = walletId)
                     (\<lambda>w. w\<lparr>w_balance := after, w_updatedAt := now\<rparr>) (wallets s)\<rparr>"

definition pushTransaction :: "txn \<Rightarrow> db \<Rightarrow> db" where
  "pushTransaction t s = s\<lparr>transactions := transactions s @ [t]\<rparr>"

text \<open>\<^verbatim>\<open>pushEvent(topic, payload)\<close> reads the clock twice, for \<^verbatim>\<open>id\<close> and \<^verbatim>\<open>createdAt\<close>.\<close>

definition pushEvent :: "int \<Rightarrow> int \<Rightarrow> string \<Rightarrow> payload \<Rightarrow> db \<Rightarrow> db" where
  "pushEvent now1 now2 topic pl s =
     s\<lparr>events := events s @ [\<lparr>ev_id = now1, ev_topic = topic, ev_payload = pl, ev_createdAt = now2\<rparr>]\<rparr>"


section \<open>Handlers\<close>

text \<open>
  A handler takes the clock of its request (\<open>clk k\<close> is the \<open>k\<close>-th reading, counted from 0,
  of \<^verbatim>\<open>Date.now()\<close> or \<^verbatim>\<open>nowISO()\<close> in program order), the request and the database;
  it returns the response, \<open>Inl\<close> for an error body, and the database it leaves.
  A reading is an integer number of milliseconds.
\<close>

record op_body =
  amount :: jsval
  reference :: "string option"

record transfer_body = op_body +
  sourceWalletId :: "string option"
  destinationWalletId :: "string option"
  description :: "string option"

record wallet_body =
  pb_walletId :: "string option"
  pb_bankId :: "string option"
  pb_ownerId :: "string option"
  pb_ownerName :: "string option"
  pb_phoneNumber :: "string option"
  pb_status :: "string option"
  pb_balance :: jsval

definition insufficient_message :: "jsnum \<Rightarrow> jsnum \<Rightarrow> string" where
  "insufficient_message bal amt =
     ''Solde insuffisant. Solde actuel: '' @ toFixed2 bal @
     '', Montant demand'' @ [CHR 0xE9] @ '': '' @ toFixed2 amt"

definition amount_message :: string where
  "amount_message = ''amount doit '' @ [CHR 0xEA] @ ''tre > 0''"

subsection \<open>POST /wallet/:walletId/credit\<close>

definition credit :: "(nat \<Rightarrow> int) \<Rightarrow> string \<Rightarrow> op_body \<Rightarrow> db \<Rightarrow> (http_error + txn_response) \<times> db" where
  "credit clk walletId body s =
    (case findWalletByWalletId s walletId of
       None \<Rightarrow> (Inl (notFound (clk 0) ''WALLET_NOT_FOUND'' ''Wallet inexistant''), s)
     | Some wallet \<Rightarrow>
        if \<not> isPositiveNumber (amount body) then
          (Inl (badRequest (clk 0) ''INVALID_AMOUNT'' amount_message), s)
        else if \<not> truthy (reference body) then
          (Inl (badRequest (clk 0) ''INVALID_REQUEST'' ''reference est requis''), s)
        else
          let bef = w_balance wallet;
              aft = Number_toFixed2 (js_add bef (num_of (amount body)));
              s1 = setBalance walletId aft (clk 0) s;
              txn = \<lparr>t_id = clk 1, t_createdAt = clk 2, t_processedAt = clk 3,
                     t_transactionId = ''TXN-'' @ show_int (clk 4),
                     t_walletId = walletId, t_type = ''CREDIT'', t_status = ''SUCCESS'',
                     t_amount = num_of (amount body),
                     t_balanceBefore = bef, t_balanceAfter = aft,
                     t_reference = str (reference body), t_description = None,
                     t_timestamp = clk 5\<rparr>;
              s2 = pushTransaction txn s1;
              s3 = pushEvent (clk 6) (clk 7) ''wallet.credited''
                     (WalletOperation (t_transactionId txn) (t_walletId txn) (t_amount txn)
                        (t_balanceBefore txn) (t_balanceAfter txn) (t_reference txn)
                        (t_status txn) (t_timestamp txn)) s2
          in (Inr \<lparr>x_transactionId = t_transactionId txn, x_walletId = t_walletId txn,
                    x_type = t_type txn, x_status = t_status txn, x_amount = t_amount txn,
                    x_balanceBefore = t_balanceBefore txn, x_balanceAfter = t_balanceAfter txn,
                    x_reference = t_reference txn, x_timestamp = t_timestamp txn\<rparr>, s3))"

subsection \<open>POST /wallet/:walletId/debit\<close>

definition debit :: "(nat \<Rightarrow> int) \<Rightarrow> string \<Rightarrow> op_body \<Rightarrow> db \<Rightarrow> (http_error + txn_response) \<times> db" where
  "debit clk walletId body s =
    (case findWalletByWalletId s walletId of
       None \<Rightarrow> (Inl (notFound (clk 0) ''WALLET_NOT_FOUND'' ''Wallet inexistant''), s)
     | Some wallet \<Rightarrow>
        if \<not> isPositiveNumber (amount body) then
          (Inl (badRequest (clk 0) ''INVALID_AMOUNT'' amount_message), s)
        else if \<not> truthy (reference body) then
          (Inl (badRequest (clk 0) ''INVALID_REQUEST'' ''reference est requis''), s)
        else if js_lt (w_balance wallet) (num_of (amount body)) then
          (Inl (badRequest (clk 0) ''INSUFFICIENT_FUNDS''
                  (insufficient_message (w_balance wallet) (num_of (amount body)))), s)
        else
          let bef = w_balance wallet;
              aft = Number_toFixed2 (js_sub bef (num_of (amount body)));
              s1 = setBalance walletId aft (clk 0) s;
              txn = \<lparr>t_id = clk 1, t_createdAt = clk 2, t_processedAt = clk 3,
                     t_transactionId = ''TXN-'' @ show_int (clk 4),
                     t_walletId = walletId, t_type = ''DEBIT'', t_status = ''SUCCESS'',
                     t_amount = num_of (amount body),
                     t_balanceBefore = bef, t_balanceAfter = aft,
                     t_reference = str (reference body), t_description = None,
                     t_timestamp = clk 5\<rparr>;
              s2 = pushTransaction txn s1;
              s3 = pushEvent (clk 6) (clk 7) ''wallet.debited''
                     (WalletOperation (t_transactionId txn) (t_walletId txn) (t_amount txn)
                        (t_balanceBefore txn) (t_balanceAfter txn) (t_reference txn)
                        (t_status txn) (t_timestamp txn)) s2
          in (Inr \<lparr>x_transactionId = t_transactionId txn, x_walletId = t_walletId txn,
                    x_type = t_type txn, x_status = t_status txn, x_amount = t_amount txn,
                    x_balanceBefore = t_balanceBefore txn, x_balanceAfter = t_balanceAfter txn,
                    x_reference = t_reference txn, x_timestamp = t_timestamp txn\<rparr>, s3))"

subsection \<open>POST /wallet/transfer\<close>

text \<open>
  The header \<^verbatim>\<open>X-Idempotency-Key\<close> is an optional string.  The part of the handler that
  runs once the checks and the cache lookup are passed is \<open>transfer_execute\<close>.
\<close>

definition lookup_idempotency :: "db \<Rightarrow> string \<Rightarrow> idem option" where
  "lookup_idempotency s k = find (\<lambda>r. i_key r = k) (idempotency s)"

definition transfer_execute ::
  "(nat \<Rightarrow> int) \<Rightarrow> transfer_body \<Rightarrow> string option \<Rightarrow> wallet \<Rightarrow> wallet \<Rightarrow> db \<Rightarrow> transfer_response \<times> db" where
  "transfer_execute clk body idemKey src dst s =
    (let srcBefore = w_balance src;
         dstBefore = w_balance dst;
         srcAfter = Number_toFixed2 (js_sub srcBefore (num_of (amount body)));
         dstAfter = Number_toFixed2 (js_add dstBefore (num_of (amount body)));
         s1 = setBalance (str (sourceWalletId body)) srcAfter (clk 0) s;
         s2 = setBalance (str (destinationWalletId body)) dstAfter (clk 1) s1;
         descr = (if truthy (description body) then description body else None);
         debitTxn = \<lparr>t_id = clk 2, t_createdAt = clk 3, t_processedAt = clk 4,
                     t_transactionId = ''TXN-'' @ show_int (clk 5) @ ''-D'',
                     t_walletId = str (sourceWalletId body), t_type = ''DEBIT'',
                     t_status = ''SUCCESS'', t_amount = num_of (amount body),
                     t_balanceBefore = srcBefore, t_balanceAfter = srcAfter,
                     t_reference = str (reference body), t_description = Some descr,
                     t_timestamp = clk 6\<rparr>;
         creditTxn = \<lparr>t_id = clk 7 + 1, t_createdAt = clk 8, t_processedAt = clk 9,
                     t_transactionId = ''TXN-'' @ show_int (clk 10) @ ''-C'',
                     t_walletId = str (destinationWalletId body), t_type = ''CREDIT'',
                     t_status = ''SUCCESS'', t_amount = num_of (amount body),
                     t_balanceBefore = dstBefore, t_balanceAfter = dstAfter,
                     t_reference = str (reference body), t_description = Some descr,
                     t_timestamp = clk 11\<rparr>;
         s3 = pushTransaction debitTxn s2;
         s4 = pushTransaction creditTxn s3;
         response = \<lparr>r_transactionId = ''TRF-'' @ show_int (clk 12),
                     r_sourceWalletId = str (sourceWalletId body),
                     r_destinationWalletId = str (destinationWalletId body),
                     r_amount = num_of (amount body), r_status = ''SUCCESS'',
                     r_sourceBalanceBefore = srcBefore, r_sourceBalanceAfter = srcAfter,
                     r_destinationBalanceBefore = dstBefore, r_destinationBalanceAfter = dstAfter,
                     r_reference = str (reference body), r_description = descr,
                     r_timestamp = clk 13\<rparr>;
         s5 = pushEvent (clk 14) (clk 15) ''wallet.transfer.completed'' (TransferCompleted response) s4;
         s6 = (if truthy idemKey
               then s5\<lparr>idempotency := idempotency s5 @
                      [\<lparr>i_id = clk 16, i_key = str idemKey, i_response = response,
                        i_createdAt = clk 17\<rparr>]\<rparr>
               else s5)
     in (response, s6))"

definition transfer ::
  "(nat \<Rightarrow> int) \<Rightarrow> transfer_body \<Rightarrow> string option \<Rightarrow> db \<Rightarrow> (http_error + transfer_response) \<times> db" where
  "transfer clk body idemKey s =
    (if \<not> truthy (sourceWalletId body) \<or> \<not> truthy (destinationWalletId body) \<or>
        \<not> isPositiveNumber (amount body) \<or> \<not> truthy (reference body) then
       (Inl (badRequest (clk 0) ''INVALID_REQUEST''
               ''sourceWalletId, destinationWalletId, amount>0, reference requis''), s)
     else if str (sourceWalletId body) = str (destinationWalletId body) then
       (Inl (badRequest (clk 0) ''INVALID_TRANSFER'' ''Source et destination identiques''), s)
     else
       case findWalletByWalletId s (str (sourceWalletId body)) of
         None \<Rightarrow> (Inl (notFound (clk 0) ''WALLET_NOT_FOUND''
                         (''Wallet source inexistant: '' @ str (sourceWalletId body))), s)
       | Some src \<Rightarrow>
          (case findWalletByWalletId s (str (destinationWalletId body)) of
             None \<Rightarrow> (Inl (notFound (clk 0) ''WALLET_NOT_FOUND''
                             (''Wallet destination inexistant: '' @ str (destinationWalletId body))), s)
           | Some dst \<Rightarrow>
              (case (if truthy idemKey then lookup_idempotency s (str idemKey) else None) of
                 Some cached \<Rightarrow> (Inr (i_response cached), s)
               | None \<Rightarrow>
                  if js_lt (w_balance src) (num_of (amount body)) then
                    (Inl (badRequest (clk 0) ''INSUFFICIENT_FUNDS''
                            (insufficient_message (w_balance src) (num_of (amount body)))), s)
                  else
                    (case transfer_execute clk body idemKey src dst s of
                       (response, s') \<Rightarrow> (Inr response, s')))))"

subsection \<open>POST /wallet and PUT /wallet/:walletId\<close>

text \<open>
  A PUT writes the \<^verbatim>\<open>balance\<close> of its body to the wallet whenever it is a number, without
  a check.
\<close>

definition post_wallet :: "(nat \<Rightarrow> int) \<Rightarrow> wallet_body \<Rightarrow> db \<Rightarrow> (http_error + wallet) \<times> db" where
  "post_wallet clk body s =
    (if \<not> truthy (pb_walletId body) \<or> \<not> truthy (pb_bankId body) \<or> \<not> truthy (pb_ownerId body) \<or>
        \<not> truthy (pb_ownerName body) \<or> \<not> truthy (pb_phoneNumber body) then
       (Inl (badRequest (clk 0) ''INVALID_REQUEST''
               ''walletId, bankId, ownerId, ownerName, phoneNumber sont requis''), s)
     else if findBankByBankId s (str (pb_bankId body)) = None then
       (Inl (notFound (clk 0) ''BANK_NOT_FOUND''
               (''Banque '' @ str (pb_bankId body) @ '' introuvable'')), s)
     else if findWalletByWalletId s (str (pb_walletId body)) \<noteq> None then
       (Inl (conflict (clk 0) ''WALLET_ALREADY_EXISTS''
               (''Le wallet '' @ str (pb_walletId body) @ '' existe d'' @ [CHR 0xE9] @ ''j'' @ [CHR 0xE0])), s)
     else if walletExistsByPhone s (str (pb_phoneNumber body)) then
       (Inl (conflict (clk 0) ''WALLET_PHONE_ALREADY_EXISTS''
               (''Un wallet existe d'' @ [CHR 0xE9] @ ''j'' @ [CHR 0xE0] @ '' pour '' @
                str (pb_phoneNumber body))), s)
     else
       let wallet = \<lparr>w_id = clk 0, w_walletId = str (pb_walletId body),
                      w_bankId = str (pb_bankId body), w_ownerId = str (pb_ownerId body),
                      w_ownerName = str (pb_ownerName body),
                      w_phoneNumber = str (pb_phoneNumber body), w_balance = Fin 0,
                      w_status = ''ACTIVE'', w_createdAt = clk 1, w_updatedAt = clk 2\<rparr>;
           s1 = s\<lparr>wallets := wallets s @ [wallet]\<rparr>;
           s2 = pushEvent (clk 3) (clk 4) ''wallet.created''
                  (WalletCreated (w_walletId wallet) (w_phoneNumber wallet) (w_ownerId wallet)
                     (w_ownerName wallet) (Fin 0) (w_status wallet) (w_createdAt wallet)) s1
       in (Inr wallet, s2))"

definition put_wallet :: "(nat \<Rightarrow> int) \<Rightarrow> string \<Rightarrow> wallet_body \<Rightarrow> db \<Rightarrow> (http_error + wallet) \<times> db" where
  "put_wallet clk walletId body s =
    (case findWalletByWalletId s walletId of
       None \<Rightarrow> (Inl (notFound (clk 0) ''WALLET_NOT_FOUND'' ''Wallet introuvable''), s)
     | Some wallet \<Rightarrow>
        if \<not> truthy (pb_bankId body) \<or> \<not> truthy (pb_ownerId body) \<or> \<not> truthy (pb_ownerName body) \<or>
           \<not> truthy (pb_phoneNumber body) \<or> \<not> truthy (pb_status body) then
          (Inl (badRequest (clk 0) ''INVALID_REQUEST''
                  ''bankId, ownerId, ownerName, phoneNumber, status requis (PUT)''), s)
        else if findBankByBankId s (str (pb_bankId body)) = None then
          (Inl (notFound (clk 0) ''BANK_NOT_FOUND''
                  (''Banque '' @ str (pb_bankId body) @ '' introuvable'')), s)
        else if str (pb_phoneNumber body) \<noteq> w_phoneNumber wallet \<and>
                walletExistsByPhone s (str (pb_phoneNumber body)) then
          (Inl (conflict (clk 0) ''WALLET_PHONE_ALREADY_EXISTS''
                  (''Un wallet existe d'' @ [CHR 0xE9] @ ''j'' @ [CHR 0xE0] @ '' pour '' @
                   str (pb_phoneNumber body))), s)
        else
          let updated = wallet\<lparr>w_bankId := str (pb_bankId body), w_ownerId := str (pb_ownerId body),
                               w_ownerName := str (pb_ownerName body),
                               w_phoneNumber := str (pb_phoneNumber body),
                               w_status := str (pb_status body),
                               w_balance := (case pb_balance body of JNum b \<Rightarrow> b
                                             | _ \<Rightarrow> w_balance wallet),
                               w_updatedAt := clk 0\<rparr>
          in (Inr updated,
              s\<lparr>wallets := assign_first (\<lambda>w. w_walletId w = walletId) (\<lambda>w. updated) (wallets s)\<rparr>))"

subsection \<open>PATCH /wallet/:walletId\<close>

text \<open>
  The body of a PATCH is spread over the wallet: \<^verbatim>\<open>{ ...wallet, ...patch, walletId,
  updatedAt: nowISO() }\<close>, so every field that the body carries replaces the wallet's, the
  balance among them, without a check; \<^verbatim>\<open>walletId\<close> and \<^verbatim>\<open>updatedAt\<close> are set after the
  spread.  A field of the body is absent (\<open>None\<close>) or holds a value of the type that the
  field has in the wallet; \<^verbatim>\<open>patch.bankId\<close> and \<^verbatim>\<open>patch.phoneNumber\<close> are tested for
  truthiness.
\<close>

record wallet_patch =
  pa_id :: "int option"
  pa_bankId :: "string option"
  pa_ownerId :: "string option"
  pa_ownerName :: "string option"
  pa_phoneNumber :: "string option"
  pa_balance :: "jsnum option"
  pa_status :: "string option"
  pa_createdAt :: "int option"

text \<open>A field of \<^verbatim>\<open>{ ...record, ...patch }\<close>: the value of the patch when it has the field.\<close>

fun spread_field :: "'a \<Rightarrow> 'a option \<Rightarrow> 'a" where
  "spread_field v None = v"
| "spread_field v (Some p) = p"

definition patch_wallet :: "(nat \<Rightarrow> int) \<Rightarrow> string \<Rightarrow> wallet_patch \<Rightarrow> db \<Rightarrow> (http_error + wallet) \<times> db" where
  "patch_wallet clk walletId patch s =
    (case findWalletByWalletId s walletId of
       None \<Rightarrow> (Inl (notFound (clk 0) ''WALLET_NOT_FOUND'' ''Wallet introuvable''), s)
     | Some wallet \<Rightarrow>
        if truthy (pa_bankId patch) \<and> findBankByBankId s (str (pa_bankId patch)) = None then
          (Inl (notFound (clk 0) ''BANK_NOT_FOUND''
                  (''Banque '' @ str (pa_bankId patch) @ '' introuvable'')), s)
        else if truthy (pa_phoneNumber patch) \<and> str (pa_phoneNumber patch) \<noteq> w_phoneNumber wallet \<and>
                walletExistsByPhone s (str (pa_phoneNumber patch)) then
          (Inl (conflict (clk 0) ''WALLET_PHONE_ALREADY_EXISTS''
                  (''Un wallet existe d'' @ [CHR 0xE9] @ ''j'' @ [CHR 0xE0] @ '' pour '' @
                   str (pa_phoneNumber patch))), s)
        else
          let updated = \<lparr>w_id = spread_field (w_id wallet) (pa_id patch),
                          w_walletId = walletId,
                          w_bankId = spread_field (w_bankId wallet) (pa_bankId patch),
                          w_ownerId = spread_field (w_ownerId wallet) (pa_ownerId patch),
                          w_ownerName = spread_field (w_ownerName wallet) (pa_ownerName patch),
                          w_phoneNumber = spread_field (w_phoneNumber wallet) (pa_phoneNumber patch),
                          w_balance = spread_field (w_balance wallet) (pa_balance patch),
                          w_status = spread_field (w_status wallet) (pa_status patch),
                          w_createdAt = spread_field (w_createdAt wallet) (pa_createdAt patch),
                          w_updatedAt = clk 0\<rparr>
          in (Inr updated,
              s\<lparr>wallets := assign_first (\<lambda>w. w_walletId w = walletId) (\<lambda>w. updated) (wallets s)\<rparr>))"

subsection \<open>DELETE /wallet/:walletId\<close>

text \<open>
  \<^verbatim>\<open>wallet.balance !== 0\<close> refuses the deletion; otherwise the transactions of the wallet
  and the wallet are removed (\<^verbatim>\<open>remove({ walletId })\<close> drops every match).  The answer
  is 204 without a body.
\<close>

definition delete_wallet :: "(nat \<Rightarrow> int) \<Rightarrow> string \<Rightarrow> db \<Rightarrow> (http_error + unit) \<times> db" where
  "delete_wallet clk walletId s =
    (case findWalletByWalletId s walletId of
       None \<Rightarrow> (Inl (notFound (clk 0) ''WALLET_NOT_FOUND'' ''Wallet introuvable''), s)
     | Some wallet \<Rightarrow>
        if w_balance wallet \<noteq> Fin 0 then
          (Inl (conflict (clk 0) ''WALLET_BALANCE_NOT_ZERO''
                  (''Impossible de supprimer: le solde du wallet n'' @ [CHR 0x27] @ ''est pas z'' @
                   [CHR 0xE9] @ ''ro'')), s)
        else
          (Inr (), s\<lparr>transactions := filter (\<lambda>t. t_walletId t \<noteq> walletId) (transactions s),
                     wallets := filter (\<lambda>w. w_walletId w \<noteq> walletId) (wallets s)\<rparr>))"

subsection \<open>The bank endpoints\<close>

text \<open>
  \<^verbatim>\<open>POST /bank\<close>, \<^verbatim>\<open>PUT\<close>, \<^verbatim>\<open>PATCH\<close> and \<^verbatim>\<open>DELETE /bank/:bankId\<close> write the collection of
  banks only.  The fields of a body are optional strings, as for a wallet; the body of a
  PATCH is spread over the bank, \<^verbatim>\<open>bankId\<close> and \<^verbatim>\<open>updatedAt\<close> being set after the spread.
\<close>

record bank_body =
  bb_bankId :: "string option"
  bb_name :: "string option"
  bb_currency :: "string option"
  bb_status :: "string option"

record bank_patch =
  bp_id :: "int option"
  bp_name :: "string option"
  bp_currency :: "string option"
  bp_status :: "string option"
  bp_createdAt :: "int option"

definition post_bank :: "(nat \<Rightarrow> int) \<Rightarrow> bank_body \<Rightarrow> db \<Rightarrow> (http_error + bank) \<times> db" where
  "post_bank clk body s =
    (if \<not> truthy (bb_bankId body) \<or> \<not> truthy (bb_name body) \<or> \<not> truthy (bb_currency body) then
       (Inl (badRequest (clk 0) ''INVALID_REQUEST'' ''bankId, name, currency sont requis''), s)
     else if findBankByBankId s (str (bb_bankId body)) \<noteq> None then
       (Inl (conflict (clk 0) ''BANK_ALREADY_EXISTS''
               (''La banque '' @ str (bb_bankId body) @ '' existe d'' @ [CHR 0xE9] @ ''j'' @ [CHR 0xE0])), s)
     else
       let bank = \<lparr>b_id = clk 0, b_bankId = str (bb_bankId body), b_name = str (bb_name body),
                    b_currency = str (bb_currency body), b_status = ''ACTIVE'',
                    b_createdAt = clk 1, b_updatedAt = clk 2\<rparr>
       in (Inr bank, s\<lparr>banks := banks s @ [bank]\<rparr>))"

definition put_bank :: "(nat \<Rightarrow> int) \<Rightarrow> string \<Rightarrow> bank_body \<Rightarrow> db \<Rightarrow> (http_error + bank) \<times> db" where
  "put_bank clk bankId body s =
    (case findBankByBankId s bankId of
       None \<Rightarrow> (Inl (notFound (clk 0) ''BANK_NOT_FOUND'' ''Banque introuvable''), s)
     | Some bank \<Rightarrow>
        if \<not> truthy (bb_name body) \<or> \<not> truthy (bb_currency body) then
          (Inl (badRequest (clk 0) ''INVALID_REQUEST'' ''name et currency sont requis (PUT)''), s)
        else
          let updated = bank\<lparr>b_name := str (bb_name body), b_currency := str (bb_currency body),
                             b_status := (if truthy (bb_status body) then str (bb_status body)
                                          else b_status bank),
                             b_updatedAt := clk 0\<rparr>
          in (Inr updated,
              s\<lparr>banks := assign_first (\<lambda>b. b_bankId b = bankId) (\<lambda>b. updated) (banks s)\<rparr>))"

definition patch_bank :: "(nat \<Rightarrow> int) \<Rightarrow> string \<Rightarrow> bank_patch \<Rightarrow> db \<Rightarrow> (http_error + bank) \<times> db" where
  "patch_bank clk bankId patch s =
    (case findBankByBankId s bankId of
       None \<Rightarrow> (Inl (notFound (clk 0) ''BANK_NOT_FOUND'' ''Banque introuvable''), s)
     | Some bank \<Rightarrow>
        let updated = \<lparr>b_id = spread_field (b_id bank) (bp_id patch), b_bankId = bankId,
                        b_name = spread_field (b_name bank) (bp_name patch),
                        b_currency = spread_field (b_currency bank) (bp_currency patch),
                        b_status = spread_field (b_status bank) (bp_status patch),
                        b_createdAt = spread_field (b_createdAt bank) (bp_createdAt patch),
                        b_updatedAt = clk 0\<rparr>
        in (Inr updated,
            s\<lparr>banks := assign_first (\<lambda>b. b_bankId b = bankId) (\<lambda>b. updated) (banks s)\<rparr>))"

definition delete_bank :: "(nat \<Rightarrow> int) \<Rightarrow> string \<Rightarrow> db \<Rightarrow> (http_error + unit) \<times> db" where
  "delete_bank clk bankId s =
    (case findBankByBankId s bankId of
       None \<Rightarrow> (Inl (notFound (clk 0) ''BANK_NOT_FOUND'' ''Banque introuvable''), s)
     | Some bank \<Rightarrow>
        if list_ex (\<lambda>w. w_bankId w = bankId) (wallets s) then
          (Inl (conflict (clk 0) ''BANK_HAS_WALLETS''
                  (''Impossible de supprimer: des wallets sont li'' @ [CHR 0xE9] @ ''s '' @
                   [CHR 0xE0] @ '' cette banque'')), s)
        else
          (Inr (), s\<lparr>banks := filter (\<lambda>b. b_bankId b \<noteq> bankId) (banks s)\<rparr>))"

subsection \<open>Sequences of requests\<close>

text \<open>
  The requests that write to the database through the endpoints of \<^verbatim>\<open>server.js\<close>, and the
  database that a sequence of them leaves.  A request that only reads, or that the API-key check
  refuses, leaves the database as it is.
\<close>

datatype request =
    Credit "nat \<Rightarrow> int" string op_body
  | Debit "nat \<Rightarrow> int" string op_body
  | Transfer "nat \<Rightarrow> int" transfer_body "string option"
  | PostWallet "nat \<Rightarrow> int" wallet_body
  | PutWallet "nat \<Rightarrow> int" string wallet_body
  | PatchWallet "nat \<Rightarrow> int" string wallet_patch
  | DeleteWallet "nat \<Rightarrow> int" string
  | PostBank "nat \<Rightarrow> int" bank_body
  | PutBank "nat \<Rightarrow> int" string bank_body
  | PatchBank "nat \<Rightarrow> int" string bank_patch
  | DeleteBank "nat \<Rightarrow> int" string

fun handle :: "request \<Rightarrow> db \<Rightarrow> db" where
  "handle (Credit clk walletId body) s = snd (credit clk walletId body s)"
| "handle (Debit clk walletId body) s = snd (debit clk walletId body s)"
| "handle (Transfer clk body idemKey) s = snd (transfer clk body idemKey s)"
| "handle (PostWallet clk body) s = snd (post_wallet clk body s)"
| "handle (PutWallet clk walletId body) s = snd (put_wallet clk walletId body s)"
| "handle (PatchWallet clk walletId patch) s = snd (patch_wallet clk walletId patch s)"
| "handle (DeleteWallet clk walletId) s = snd (delete_wallet clk walletId s)"
| "handle (PostBank clk body) s = snd (post_bank clk body s)"
| "handle (PutBank clk bankId body) s = snd (put_bank clk bankId body s)"
| "handle (PatchBank clk bankId patch) s = snd (patch_bank clk bankId patch s)"
| "handle (DeleteBank clk bankId) s = snd (delete_bank clk bankId s)"

fun serve :: "request list \<Rightarrow> db \<Rightarrow> db" where
  "serve [] s = s"
| "serve (r # rs) s = serve rs (handle r s)"








text \<open>The first test of the transfer handler, as a predicate on the body.\<close>

definition transfer_fields_ok :: "transfer_body \<Rightarrow> bool" where
  "transfer_fields_ok body = (truthy (sourceWalletId body) \<and> truthy (destinationWalletId body) \<and>
      isPositiveNumber (amount body) \<and> truthy (reference body))"

text \<open>An outcome that is the error \<open>code\<close> and leaves the database \<open>s\<close> in place.\<close>

definition fails_with :: "(http_error + 'a) \<times> db \<Rightarrow> db \<Rightarrow> string \<Rightarrow> bool" where
  "fails_with res s code = (case fst res of Inl e \<Rightarrow> err_error e = code \<and> snd res = s | Inr x \<Rightarrow> False)"

section \<open>Example data\<close>

text \<open>Wallets and requests of the scenarios, used where a statement is run on a concrete input.\<close>

definition example_wallet :: "int \<Rightarrow> string \<Rightarrow> string \<Rightarrow> jsnum \<Rightarrow> wallet" where
  "example_wallet n wid phone bal =
     \<lparr>w_id = n, w_walletId = wid, w_bankId = ''BANK-001'', w_ownerId = ''USER-001'',
      w_ownerName = ''Mamadou Diallo'', w_phoneNumber = phone, w_balance = bal,
      w_status = ''ACTIVE'', w_createdAt = 0, w_updatedAt = 0\<rparr>"

definition example_db :: "jsnum \<Rightarrow> jsnum \<Rightarrow> db" where
  "example_db balA balB =
     \<lparr>banks = [\<lparr>b_id = 1, b_bankId = ''BANK-001'', b_name = ''OND Bank'', b_currency = ''XOF'',
                 b_status = ''ACTIVE'', b_createdAt = 0, b_updatedAt = 0\<rparr>],
      wallets = [example_wallet 1 ''WALLET-001'' ''+221771234567'' balA,
                 example_wallet 2 ''WALLET-002'' ''+221771234568'' balB],
      transactions = [], events = [], idempotency = []\<rparr>"

definition example_clock :: "nat \<Rightarrow> int" where
  "example_clock k = 1000 + k"

definition example_body :: "jsval \<Rightarrow> string option \<Rightarrow> op_body" where
  "example_body a r = \<lparr>amount = a, reference = r\<rparr>"

definition example_transfer :: "string option \<Rightarrow> string option \<Rightarrow> jsval \<Rightarrow> string option \<Rightarrow> transfer_body" where
  "example_transfer src dst a r =
     \<lparr>amount = a, reference = r, sourceWalletId = src, destinationWalletId = dst,
      description = Some ''Paiement facture''\<rparr>"




text \<open>
  The database after a first transfer of 2000 from \<^verbatim>\<open>WALLET-001\<close> (3500) to
  \<^verbatim>\<open>WALLET-002\<close> (2000) under the idempotency key \<^verbatim>\<open>KEY-1\<close>, and the response cached
  by it.
\<close>

definition example_request :: transfer_body where
  "example_request = example_transfer (Some ''WALLET-001'') (Some ''WALLET-002'') (JNum (Fin 2000)) (Some ''TRF-001'')"

definition example_replay_db :: db where
  "example_replay_db = snd (transfer example_clock example_request (Some ''KEY-1'') (example_db (Fin 3500) (Fin 2000)))"

definition example_response :: transfer_response where
  "example_response =
     \<lparr>r_transactionId = ''TRF-1012'', r_sourceWalletId = ''WALLET-001'',
      r_destinationWalletId = ''WALLET-002'', r_amount = Fin 2000, r_status = ''SUCCESS'',
      r_sourceBalanceBefore = Fin 3500, r_sourceBalanceAfter = Fin 1500,
      r_destinationBalanceBefore = Fin 2000, r_destinationBalanceAfter = Fin 4000,
      r_reference = ''TRF-001'', r_description = Some ''Paiement facture'', r_timestamp = 1013\<rparr>"

section \<open>Rounding to binary64\<close>

lemma pow2_powi: "pow2 k = 2 powi k"
  by (simp add: pow2_def power_int_def inverse_eq_divide power_one_over)

lemma pow2_pos: "0 < pow2 k"
  by (simp add: pow2_powi)

lemma pow2_add: "pow2 (a + b) = pow2 a * pow2 b"
  by (simp add: pow2_powi power_int_add)

lemma pow2_mono: "a \<le> b \<Longrightarrow> pow2 a \<le> pow2 b"
  by (simp add: pow2_powi power_int_increasing)

lemma bitlen_rat_bounds:
  assumes "0 < p"
  shows "pow2 (bitlen p - 1) \<le> of_int p" and "(of_int p :: rat) < pow2 (bitlen p)"
proof -
  from assms have b1: "1 \<le> bitlen p"
    using bitlen_eq_zero_iff [of p] bitlen_nonneg [of p] by linarith
  have "(2::int) ^ nat (bitlen p - 1) \<le> p" and "p < 2 ^ nat (bitlen p)"
    using bitlen_bounds [OF assms] by auto
  then have "(of_int ((2::int) ^ nat (bitlen p - 1)) :: rat) \<le> of_int p"
    and "(of_int p :: rat) < of_int (2 ^ nat (bitlen p))"
    by (simp_all only: of_int_le_iff of_int_less_iff)
  with b1 show "pow2 (bitlen p - 1) \<le> of_int p" and "(of_int p :: rat) < pow2 (bitlen p)"
    using bitlen_nonneg [of p] by (simp_all add: pow2_def)
qed

lemma ilog2_bounds:
  assumes "0 < m"
  shows "pow2 (ilog2 m) \<le> m \<and> m < pow2 (ilog2 m + 1)"
proof -
  obtain p d where pd: "quotient_of m = (p, d)" by (cases "quotient_of m")
  then have d: "0 < d" and m: "m = of_int p / of_int d"
    using quotient_of_denom_pos [OF pd] quotient_of_div [OF pd] by auto
  from assms m d have p: "0 < p"
    by (simp add: zero_less_divide_iff)
  define k where "k = bitlen p - bitlen d"
  have dpos: "(0::rat) < of_int d" using d by simp
  note bp = bitlen_rat_bounds [OF p] and bd = bitlen_rat_bounds [OF d]
  have up: "m < pow2 (k + 1)"
  proof -
    have "of_int p < pow2 (bitlen p)" by (rule bp)
    also have "pow2 (bitlen p) = pow2 (k + 1) * pow2 (bitlen d - 1)"
      by (simp add: k_def pow2_add [symmetric])
    also have "\<dots> \<le> pow2 (k + 1) * of_int d"
      using bd(1) pow2_pos [of "k + 1"] by (simp add: mult_left_mono)
    finally show ?thesis using dpos by (simp add: m pos_divide_less_eq)
  qed
  have low: "pow2 (k - 1) \<le> m"
  proof -
    have "pow2 (k - 1) * of_int d \<le> pow2 (k - 1) * pow2 (bitlen d)"
      using bd(2) pow2_pos [of "k - 1"] by (simp add: mult_left_mono)
    also have "\<dots> = pow2 (bitlen p - 1)"
      by (simp add: k_def pow2_add [symmetric])
    also have "\<dots> \<le> of_int p" by (rule bp)
    finally show ?thesis using dpos by (simp add: m pos_le_divide_eq)
  qed
  have il: "ilog2 m = (if pow2 k \<le> m then k else k - 1)"
    by (simp add: ilog2_def pd k_def Let_def)
  show ?thesis
  proof (cases "pow2 k \<le> m")
    case True
    with il up show ?thesis by simp
  next
    case False
    with il low show ?thesis by simp
  qed
qed

lemma round_half_even_error: "\<bar>of_int (round_half_even x) - x\<bar> \<le> 1 / 2"
proof -
  have "of_int \<lfloor>x\<rfloor> \<le> x" "x < of_int \<lfloor>x\<rfloor> + 1" by linarith+
  then show ?thesis
    by (auto simp add: round_half_even_def Let_def)
qed

lemma round_half_even_nonneg: "0 \<le> x \<Longrightarrow> 0 \<le> round_half_even x"
  by (auto simp add: round_half_even_def Let_def)


lemma rd_error:
  assumes "0 < q" and "q \<le> pow2 1023"
  shows "\<exists>v. rd q = Fin v \<and> 0 \<le> v \<and> \<bar>v - q\<bar> \<le> q / 2 ^ 53 + 1 / 2 ^ 1075"
proof -
  define e where "e = ilog2 q"
  define t where "t = max e (- 1022) - 52"
  define v where "v = of_int (round_half_even (q / pow2 t)) * pow2 t"
  have eb: "pow2 e \<le> q" "q < pow2 (e + 1)"
    using ilog2_bounds [OF assms(1)] by (simp_all add: e_def)
  have tpos: "0 < pow2 t" by (rule pow2_pos)
  have "\<bar>of_int (round_half_even (q / pow2 t)) - q / pow2 t\<bar> \<le> 1 / 2"
    by (rule round_half_even_error)
  then have "\<bar>of_int (round_half_even (q / pow2 t)) - q / pow2 t\<bar> * pow2 t \<le> 1 / 2 * pow2 t"
    using tpos by (simp add: mult_right_mono)
  moreover have "\<bar>of_int (round_half_even (q / pow2 t)) - q / pow2 t\<bar> * pow2 t = \<bar>v - q\<bar>"
  proof -
    have "\<bar>of_int (round_half_even (q / pow2 t)) - q / pow2 t\<bar> * pow2 t
        = \<bar>(of_int (round_half_even (q / pow2 t)) - q / pow2 t) * pow2 t\<bar>"
      using tpos by (simp add: abs_mult)
    also have "(of_int (round_half_even (q / pow2 t)) - q / pow2 t) * pow2 t = v - q"
      using tpos by (simp add: v_def algebra_simps)
    finally show ?thesis .
  qed
  ultimately have err: "\<bar>v - q\<bar> \<le> pow2 t / 2" by simp
  have tb: "pow2 t / 2 \<le> q / 2 ^ 53 + 1 / 2 ^ 1075"
  proof (cases "- 1022 \<le> e")
    case True
    then have "t = e + (- 52)" by (simp add: t_def)
    then have "pow2 t = pow2 e * pow2 (- 52)" by (simp only: pow2_add)
    also have "pow2 (- 52) = 1 / 2 ^ 52" by (simp add: pow2_def)
    finally have "pow2 t / 2 = pow2 e / 2 ^ 53" by simp
    also have "\<dots> \<le> q / 2 ^ 53" using eb(1) by (simp add: divide_right_mono)
    finally show ?thesis by simp
  next
    case False
    then have "t = - 1074" by (simp add: t_def)
    then have "pow2 t / 2 = 1 / 2 ^ 1075" by (simp add: pow2_def)
    moreover have "0 \<le> q / 2 ^ 53" using assms(1) by simp
    ultimately show ?thesis by linarith
  qed
  have vnon: "0 \<le> v"
    unfolding v_def using round_half_even_nonneg [of "q / pow2 t"] assms(1) tpos by simp
  have small: "v < pow2 1024"
  proof -
    have "v \<le> q + (q / 2 ^ 53 + 1 / 2 ^ 1075)" using err tb by linarith
    also have "\<dots> \<le> pow2 1023 + (pow2 1023 / 2 ^ 53 + 1 / 2 ^ 1075)"
      using assms(2) by (simp add: add_mono divide_right_mono)
    also have "\<dots> < pow2 1024" by (simp add: pow2_def)
    finally show ?thesis .
  qed
  have "rd q = Fin v"
    using assms(1) small by (simp add: rd_def Let_def v_def t_def e_def)
  with vnon err tb show ?thesis by auto
qed


lemma round_half_even_of_int: "round_half_even (of_int k) = k"
  by (simp add: round_half_even_def)

lemma rd_exact:
  assumes "0 < q" and "q < pow2 1024"
    and "q = of_int n * pow2 (max (ilog2 q) (- 1022) - 52)"
  shows "rd q = Fin q"
proof -
  define t where "t = max (ilog2 q) (- 1022) - 52"
  have "q / pow2 t = of_int n"
    using assms(3) pow2_pos [of t] by (simp add: t_def [symmetric])
  then have "of_int (round_half_even (q / pow2 t)) * pow2 t = q"
    using assms(3) by (simp add: round_half_even_of_int t_def [symmetric])
  then show ?thesis
    using assms(1,2) by (simp add: rd_def Let_def t_def [symmetric])
qed

lemma rd_of_nat:
  assumes "k \<le> 2 ^ 53"
  shows "rd (of_nat k) = Fin (of_nat k)"
proof (cases "k = 0")
  case True
  then show ?thesis by (simp add: rd_def)
next
  case False
  define q :: rat where "q = of_nat k"
  have q1: "1 \<le> q" using False by (simp add: q_def)
  have "rat_of_nat k \<le> of_nat (2 ^ 53)" using assms by (simp only: of_nat_le_iff)
  then have q53: "q \<le> 2 ^ 53" by (simp add: q_def)
  define e where "e = ilog2 q"
  have eb: "pow2 e \<le> q" "q < pow2 (e + 1)"
    using ilog2_bounds [of q] q1 by (simp_all add: e_def)
  have e0: "0 \<le> e"
  proof (rule ccontr)
    assume "\<not> 0 \<le> e"
    then have "pow2 (e + 1) \<le> pow2 0" by (intro pow2_mono) simp
    then show False using eb(2) q1 by (simp add: pow2_def)
  qed
  have e53: "e \<le> 53"
  proof (rule ccontr)
    assume "\<not> e \<le> 53"
    then have "pow2 54 \<le> pow2 e" by (intro pow2_mono) simp
    then show False using eb(1) q53 by (simp add: pow2_def)
  qed
  have small: "q < pow2 1024"
  proof -
    have "(2::rat) ^ 53 < 2 ^ 1024" by (rule power_strict_increasing) simp_all
    then show ?thesis using q53 by (simp add: pow2_def)
  qed
  have t: "max e (- 1022) - 52 = e - 52" using e0 by simp
  have "\<exists>n::int. q = of_int n * pow2 (e - 52)"
  proof (cases "e \<le> 52")
    case True
    then have p: "pow2 (e - 52) = 1 / 2 ^ nat (52 - e)"
      by (cases "e = 52") (simp_all add: pow2_def)
    have "q = of_int (int k * 2 ^ nat (52 - e)) * pow2 (e - 52)"
      by (simp add: p q_def)
    then show ?thesis by blast
  next
    case False
    with e53 have e: "e = 53" by simp
    then have "q = 2 ^ 53" using eb(1) q53 by (simp add: pow2_def)
    then have "q = of_int (2 ^ 52) * pow2 (e - 52)" by (simp add: e pow2_def)
    then show ?thesis by blast
  qed
  then obtain n :: int where "q = of_int n * pow2 (max (ilog2 q) (- 1022) - 52)"
    using t by (auto simp add: e_def)
  then have "rd q = Fin q"
    using q1 small by (intro rd_exact [where n = n]) simp_all
  then show ?thesis by (simp add: q_def)
qed

lemma rd_numeral: "numeral n \<le> (2::nat) ^ 53 \<Longrightarrow> rd (numeral n) = Fin (numeral n)"
  using rd_of_nat [of "numeral n"] by simp

lemma rd_zero: "rd 0 = Fin 0"
  by (simp add: rd_def)

lemma rd_one: "rd 1 = Fin 1"
  using rd_of_nat [of 1] by simp

lemma cents_of_int: "cents (of_int k) = 100 * k"
proof -
  have "\<lfloor>100 * rat_of_int k + 1 / 2\<rfloor> = 100 * k"
    by (rule floor_unique) simp_all
  then show ?thesis by (simp add: cents_def)
qed

lemma cents_numeral: "cents (numeral n) = 100 * numeral n"
  using cents_of_int [of "numeral n"] by simp

lemma cents_zero: "cents 0 = 0"
  using cents_of_int [of 0] by simp


lemma pow2_less_imp: "pow2 a < pow2 b \<Longrightarrow> a < b"
  using pow2_mono [of b a] by (cases "a < b") simp_all

lemma ilog2_unique:
  assumes "0 < q" and "pow2 e \<le> q" and "q < pow2 (e + 1)"
  shows "ilog2 q = e"
proof -
  have b: "pow2 (ilog2 q) \<le> q" "q < pow2 (ilog2 q + 1)"
    using ilog2_bounds [OF assms(1)] by simp_all
  have "pow2 (ilog2 q) < pow2 (e + 1)" using b(1) assms(3) by simp
  then have "ilog2 q < e + 1" by (rule pow2_less_imp)
  moreover have "pow2 e < pow2 (ilog2 q + 1)" using b(2) assms(2) by simp
  then have "e < ilog2 q + 1" by (rule pow2_less_imp)
  ultimately show ?thesis by simp
qed

lemma rd_eval:
  assumes "0 < q" and "pow2 e \<le> q" and "q < pow2 (e + 1)" and "- 1022 \<le> e"
    and "round_half_even (q / pow2 (e - 52)) = n"
    and "of_int n * pow2 (e - 52) < pow2 1024"
  shows "rd q = Fin (of_int n * pow2 (e - 52))"
proof -
  have "ilog2 q = e" using assms(1-3) by (rule ilog2_unique)
  then show ?thesis
    using assms by (simp add: rd_def Let_def)
qed

lemma rd_dyadic:
  assumes m: "0 < m" "m \<le> 2 ^ 53" and j: "- 1074 \<le> j" "j \<le> 970"
  shows "rd (of_nat m * pow2 j) = Fin (of_nat m * pow2 j)"
proof -
  define r :: rat where "r = of_nat m"
  define q where "q = r * pow2 j"
  have r1: "1 \<le> r" using m(1) by (simp add: r_def)
  have "rat_of_nat m \<le> of_nat (2 ^ 53)" using m(2) by (simp only: of_nat_le_iff)
  then have r53: "r \<le> 2 ^ 53" by (simp add: r_def)
  have qpos: "0 < q" using r1 pow2_pos [of j] by (simp add: q_def)
  define a where "a = ilog2 r"
  have ab: "pow2 a \<le> r" "r < pow2 (a + 1)"
    using ilog2_bounds [of r] r1 by (simp_all add: a_def)
  have a0: "0 \<le> a"
  proof (rule ccontr)
    assume "\<not> 0 \<le> a"
    then have "pow2 (a + 1) \<le> pow2 0" by (intro pow2_mono) simp
    then show False using ab(2) r1 by (simp add: pow2_def)
  qed
  have a53: "a \<le> 53"
  proof (rule ccontr)
    assume "\<not> a \<le> 53"
    then have "pow2 54 \<le> pow2 a" by (intro pow2_mono) simp
    then show False using ab(1) r53 by (simp add: pow2_def)
  qed
  have e: "ilog2 q = a + j"
  proof (rule ilog2_unique [OF qpos])
    show "pow2 (a + j) \<le> q"
      using ab(1) pow2_pos [of j] by (simp add: q_def pow2_add mult_right_mono)
    have "r * pow2 j < pow2 (a + 1) * pow2 j"
      using ab(2) pow2_pos [of j] by (simp add: mult_strict_right_mono)
    moreover have "pow2 (a + 1) * pow2 j = pow2 (a + j + 1)"
      by (simp add: pow2_add [symmetric] algebra_simps)
    ultimately show "q < pow2 (a + j + 1)"
      by (simp add: q_def)
  qed
  define t where "t = max (a + j) (- 1022) - 52"
  have "\<exists>n::int. r = of_int n * pow2 (t - j)"
  proof (cases "a = 53 \<and> - 1022 \<le> a + j")
    case True
    then have "r = 2 ^ 53" using ab(1) r53 by (simp add: pow2_def)
    moreover have "t - j = 1" using True by (simp add: t_def)
    ultimately have "r = of_int (2 ^ 52) * pow2 (t - j)" by (simp add: pow2_def)
    then show ?thesis by blast
  next
    case False
    then have le: "t - j \<le> 0" using a53 j(1) by (auto simp add: t_def max_def)
    then have p: "pow2 (t - j) = 1 / 2 ^ nat (j - t)"
      by (cases "t - j = 0") (simp_all add: pow2_def)
    have "r = of_int (int m * 2 ^ nat (j - t)) * pow2 (t - j)"
      by (simp add: p r_def)
    then show ?thesis by blast
  qed
  then obtain n :: int where "r = of_int n * pow2 (t - j)" by blast
  then have "q = of_int n * (pow2 (t - j) * pow2 j)" by (simp add: q_def)
  also have "pow2 (t - j) * pow2 j = pow2 t" by (simp add: pow2_add [symmetric])
  also have "t = max (ilog2 q) (- 1022) - 52" by (simp only: e t_def)
  finally have n: "q = of_int n * pow2 (max (ilog2 q) (- 1022) - 52)" .
  have small: "q < pow2 1024"
  proof -
    have "q \<le> 2 ^ 53 * pow2 j" using r53 pow2_pos [of j] by (simp add: q_def mult_right_mono)
    also have "\<dots> = pow2 (53 + j)" by (simp add: pow2_add) (simp add: pow2_def)
    also have "\<dots> \<le> pow2 1023" using j(2) by (intro pow2_mono) simp
    also have "\<dots> < pow2 1024" by (simp add: pow2_def)
    finally show ?thesis .
  qed
  have "rd q = Fin q" using qpos small n by (rule rd_exact)
  then show ?thesis by (simp add: q_def r_def)
qed

lemma floor_rat_numeral: "\<lfloor>numeral a / numeral b :: rat\<rfloor> = numeral a div numeral b"
  by (metis floor_divide_of_int_eq of_int_numeral)

lemma rd_13_100: "rd (13 / 100) = Fin (1170935903116329 / 9007199254740992)"
  using rd_eval [where q = "13 / 100" and e = "- 3" and n = 4683743612465316]
  by (simp add: pow2_def round_half_even_def floor_rat_numeral)

lemma rd_1_100: "rd (1 / 100) = Fin (5764607523034235 / 576460752303423488)"
  using rd_eval [where q = "1 / 100" and e = "- 7" and n = 5764607523034235]
  by (simp add: pow2_def round_half_even_def floor_rat_numeral)

lemma rd_eighth: "rd (1 / 8) = Fin (1 / 8)"
  using rd_dyadic [of 1 "- 3"] by (simp add: pow2_def)

lemma rd_diff: "rd (45035996273705 / 9007199254740992) = Fin (45035996273705 / 9007199254740992)"
  using rd_dyadic [of 45035996273705 "- 53"] by (simp add: pow2_def)

lemma rd_1e21: "rd 1000000000000000000000 = Fin 1000000000000000000000"
  using rd_dyadic [of 476837158203125 21] by (simp add: pow2_def)

lemma rd_2e21: "rd 2000000000000000000000 = Fin 2000000000000000000000"
  using rd_dyadic [of 476837158203125 22] by (simp add: pow2_def)

lemma rd_3e21: "rd 3000000000000000000000 = Fin 3000000000000000000000"
  using rd_dyadic [of 1430511474609375 21] by (simp add: pow2_def)

section \<open>Amounts with two decimals\<close>

lemma rd_near:
  assumes "0 \<le> q" and "q \<le> 2 ^ 60"
  shows "\<exists>v. rd q = Fin v \<and> 0 \<le> v \<and> \<bar>v - q\<bar> \<le> q / 2 ^ 53 + 1 / 2 ^ 60"
proof (cases "q = 0")
  case True
  then show ?thesis by (simp add: rd_def)
next
  case False
  with assms have "0 < q" by simp
  moreover have "q \<le> pow2 1023"
  proof -
    have "(2::rat) ^ 60 \<le> 2 ^ 1023" by (rule power_increasing) simp_all
    then show ?thesis using assms(2) by (simp add: pow2_def)
  qed
  ultimately obtain v where v: "rd q = Fin v" "0 \<le> v" "\<bar>v - q\<bar> \<le> q / 2 ^ 53 + 1 / 2 ^ 1075"
    using rd_error by blast
  have "(1::rat) / 2 ^ 1075 \<le> 1 / 2 ^ 60"
    by (intro divide_left_mono power_increasing) simp_all
  with v show ?thesis by (intro exI [of _ v]) auto
qed

lemma cents_near:
  assumes "\<bar>x - of_nat N / 100\<bar> < 1 / 200"
  shows "cents x = int N"
proof -
  have "of_int (int N) \<le> 100 * x + 1 / 2" "100 * x + 1 / 2 < of_int (int N) + 1"
    using assms by linarith+
  then have "\<lfloor>100 * x + 1 / 2\<rfloor> = int N"
    by (simp add: floor_unique)
  then show ?thesis by (simp add: cents_def)
qed

lemma Number_toFixed2_near:
  assumes "\<bar>x - of_nat N / 100\<bar> < 1 / 200" and "0 \<le> x" and "N \<le> 2 ^ 60"
  shows "Number_toFixed2 (Fin x) = rd (of_nat N / 100)"
proof -
  have "of_nat N \<le> (2::rat) ^ 60"
    using assms(3) by (metis of_nat_le_iff of_nat_numeral of_nat_power)
  moreover have "x < of_nat N / 100 + 1 / 200" using assms(1) by linarith
  ultimately have "x < 2 ^ 60 / 100 + 1 / 200" by linarith
  also have "\<dots> < (10::rat) ^ 21" by simp
  finally have "x < 10 ^ 21" .
  then show ?thesis
    using assms(2) cents_near [OF assms(1)] by simp
qed


lemma cents_amounts:
  fixes A B :: nat
  assumes A: "0 < A" and AB: "B + A \<le> 2 ^ 50"
  shows "\<exists>va. rd (of_nat A / 100) = Fin va \<and> 0 < va"
    and "Number_toFixed2 (js_add (rd (of_nat B / 100)) (rd (of_nat A / 100))) = rd (of_nat (B + A) / 100)"
    and "\<not> js_lt (rd (of_nat (B + A) / 100)) (rd (of_nat A / 100))"
    and "Number_toFixed2 (js_sub (rd (of_nat (B + A) / 100)) (rd (of_nat A / 100))) = rd (of_nat B / 100)"
proof -
  define ra rb :: rat where "ra = of_nat A" and "rb = of_nat B"
  have ra1: "1 \<le> ra" using A by (simp add: ra_def)
  have rb0: "0 \<le> rb" by (simp add: rb_def)
  have "rat_of_nat (B + A) \<le> of_nat (2 ^ 50)" using AB by (simp only: of_nat_le_iff)
  then have sum: "rb + ra \<le> 1125899906842624" by (simp add: ra_def rb_def)
  have rab: "rat_of_nat (B + A) / 100 = (rb + ra) / 100" by (simp add: ra_def rb_def)
  obtain va where va: "rd (ra / 100) = Fin va" "0 \<le> va"
      "\<bar>va - ra / 100\<bar> \<le> ra / 100 / 9007199254740992 + 1 / 1152921504606846976"
    using rd_near [of "ra / 100"] ra1 sum rb0 by auto
  obtain vb where vb: "rd (rb / 100) = Fin vb" "0 \<le> vb"
      "\<bar>vb - rb / 100\<bar> \<le> rb / 100 / 9007199254740992 + 1 / 1152921504606846976"
    using rd_near [of "rb / 100"] ra1 sum rb0 by auto
  obtain vc where vc: "rd ((rb + ra) / 100) = Fin vc" "0 \<le> vc"
      "\<bar>vc - (rb / 100 + ra / 100)\<bar> \<le> rb / 100 / 9007199254740992 + ra / 100 / 9007199254740992 + 1 / 1152921504606846976"
    using rd_near [of "(rb + ra) / 100"] ra1 sum rb0 by (auto simp add: add_divide_distrib)
  have vapos: "0 < va" using va(3) ra1 by linarith
  have eqA: "rd (of_nat A / 100) = Fin va" using va(1) by (simp add: ra_def)
  have eqB: "rd (of_nat B / 100) = Fin vb" using vb(1) by (simp add: rb_def)
  have eqC: "rd (of_nat (B + A) / 100) = Fin vc" using vc(1) by (simp add: ra_def rb_def)
  show "\<exists>va. rd (of_nat A / 100) = Fin va \<and> 0 < va"
    using eqA vapos by auto
  have x0: "0 \<le> vb + va" using va(2) vb(2) by simp
  have "vb + va \<le> 1152921504606846976" using va(3) vb(3) sum rb0 ra1 by linarith
  then have x1: "vb + va \<le> 2 ^ 60" by simp
  obtain c where c: "rd (vb + va) = Fin c" "0 \<le> c"
      "\<bar>c - (vb + va)\<bar> \<le> vb / 9007199254740992 + va / 9007199254740992 + 1 / 1152921504606846976"
    using rd_near [OF x0 x1] by (auto simp add: add_divide_distrib)
  have "\<bar>c - (rb / 100 + ra / 100)\<bar> < 1 / 200"
    using c(3) va(3) vb(3) sum rb0 ra1 by linarith
  then have "\<bar>c - rat_of_nat (B + A) / 100\<bar> < 1 / 200"
    by (simp add: ra_def rb_def add_divide_distrib)
  moreover have "B + A \<le> 2 ^ 60"
    using AB by (rule order_trans) simp
  ultimately have "Number_toFixed2 (Fin c) = rd (of_nat (B + A) / 100)"
    using c(2) by (intro Number_toFixed2_near)
  then show "Number_toFixed2 (js_add (rd (of_nat B / 100)) (rd (of_nat A / 100))) = rd (of_nat (B + A) / 100)"
    unfolding eqA eqB using c(1) by simp
  have ge: "va \<le> vc"
  proof (cases "B = 0")
    case True
    then have "rb = 0" by (simp add: rb_def)
    then show ?thesis using va(1) vc(1) by simp
  next
    case False
    then have "1 \<le> rb" by (simp add: rb_def)
    then show ?thesis using va(3) vc(3) sum ra1 by linarith
  qed
  then show "\<not> js_lt (rd (of_nat (B + A) / 100)) (rd (of_nat A / 100))"
    unfolding eqA eqC by simp
  have y0: "0 \<le> vc - va" using ge by simp
  have "vc - va \<le> 1152921504606846976" using va(2) vc(3) sum rb0 ra1 by linarith
  then have y1: "vc - va \<le> 2 ^ 60" by simp
  obtain d where d: "rd (vc - va) = Fin d" "0 \<le> d"
      "\<bar>d - (vc - va)\<bar> \<le> vc / 9007199254740992 - va / 9007199254740992 + 1 / 1152921504606846976"
    using rd_near [OF y0 y1] by (auto simp add: diff_divide_distrib)
  have "\<bar>d - rat_of_nat B / 100\<bar> < 1 / 200"
    using d(3) va(3) vc(3) sum rb0 ra1 unfolding rb_def [symmetric] by linarith
  moreover have "B \<le> 2 ^ 60"
    using AB by simp
  ultimately have "Number_toFixed2 (Fin d) = rd (of_nat B / 100)"
    using d(2) by (intro Number_toFixed2_near)
  then show "Number_toFixed2 (js_sub (rd (of_nat (B + A) / 100)) (rd (of_nat A / 100))) = rd (of_nat B / 100)"
    unfolding eqA eqB eqC using d(1) by (simp add: js_sub_def)
qed

section \<open>Rounding to two decimals\<close>

lemma rd_minus: "rd (- q) = js_neg (rd q)"
  by (simp add: rd_def Let_def)

lemma signed_cents_nearest:
  "\<bar>100 * q - of_int (if q < 0 then - cents \<bar>q\<bar> else cents \<bar>q\<bar>)\<bar> \<le> 1 / 2"
proof -
  have b: "of_int (cents \<bar>q\<bar>) \<le> 100 * \<bar>q\<bar> + 1 / 2" "100 * \<bar>q\<bar> + 1 / 2 < of_int (cents \<bar>q\<bar>) + 1"
    unfolding cents_def by linarith+
  show ?thesis
  proof (cases "q < 0")
    case True
    have "\<bar>100 * q - of_int (- cents \<bar>q\<bar>)\<bar> \<le> 1 / 2"
      using b True unfolding of_int_minus by linarith
    then show ?thesis using True by simp
  next
    case False
    have "\<bar>100 * q - of_int (cents \<bar>q\<bar>)\<bar> \<le> 1 / 2"
      using b False by linarith
    then show ?thesis using False by simp
  qed
qed

lemma nearest_int_unique:
  fixes x :: rat
  assumes "\<bar>x - of_int N\<bar> \<le> 1 / 2" and "\<bar>x - of_int M\<bar> < 1 / 2"
  shows "N = M"
proof -
  have "\<bar>(of_int (N - M) :: rat)\<bar> < 1" using assms unfolding of_int_diff by linarith
  then have "\<bar>N - M\<bar> < 1" by (metis of_int_abs of_int_less_1_iff)
  then show ?thesis by simp
qed

lemma rd_1_10: "rd (1 / 10) = Fin (3602879701896397 / 36028797018963968)"
  using rd_eval [where q = "1 / 10" and e = "- 4" and n = 7205759403792794]
  by (simp add: pow2_def round_half_even_def floor_rat_numeral)

lemma rd_1_5: "rd (1 / 5) = Fin (3602879701896397 / 18014398509481984)"
  using rd_eval [where q = "1 / 5" and e = "- 3" and n = 7205759403792794]
  by (simp add: pow2_def round_half_even_def floor_rat_numeral)

lemma rd_3_10: "rd (3 / 10) = Fin (5404319552844595 / 18014398509481984)"
  using rd_eval [where q = "3 / 10" and e = "- 2" and n = 5404319552844595]
  by (simp add: pow2_def round_half_even_def floor_rat_numeral)

lemma rd_7_10: "rd (7 / 10) = Fin (3152519739159347 / 4503599627370496)"
  using rd_eval [where q = "7 / 10" and e = "- 1" and n = 6305039478318694]
  by (simp add: pow2_def round_half_even_def floor_rat_numeral)

lemma rd_4_5: "rd (4 / 5) = Fin (3602879701896397 / 4503599627370496)"
  using rd_eval [where q = "4 / 5" and e = "- 1" and n = 7205759403792794]
  by (simp add: pow2_def round_half_even_def floor_rat_numeral)

lemma rd_sum_tenths: "rd (28823037615171173 / 36028797018963968) = Fin (7205759403792793 / 9007199254740992)"
  using rd_eval [where q = "28823037615171173 / 36028797018963968" and e = "- 1" and n = 7205759403792793]
  by (simp add: pow2_def round_half_even_def floor_rat_numeral)

lemma js_add_eight_tenths: "js_add (rd (7 / 10)) (rd (1 / 10)) = Fin (7205759403792793 / 9007199254740992)"
  by (simp add: rd_7_10 rd_1_10 rd_sum_tenths)

lemma rd_sum: "rd (10808639105689191 / 36028797018963968) = Fin (1351079888211149 / 4503599627370496)"
  using rd_eval [where q = "10808639105689191 / 36028797018963968" and e = "- 2" and n = 5404319552844596]
  by (simp add: pow2_def round_half_even_def floor_rat_numeral)

lemma rd_difference: "rd (900719925474099 / 9007199254740992) = Fin (900719925474099 / 9007199254740992)"
  using rd_dyadic [of 900719925474099 "- 53"] by (simp add: pow2_def)

lemma js_add_tenths: "js_add (rd (1 / 10)) (rd (1 / 5)) = Fin (1351079888211149 / 4503599627370496)"
  by (simp add: rd_1_10 rd_1_5 rd_sum)

lemma js_sub_tenths: "js_sub (rd (3 / 10)) (rd (1 / 5)) = Fin (900719925474099 / 9007199254740992)"
  by (simp add: js_sub_def rd_3_10 rd_1_5 rd_difference)


lemma tenths:
  "js_add (rd (1 / 10)) (rd (1 / 5)) \<noteq> rd (3 / 10)"
  "js_sub (rd (3 / 10)) (rd (1 / 5)) \<noteq> rd (1 / 10)"
  "isPositiveNumber (JNum (rd (1 / 5)))"
  "\<not> js_lt (rd (3 / 10)) (rd (1 / 5))"
proof -
  show "js_add (rd (1 / 10)) (rd (1 / 5)) \<noteq> rd (3 / 10)"
    unfolding js_add_tenths by (simp add: rd_3_10)
  show "js_sub (rd (3 / 10)) (rd (1 / 5)) \<noteq> rd (1 / 10)"
    unfolding js_sub_tenths by (simp add: rd_1_10)
  show "isPositiveNumber (JNum (rd (1 / 5)))" by (simp add: rd_1_5)
  show "\<not> js_lt (rd (3 / 10)) (rd (1 / 5))" by (simp add: rd_3_10 rd_1_5)
qed

lemma kept_balance:
  assumes "bal = Some (Number_toFixed2 x)"
  shows "\<forall>q. x = Fin q \<and> 10 ^ 21 \<le> \<bar>q\<bar> \<longrightarrow> bal = Some (Fin q)"
    and "\<forall>y. x = y \<and> \<not> isFinite y \<longrightarrow> bal = Some y"
proof -
  show "\<forall>q. x = Fin q \<and> 10 ^ 21 \<le> \<bar>q\<bar> \<longrightarrow> bal = Some (Fin q)"
    using assms by simp
  show "\<forall>y. x = y \<and> \<not> isFinite y \<longrightarrow> bal = Some y"
    using assms by (cases x) simp_all
qed

section \<open>Renderings\<close>

lemma digits_numeral:
  "digits (numeral k) = (if numeral k < (10::int) then [digit_char (numeral k)]
     else digits (numeral k div 10) @ [digit_char (numeral k mod 10)])"
  by (rule digits.simps)

lemma digits_0: "digits 0 = ''0''"
  by (simp add: digits.simps [of 0] digit_char_def)

lemma digits_1: "digits 1 = ''1''"
  by (simp add: digits.simps [of 1] digit_char_def)

lemmas digits_eval = digits_0 digits_1 digits_numeral digit_char_def

lemma toFixed2_1e21: "toFixed2 (Fin (10 ^ 21)) = ''1e+21''"
  by (simp add: exp_notation_def shortest_digits.simps digits_for_def floor_rat_numeral
        rd_1e21 rd_2e21 digits_eval)

lemma toFixed2_2e21: "toFixed2 (Fin (2 * 10 ^ 21)) = ''2e+21''"
  by (simp add: exp_notation_def shortest_digits.simps digits_for_def floor_rat_numeral
        rd_3e21 rd_2e21 digits_eval)

lemma fixed2_1e21: "fixed2 (10 ^ 21) = ''1000000000000000000000.00''"
  by (simp add: fixed2_def cents_numeral digits_eval)

lemma toFixed2_500: "toFixed2 (Fin 500) = ''500.00''"
  by (simp add: fixed2_def cents_numeral digits_eval)

lemma toFixed2_1000: "toFixed2 (Fin 1000) = ''1000.00''"
  by (simp add: fixed2_def cents_numeral digits_eval)

lemma show_int_1004: "show_int 1004 = ''1004''"
  by (simp add: show_int_def digits_eval)

section \<open>The outcomes of a transfer\<close>

lemma transfer_invalid:
  "\<not> transfer_fields_ok body \<Longrightarrow>
   transfer clk body idemKey s = (Inl (badRequest (clk 0) ''INVALID_REQUEST''
       ''sourceWalletId, destinationWalletId, amount>0, reference requis''), s)"
  by (auto simp add: transfer_def transfer_fields_ok_def)

lemma transfer_same:
  "transfer_fields_ok body \<Longrightarrow> str (sourceWalletId body) = str (destinationWalletId body) \<Longrightarrow>
   transfer clk body idemKey s = (Inl (badRequest (clk 0) ''INVALID_TRANSFER'' ''Source et destination identiques''), s)"
  by (simp add: transfer_def transfer_fields_ok_def)

lemma transfer_no_source:
  "transfer_fields_ok body \<Longrightarrow> str (sourceWalletId body) \<noteq> str (destinationWalletId body) \<Longrightarrow>
   findWalletByWalletId s (str (sourceWalletId body)) = None \<Longrightarrow>
   transfer clk body idemKey s = (Inl (notFound (clk 0) ''WALLET_NOT_FOUND''
       (''Wallet source inexistant: '' @ str (sourceWalletId body))), s)"
  by (simp add: transfer_def transfer_fields_ok_def)

lemma transfer_no_destination:
  "transfer_fields_ok body \<Longrightarrow> str (sourceWalletId body) \<noteq> str (destinationWalletId body) \<Longrightarrow>
   findWalletByWalletId s (str (sourceWalletId body)) = Some src \<Longrightarrow>
   findWalletByWalletId s (str (destinationWalletId body)) = None \<Longrightarrow>
   transfer clk body idemKey s = (Inl (notFound (clk 0) ''WALLET_NOT_FOUND''
       (''Wallet destination inexistant: '' @ str (destinationWalletId body))), s)"
  by (simp add: transfer_def transfer_fields_ok_def)

lemma transfer_cached:
  "transfer_fields_ok body \<Longrightarrow> str (sourceWalletId body) \<noteq> str (destinationWalletId body) \<Longrightarrow>
   findWalletByWalletId s (str (sourceWalletId body)) = Some src \<Longrightarrow>
   findWalletByWalletId s (str (destinationWalletId body)) = Some dst \<Longrightarrow>
   truthy idemKey \<Longrightarrow> lookup_idempotency s (str idemKey) = Some cached \<Longrightarrow>
   transfer clk body idemKey s = (Inr (i_response cached), s)"
  by (simp add: transfer_def transfer_fields_ok_def)

lemma transfer_insufficient:
  "transfer_fields_ok body \<Longrightarrow> str (sourceWalletId body) \<noteq> str (destinationWalletId body) \<Longrightarrow>
   findWalletByWalletId s (str (sourceWalletId body)) = Some src \<Longrightarrow>
   findWalletByWalletId s (str (destinationWalletId body)) = Some dst \<Longrightarrow>
   \<not> truthy idemKey \<or> lookup_idempotency s (str idemKey) = None \<Longrightarrow>
   js_lt (w_balance src) (num_of (amount body)) \<Longrightarrow>
   transfer clk body idemKey s = (Inl (badRequest (clk 0) ''INSUFFICIENT_FUNDS''
       (insufficient_message (w_balance src) (num_of (amount body)))), s)"
  by (auto simp add: transfer_def transfer_fields_ok_def)

lemma transfer_executed:
  "transfer_fields_ok body \<Longrightarrow> str (sourceWalletId body) \<noteq> str (destinationWalletId body) \<Longrightarrow>
   findWalletByWalletId s (str (sourceWalletId body)) = Some src \<Longrightarrow>
   findWalletByWalletId s (str (destinationWalletId body)) = Some dst \<Longrightarrow>
   \<not> truthy idemKey \<or> lookup_idempotency s (str idemKey) = None \<Longrightarrow>
   \<not> js_lt (w_balance src) (num_of (amount body)) \<Longrightarrow>
   transfer clk body idemKey s =
     (Inr (fst (transfer_execute clk body idemKey src dst s)), snd (transfer_execute clk body idemKey src dst s))"
  by (auto simp add: transfer_def transfer_fields_ok_def split: prod.splits)

lemma transfer_cases:
  obtains (invalid) "\<not> transfer_fields_ok body"
  | (same) "transfer_fields_ok body" "str (sourceWalletId body) = str (destinationWalletId body)"
  | (no_source) "transfer_fields_ok body" "str (sourceWalletId body) \<noteq> str (destinationWalletId body)"
      "findWalletByWalletId s (str (sourceWalletId body)) = None"
  | (no_destination) src where "transfer_fields_ok body" "str (sourceWalletId body) \<noteq> str (destinationWalletId body)"
      "findWalletByWalletId s (str (sourceWalletId body)) = Some src"
      "findWalletByWalletId s (str (destinationWalletId body)) = None"
  | (cached) src dst cached where "transfer_fields_ok body" "str (sourceWalletId body) \<noteq> str (destinationWalletId body)"
      "findWalletByWalletId s (str (sourceWalletId body)) = Some src"
      "findWalletByWalletId s (str (destinationWalletId body)) = Some dst"
      "truthy idemKey" "lookup_idempotency s (str idemKey) = Some cached"
  | (insufficient) src dst where "transfer_fields_ok body" "str (sourceWalletId body) \<noteq> str (destinationWalletId body)"
      "findWalletByWalletId s (str (sourceWalletId body)) = Some src"
      "findWalletByWalletId s (str (destinationWalletId body)) = Some dst"
      "\<not> truthy idemKey \<or> lookup_idempotency s (str idemKey) = None"
      "js_lt (w_balance src) (num_of (amount body))"
  | (executed) src dst where "transfer_fields_ok body" "str (sourceWalletId body) \<noteq> str (destinationWalletId body)"
      "findWalletByWalletId s (str (sourceWalletId body)) = Some src"
      "findWalletByWalletId s (str (destinationWalletId body)) = Some dst"
      "\<not> truthy idemKey \<or> lookup_idempotency s (str idemKey) = None"
      "\<not> js_lt (w_balance src) (num_of (amount body))"
  by (cases "findWalletByWalletId s (str (sourceWalletId body))";
      cases "findWalletByWalletId s (str (destinationWalletId body))";
      cases "lookup_idempotency s (str idemKey)") blast+

subsection \<open>Lookups in the example database\<close>

lemma find_ex1: "findWalletByWalletId (example_db a b) ''WALLET-001'' = Some (example_wallet 1 ''WALLET-001'' ''+221771234567'' a)"
  by (simp add: findWalletByWalletId_def example_db_def example_wallet_def)

lemma find_ex2: "findWalletByWalletId (example_db a b) ''WALLET-002'' = Some (example_wallet 2 ''WALLET-002'' ''+221771234568'' b)"
  by (simp add: findWalletByWalletId_def example_db_def example_wallet_def)

lemma find_ex3: "findWalletByWalletId (example_db a b) ''WALLET-404'' = None"
  by (simp add: findWalletByWalletId_def example_db_def example_wallet_def)

subsection \<open>Failures\<close>

lemma credit_error_state: "isl (fst (credit clk walletId body s)) \<Longrightarrow> snd (credit clk walletId body s) = s"
  by (simp add: credit_def Let_def split: option.splits if_splits)

lemma debit_error_state: "isl (fst (debit clk walletId body s)) \<Longrightarrow> snd (debit clk walletId body s) = s"
  by (simp add: debit_def Let_def split: option.splits if_splits)

lemma transfer_error_state: "isl (fst (transfer clk body idemKey s)) \<Longrightarrow> snd (transfer clk body idemKey s) = s"
  by (rule transfer_cases [where body = body and s = s and idemKey = idemKey])
     (simp_all add: transfer_invalid transfer_same transfer_no_source transfer_no_destination
        transfer_cached transfer_insufficient transfer_executed)

text \<open>
  C1.  A credit, debit or transfer request that is answered with an error body (whichever of
  \<^verbatim>\<open>INVALID_REQUEST\<close>, \<^verbatim>\<open>INVALID_AMOUNT\<close>, \<^verbatim>\<open>INVALID_TRANSFER\<close>, \<^verbatim>\<open>WALLET_NOT_FOUND\<close>,
  \<^verbatim>\<open>INSUFFICIENT_FUNDS\<close>) leaves the database as it found it: no wallet balance changes
  and no transaction record is appended (nor any event or idempotency record).
\<close>

theorem failure_leaves_no_trace:
  "(isl (fst (credit clk1 walletId1 body1 s1)) \<longrightarrow> snd (credit clk1 walletId1 body1 s1) = s1) \<and>
   (isl (fst (debit clk2 walletId2 body2 s2)) \<longrightarrow> snd (debit clk2 walletId2 body2 s2) = s2) \<and>
   (isl (fst (transfer clk3 body3 idemKey s3)) \<longrightarrow> snd (transfer clk3 body3 idemKey s3) = s3)"
  using credit_error_state debit_error_state transfer_error_state by blast

theorem failure_leaves_no_trace_witness:
  "isl (fst (credit example_clock ''WALLET-001'' (example_body (JNum (Fin 0)) (Some ''CREDIT-001'')) (example_db (Fin 500) (Fin 0)))) \<and>
   snd (credit example_clock ''WALLET-001'' (example_body (JNum (Fin 0)) (Some ''CREDIT-001'')) (example_db (Fin 500) (Fin 0))) = example_db (Fin 500) (Fin 0) \<and>
   isl (fst (debit example_clock ''WALLET-001'' (example_body (JNum (Fin 1000)) (Some ''DEBIT-001'')) (example_db (Fin 500) (Fin 0)))) \<and>
   snd (debit example_clock ''WALLET-001'' (example_body (JNum (Fin 1000)) (Some ''DEBIT-001'')) (example_db (Fin 500) (Fin 0))) = example_db (Fin 500) (Fin 0) \<and>
   isl (fst (transfer example_clock (example_transfer (Some ''WALLET-001'') (Some ''WALLET-404'') (JNum (Fin 1000)) (Some ''TRF-001'')) None (example_db (Fin 500) (Fin 0)))) \<and>
   snd (transfer example_clock (example_transfer (Some ''WALLET-001'') (Some ''WALLET-404'') (JNum (Fin 1000)) (Some ''TRF-001'')) None (example_db (Fin 500) (Fin 0))) = example_db (Fin 500) (Fin 0)"
proof -
  have c: "isl (fst (credit example_clock ''WALLET-001'' (example_body (JNum (Fin 0)) (Some ''CREDIT-001'')) (example_db (Fin 500) (Fin 0))))"
    by (simp add: credit_def find_ex1 example_body_def)
  have d: "isl (fst (debit example_clock ''WALLET-001'' (example_body (JNum (Fin 1000)) (Some ''DEBIT-001'')) (example_db (Fin 500) (Fin 0))))"
    by (simp add: debit_def find_ex1 example_body_def example_wallet_def)
  have t: "isl (fst (transfer example_clock (example_transfer (Some ''WALLET-001'') (Some ''WALLET-404'') (JNum (Fin 1000)) (Some ''TRF-001'')) None (example_db (Fin 500) (Fin 0))))"
    by (simp add: transfer_def find_ex1 find_ex3 example_transfer_def)
  show ?thesis
    using c d t
      failure_leaves_no_trace [of example_clock "''WALLET-001''" "example_body (JNum (Fin 0)) (Some ''CREDIT-001'')"
        "example_db (Fin 500) (Fin 0)" example_clock "''WALLET-001''" "example_body (JNum (Fin 1000)) (Some ''DEBIT-001'')" "example_db (Fin 500) (Fin 0)"
        example_clock "example_transfer (Some ''WALLET-001'') (Some ''WALLET-404'') (JNum (Fin 1000)) (Some ''TRF-001'')" None "example_db (Fin 500) (Fin 0)"]
    by blast
qed

section \<open>Collections\<close>

lemma find_assign_first_same:
  "(\<And>x. P x \<Longrightarrow> P (f x)) \<Longrightarrow> find P (assign_first P f xs) = map_option f (find P xs)"
  by (induction xs) auto

lemma find_assign_first_other:
  "(\<And>x. Q (f x) = Q x) \<Longrightarrow> (\<And>x. Q x \<Longrightarrow> \<not> P x) \<Longrightarrow> find Q (assign_first P f xs) = find Q xs"
  by (induction xs) auto



lemma findWallet_setBalance_same:
  "findWalletByWalletId (setBalance walletId v now s) walletId =
     map_option (\<lambda>w. w\<lparr>w_balance := v, w_updatedAt := now\<rparr>) (findWalletByWalletId s walletId)"
  by (simp add: findWalletByWalletId_def setBalance_def find_assign_first_same)

lemma findWallet_setBalance_other:
  "walletId' \<noteq> walletId \<Longrightarrow>
   findWalletByWalletId (setBalance walletId v now s) walletId' = findWalletByWalletId s walletId'"
  unfolding findWalletByWalletId_def setBalance_def
  by simp (rule find_assign_first_other, simp_all)

lemma findWallet_pushTransaction [simp]:
  "findWalletByWalletId (pushTransaction t s) walletId = findWalletByWalletId s walletId"
  by (simp add: findWalletByWalletId_def pushTransaction_def)

lemma findWallet_pushEvent [simp]:
  "findWalletByWalletId (pushEvent n1 n2 topic pl s) walletId = findWalletByWalletId s walletId"
  by (simp add: findWalletByWalletId_def pushEvent_def)

lemma findWallet_idempotency_update [simp]:
  "findWalletByWalletId (s\<lparr>idempotency := c\<rparr>) walletId = findWalletByWalletId s walletId"
  by (simp add: findWalletByWalletId_def)

lemma transactions_pushEvent [simp]: "transactions (pushEvent n1 n2 topic pl s) = transactions s"
  by (simp add: pushEvent_def)

lemma transactions_pushTransaction [simp]: "transactions (pushTransaction t s) = transactions s @ [t]"
  by (simp add: pushTransaction_def)

lemma transactions_setBalance [simp]: "transactions (setBalance walletId v now s) = transactions s"
  by (simp add: setBalance_def)

section \<open>The outcomes of credit and debit\<close>

lemma credit_success:
  assumes "findWalletByWalletId s walletId = Some w" "isPositiveNumber (amount body)" "truthy (reference body)"
  shows "credit clk walletId body s =
    (Inr \<lparr>x_transactionId = ''TXN-'' @ show_int (clk 4), x_walletId = walletId,
          x_type = ''CREDIT'', x_status = ''SUCCESS'', x_amount = num_of (amount body),
          x_balanceBefore = w_balance w,
          x_balanceAfter = Number_toFixed2 (js_add (w_balance w) (num_of (amount body))),
          x_reference = str (reference body), x_timestamp = clk 5\<rparr>,
     pushEvent (clk 6) (clk 7) ''wallet.credited''
       (WalletOperation (''TXN-'' @ show_int (clk 4)) walletId (num_of (amount body)) (w_balance w)
          (Number_toFixed2 (js_add (w_balance w) (num_of (amount body)))) (str (reference body))
          ''SUCCESS'' (clk 5))
       (pushTransaction
          \<lparr>t_id = clk 1, t_createdAt = clk 2, t_processedAt = clk 3,
           t_transactionId = ''TXN-'' @ show_int (clk 4),
           t_walletId = walletId, t_type = ''CREDIT'', t_status = ''SUCCESS'',
           t_amount = num_of (amount body), t_balanceBefore = w_balance w,
           t_balanceAfter = Number_toFixed2 (js_add (w_balance w) (num_of (amount body))),
           t_reference = str (reference body), t_description = None, t_timestamp = clk 5\<rparr>
          (setBalance walletId (Number_toFixed2 (js_add (w_balance w) (num_of (amount body)))) (clk 0) s)))"
  using assms by (simp add: credit_def Let_def)

lemma debit_insufficient:
  assumes "findWalletByWalletId s walletId = Some w" "isPositiveNumber (amount body)" "truthy (reference body)"
    "js_lt (w_balance w) (num_of (amount body))"
  shows "debit clk walletId body s =
    (Inl (badRequest (clk 0) ''INSUFFICIENT_FUNDS'' (insufficient_message (w_balance w) (num_of (amount body)))), s)"
  using assms by (simp add: debit_def)

lemma debit_success:
  assumes "findWalletByWalletId s walletId = Some w" "isPositiveNumber (amount body)" "truthy (reference body)"
    "\<not> js_lt (w_balance w) (num_of (amount body))"
  shows "debit clk walletId body s =
    (Inr \<lparr>x_transactionId = ''TXN-'' @ show_int (clk 4), x_walletId = walletId,
          x_type = ''DEBIT'', x_status = ''SUCCESS'', x_amount = num_of (amount body),
          x_balanceBefore = w_balance w,
          x_balanceAfter = Number_toFixed2 (js_sub (w_balance w) (num_of (amount body))),
          x_reference = str (reference body), x_timestamp = clk 5\<rparr>,
     pushEvent (clk 6) (clk 7) ''wallet.debited''
       (WalletOperation (''TXN-'' @ show_int (clk 4)) walletId (num_of (amount body)) (w_balance w)
          (Number_toFixed2 (js_sub (w_balance w) (num_of (amount body)))) (str (reference body))
          ''SUCCESS'' (clk 5))
       (pushTransaction
          \<lparr>t_id = clk 1, t_createdAt = clk 2, t_processedAt = clk 3,
           t_transactionId = ''TXN-'' @ show_int (clk 4),
           t_walletId = walletId, t_type = ''DEBIT'', t_status = ''SUCCESS'',
           t_amount = num_of (amount body), t_balanceBefore = w_balance w,
           t_balanceAfter = Number_toFixed2 (js_sub (w_balance w) (num_of (amount body))),
           t_reference = str (reference body), t_description = None, t_timestamp = clk 5\<rparr>
          (setBalance walletId (Number_toFixed2 (js_sub (w_balance w) (num_of (amount body)))) (clk 0) s)))"
  using assms by (simp add: debit_def Let_def)

lemma isPositiveNumber_num: "isPositiveNumber v \<Longrightarrow> \<exists>q. v = JNum (Fin q) \<and> 0 < q"
  by (cases v; simp) (rename_tac x, case_tac x; simp)

section \<open>Credit\<close>

text \<open>
  C6.  A credit of a positive finite amount \<open>a\<close> with a non-empty reference on an existing
  wallet of balance \<open>b\<close> succeeds; the wallet's balance becomes \<^verbatim>\<open>Number((b + a).toFixed(2))\<close>,
  and exactly one transaction is appended, of type \<^verbatim>\<open>CREDIT\<close> and status \<^verbatim>\<open>SUCCESS\<close>,
  with \<open>balanceBefore = b\<close> and that same \<open>balanceAfter\<close>.  That balance is the sum rounded to
  two decimals: when the sum \<open>q\<close> (of Numbers) is below \<open>10^21\<close> in magnitude, it is the Number
  nearest to \<open>N / 100\<close> for an integer \<open>N\<close> at distance at most \<open>1/2\<close> from \<open>100 q\<close>; and when
  \<open>b\<close> and \<open>a\<close> are amounts of \<open>B\<close> and \<open>A\<close> hundredths, \<open>B + A \<le> 2^50\<close>, it is the amount of
  \<open>B + A\<close> hundredths; a sum of magnitude \<open>10^21\<close> or more, or not finite, is kept as it
  is.  In particular a credit of 3000 on a balance of 1500 answers
  \<open>balanceBefore = 1500\<close>, \<open>balanceAfter = 4500\<close>, status \<^verbatim>\<open>SUCCESS\<close>.
\<close>

theorem credit_success_effect:
  "(findWalletByWalletId s walletId = Some w \<and> isPositiveNumber (amount body) \<and> truthy (reference body) \<longrightarrow>
     (\<exists>x. fst (credit clk walletId body s) = Inr x \<and> x_type x = ''CREDIT'' \<and> x_status x = ''SUCCESS'' \<and>
          x_balanceBefore x = w_balance w \<and>
          x_balanceAfter x = Number_toFixed2 (js_add (w_balance w) (num_of (amount body)))) \<and>
     map_option w_balance (findWalletByWalletId (snd (credit clk walletId body s)) walletId) =
       Some (Number_toFixed2 (js_add (w_balance w) (num_of (amount body)))) \<and>
     (\<exists>t. transactions (snd (credit clk walletId body s)) = transactions s @ [t] \<and>
          t_walletId t = walletId \<and> t_type t = ''CREDIT'' \<and> t_status t = ''SUCCESS'' \<and>
          t_amount t = num_of (amount body) \<and> t_balanceBefore t = w_balance w \<and>
          t_balanceAfter t = Number_toFixed2 (js_add (w_balance w) (num_of (amount body)))) \<and>
     (\<forall>q. js_add (w_balance w) (num_of (amount body)) = Fin q \<and> \<bar>q\<bar> < 10 ^ 21 \<longrightarrow>
        (\<exists>N::int. \<bar>100 * q - of_int N\<bar> \<le> 1 / 2 \<and>
           map_option w_balance (findWalletByWalletId (snd (credit clk walletId body s)) walletId) =
             Some (rd (of_int N / 100)))) \<and>
     (\<forall>B A. w_balance w = rd (of_nat B / 100) \<and> amount body = JNum (rd (of_nat A / 100)) \<and>
            0 < A \<and> B + A \<le> 2 ^ 50 \<longrightarrow>
        map_option w_balance (findWalletByWalletId (snd (credit clk walletId body s)) walletId) =
          Some (rd (of_nat (B + A) / 100))) \<and>
     (\<forall>q. js_add (w_balance w) (num_of (amount body)) = Fin q \<and> 10 ^ 21 \<le> \<bar>q\<bar> \<longrightarrow>
        map_option w_balance (findWalletByWalletId (snd (credit clk walletId body s)) walletId) =
          Some (Fin q)) \<and>
     (\<forall>y. js_add (w_balance w) (num_of (amount body)) = y \<and> \<not> isFinite y \<longrightarrow>
        map_option w_balance (findWalletByWalletId (snd (credit clk walletId body s)) walletId) =
          Some y)) \<and>
   (\<exists>x. fst (credit example_clock ''WALLET-001'' (example_body (JNum (Fin 3000)) (Some ''CREDIT-001''))
              (example_db (Fin 1500) (Fin 0))) = Inr x \<and>
        x_balanceBefore x = Fin 1500 \<and> x_balanceAfter x = Fin 4500 \<and> x_status x = ''SUCCESS'')"
proof (intro conjI impI)
  assume h: "findWalletByWalletId s walletId = Some w \<and> isPositiveNumber (amount body) \<and> truthy (reference body)"
  note c = credit_success [of s walletId w body clk]
  show "\<exists>x. fst (credit clk walletId body s) = Inr x \<and> x_type x = ''CREDIT'' \<and> x_status x = ''SUCCESS'' \<and>
          x_balanceBefore x = w_balance w \<and>
          x_balanceAfter x = Number_toFixed2 (js_add (w_balance w) (num_of (amount body)))"
    using h by (simp add: c)
  show b: "map_option w_balance (findWalletByWalletId (snd (credit clk walletId body s)) walletId) =
       Some (Number_toFixed2 (js_add (w_balance w) (num_of (amount body))))"
    using h by (simp add: c findWallet_setBalance_same)
  show "\<exists>t. transactions (snd (credit clk walletId body s)) = transactions s @ [t] \<and>
          t_walletId t = walletId \<and> t_type t = ''CREDIT'' \<and> t_status t = ''SUCCESS'' \<and>
          t_amount t = num_of (amount body) \<and> t_balanceBefore t = w_balance w \<and>
          t_balanceAfter t = Number_toFixed2 (js_add (w_balance w) (num_of (amount body)))"
    using h by (simp add: c)
  show "\<forall>q. js_add (w_balance w) (num_of (amount body)) = Fin q \<and> \<bar>q\<bar> < 10 ^ 21 \<longrightarrow>
        (\<exists>N::int. \<bar>100 * q - of_int N\<bar> \<le> 1 / 2 \<and>
           map_option w_balance (findWalletByWalletId (snd (credit clk walletId body s)) walletId) =
             Some (rd (of_int N / 100)))"
  proof (intro allI impI, elim conjE)
    fix q
    assume q: "js_add (w_balance w) (num_of (amount body)) = Fin q" "\<bar>q\<bar> < 10 ^ 21"
    define N where "N = (if q < 0 then - cents \<bar>q\<bar> else cents \<bar>q\<bar>)"
    have n: "\<bar>100 * q - of_int N\<bar> \<le> 1 / 2"
      unfolding N_def by (rule signed_cents_nearest)
    have v: "Number_toFixed2 (Fin q) = rd (of_int N / 100)"
      using q(2) by (simp add: N_def rd_minus)
    have "map_option w_balance (findWalletByWalletId (snd (credit clk walletId body s)) walletId) =
        Some (rd (of_int N / 100))"
      by (simp only: b q(1) v)
    with n show "\<exists>N::int. \<bar>100 * q - of_int N\<bar> \<le> 1 / 2 \<and>
           map_option w_balance (findWalletByWalletId (snd (credit clk walletId body s)) walletId) =
             Some (rd (of_int N / 100))"
      by blast
  qed
  show "\<forall>B A. w_balance w = rd (of_nat B / 100) \<and> amount body = JNum (rd (of_nat A / 100)) \<and>
            0 < A \<and> B + A \<le> 2 ^ 50 \<longrightarrow>
        map_option w_balance (findWalletByWalletId (snd (credit clk walletId body s)) walletId) =
          Some (rd (of_nat (B + A) / 100))"
  proof (intro allI impI, elim conjE)
    fix B A :: nat
    assume "w_balance w = rd (of_nat B / 100)" "amount body = JNum (rd (of_nat A / 100))"
      "0 < A" "B + A \<le> 2 ^ 50"
    then show "map_option w_balance (findWalletByWalletId (snd (credit clk walletId body s)) walletId) =
          Some (rd (of_nat (B + A) / 100))"
      using cents_amounts(2) [of A B] by (simp only: b num_of.simps)
  qed
  show "\<forall>q. js_add (w_balance w) (num_of (amount body)) = Fin q \<and> 10 ^ 21 \<le> \<bar>q\<bar> \<longrightarrow>
        map_option w_balance (findWalletByWalletId (snd (credit clk walletId body s)) walletId) =
          Some (Fin q)"
    using b by (rule kept_balance(1))
  show "\<forall>y. js_add (w_balance w) (num_of (amount body)) = y \<and> \<not> isFinite y \<longrightarrow>
        map_option w_balance (findWalletByWalletId (snd (credit clk walletId body s)) walletId) =
          Some y"
    using b by (rule kept_balance(2))
next
  show "\<exists>x. fst (credit example_clock ''WALLET-001'' (example_body (JNum (Fin 3000)) (Some ''CREDIT-001''))
              (example_db (Fin 1500) (Fin 0))) = Inr x \<and>
        x_balanceBefore x = Fin 1500 \<and> x_balanceAfter x = Fin 4500 \<and> x_status x = ''SUCCESS''"
    by (simp add: credit_success [OF find_ex1] example_body_def example_wallet_def rd_numeral cents_numeral)
qed

theorem credit_success_effect_witness:
  "findWalletByWalletId (example_db (Fin 1500) (Fin 0)) ''WALLET-001'' =
     Some (example_wallet 1 ''WALLET-001'' ''+221771234567'' (Fin 1500)) \<and>
   isPositiveNumber (amount (example_body (JNum (Fin 3000)) (Some ''CREDIT-001''))) \<and>
   truthy (reference (example_body (JNum (Fin 3000)) (Some ''CREDIT-001''))) \<and>
   map_option w_balance (findWalletByWalletId
     (snd (credit example_clock ''WALLET-001'' (example_body (JNum (Fin 3000)) (Some ''CREDIT-001''))
        (example_db (Fin 1500) (Fin 0)))) ''WALLET-001'') = Some (Fin 4500) \<and>
   findWalletByWalletId (example_db (rd (7 / 10)) (Fin 0)) ''WALLET-001'' =
     Some (example_wallet 1 ''WALLET-001'' ''+221771234567'' (rd (7 / 10))) \<and>
   isPositiveNumber (amount (example_body (JNum (rd (1 / 10))) (Some ''CREDIT-002''))) \<and>
   truthy (reference (example_body (JNum (rd (1 / 10))) (Some ''CREDIT-002''))) \<and>
   js_add (rd (7 / 10)) (rd (1 / 10)) = Fin (7205759403792793 / 9007199254740992) \<and>
   \<bar>7205759403792793 / 9007199254740992 :: rat\<bar> < 10 ^ 21 \<and>
   map_option w_balance (findWalletByWalletId
     (snd (credit example_clock ''WALLET-001'' (example_body (JNum (rd (1 / 10))) (Some ''CREDIT-002''))
        (example_db (rd (7 / 10)) (Fin 0)))) ''WALLET-001'') = Some (rd (4 / 5)) \<and>
   rd (4 / 5) = Fin (3602879701896397 / 4503599627370496) \<and>
   Number_toFixed2 (Fin (7205759403792793 / 9007199254740992)) = rd (4 / 5)"
proof -
  have direct: "Number_toFixed2 (Fin (7205759403792793 / 9007199254740992)) = rd (4 / 5)"
    by (simp add: cents_def floor_rat_numeral)
  have h: "findWalletByWalletId (example_db (Fin 1500) (Fin 0)) ''WALLET-001'' =
       Some (example_wallet 1 ''WALLET-001'' ''+221771234567'' (Fin 1500)) \<and>
     isPositiveNumber (amount (example_body (JNum (Fin 3000)) (Some ''CREDIT-001''))) \<and>
     truthy (reference (example_body (JNum (Fin 3000)) (Some ''CREDIT-001'')))"
    by (simp add: find_ex1 example_body_def)
  have v: "Number_toFixed2 (js_add (w_balance (example_wallet 1 ''WALLET-001'' ''+221771234567'' (Fin 1500)))
      (num_of (amount (example_body (JNum (Fin 3000)) (Some ''CREDIT-001''))))) = Fin 4500"
    by (simp add: example_body_def example_wallet_def rd_numeral cents_numeral)
  have first: "map_option w_balance (findWalletByWalletId
     (snd (credit example_clock ''WALLET-001'' (example_body (JNum (Fin 3000)) (Some ''CREDIT-001''))
        (example_db (Fin 1500) (Fin 0)))) ''WALLET-001'') = Some (Fin 4500)"
    using h v credit_success_effect [of "example_db (Fin 1500) (Fin 0)" "''WALLET-001''"
        "example_wallet 1 ''WALLET-001'' ''+221771234567'' (Fin 1500)"
        "example_body (JNum (Fin 3000)) (Some ''CREDIT-001'')" example_clock]
    by simp
  have h2: "findWalletByWalletId (example_db (rd (7 / 10)) (Fin 0)) ''WALLET-001'' =
       Some (example_wallet 1 ''WALLET-001'' ''+221771234567'' (rd (7 / 10))) \<and>
     isPositiveNumber (amount (example_body (JNum (rd (1 / 10))) (Some ''CREDIT-002''))) \<and>
     truthy (reference (example_body (JNum (rd (1 / 10))) (Some ''CREDIT-002'')))"
    by (simp add: find_ex1 example_body_def rd_1_10)
  have q: "js_add (w_balance (example_wallet 1 ''WALLET-001'' ''+221771234567'' (rd (7 / 10))))
       (num_of (amount (example_body (JNum (rd (1 / 10))) (Some ''CREDIT-002'')))) =
       Fin (7205759403792793 / 9007199254740992) \<and>
     \<bar>7205759403792793 / 9007199254740992 :: rat\<bar> < 10 ^ 21"
    by (simp add: example_wallet_def example_body_def js_add_eight_tenths)
  note T = credit_success_effect [of "example_db (rd (7 / 10)) (Fin 0)" "''WALLET-001''"
        "example_wallet 1 ''WALLET-001'' ''+221771234567'' (rd (7 / 10))"
        "example_body (JNum (rd (1 / 10))) (Some ''CREDIT-002'')" example_clock,
        THEN conjunct1, THEN mp, OF h2]
  from T [THEN conjunct2, THEN conjunct2, THEN conjunct2, THEN conjunct1, rule_format, OF q]
  obtain N :: int where N: "\<bar>100 * (7205759403792793 / 9007199254740992) - rat_of_int N\<bar> \<le> 1 / 2"
    "map_option w_balance (findWalletByWalletId
     (snd (credit example_clock ''WALLET-001'' (example_body (JNum (rd (1 / 10))) (Some ''CREDIT-002''))
        (example_db (rd (7 / 10)) (Fin 0)))) ''WALLET-001'') = Some (rd (of_int N / 100))"
    by blast
  have "N = 80"
    by (rule nearest_int_unique [OF N(1)]) simp
  with N(2) have second: "map_option w_balance (findWalletByWalletId
     (snd (credit example_clock ''WALLET-001'' (example_body (JNum (rd (1 / 10))) (Some ''CREDIT-002''))
        (example_db (rd (7 / 10)) (Fin 0)))) ''WALLET-001'') = Some (rd (4 / 5))"
    by simp
  show ?thesis
    using h first h2 second q js_add_eight_tenths rd_4_5 direct by (simp del: Number_toFixed2.simps)
qed


section \<open>Debit\<close>

text \<open>
  C5 (as amended).  A debit of a positive finite amount \<open>a\<close> with a non-empty reference on an
  existing wallet of balance \<open>b\<close> is refused with \<^verbatim>\<open>INSUFFICIENT_FUNDS\<close> exactly when
  \<open>b < a\<close>, so that a debit of the whole balance succeeds.  The message of the refusal is
  \<^verbatim>\<open>Solde insuffisant. Solde actuel: \<close>\<open>b.toFixed(2)\<close>\<^verbatim>\<open>, Montant demand\<close>...\<^verbatim>\<open>: \<close>\<open>a.toFixed(2)\<close>,
  and \<open>b.toFixed(2)\<close> is \<open>b\<close> with two decimals whenever \<open>|b| < 10^21\<close>.
\<close>

theorem debit_insufficient_funds:
  "findWalletByWalletId s walletId = Some w \<and> isPositiveNumber (amount body) \<and> truthy (reference body) \<longrightarrow>
     ((\<exists>e. fst (debit clk walletId body s) = Inl e \<and> err_error e = ''INSUFFICIENT_FUNDS'') \<longleftrightarrow>
        js_lt (w_balance w) (num_of (amount body))) \<and>
     (w_balance w = num_of (amount body) \<longrightarrow> (\<exists>x. fst (debit clk walletId body s) = Inr x)) \<and>
     (js_lt (w_balance w) (num_of (amount body)) \<longrightarrow>
        fst (debit clk walletId body s) =
          Inl (badRequest (clk 0) ''INSUFFICIENT_FUNDS''
                (''Solde insuffisant. Solde actuel: '' @ toFixed2 (w_balance w) @
                 '', Montant demand'' @ [CHR 0xE9] @ '': '' @ toFixed2 (num_of (amount body))))) \<and>
     (\<forall>q. w_balance w = Fin q \<and> \<bar>q\<bar> < 10 ^ 21 \<longrightarrow>
        toFixed2 (w_balance w) = (if q < 0 then ''-'' else []) @ digits (cents \<bar>q\<bar> div 100) @ ''.'' @
          [digit_char (cents \<bar>q\<bar> div 10 mod 10), digit_char (cents \<bar>q\<bar> mod 10)])"
proof (intro impI conjI allI)
  assume h: "findWalletByWalletId s walletId = Some w \<and> isPositiveNumber (amount body) \<and> truthy (reference body)"
  then have f: "findWalletByWalletId s walletId = Some w" and p: "isPositiveNumber (amount body)"
    and r: "truthy (reference body)" by simp_all
  show "(\<exists>e. fst (debit clk walletId body s) = Inl e \<and> err_error e = ''INSUFFICIENT_FUNDS'') \<longleftrightarrow>
        js_lt (w_balance w) (num_of (amount body))"
  proof (cases "js_lt (w_balance w) (num_of (amount body))")
    case True
    then show ?thesis by (simp add: debit_insufficient [OF f p r] badRequest_def)
  next
    case False
    then show ?thesis by (simp add: debit_success [OF f p r])
  qed
  show "\<exists>x. fst (debit clk walletId body s) = Inr x" if "w_balance w = num_of (amount body)"
  proof -
    obtain q where "amount body = JNum (Fin q)" using isPositiveNumber_num [OF p] by blast
    with that have "\<not> js_lt (w_balance w) (num_of (amount body))" by simp
    then show ?thesis by (simp add: debit_success [OF f p r])
  qed
  show "fst (debit clk walletId body s) =
          Inl (badRequest (clk 0) ''INSUFFICIENT_FUNDS''
                (''Solde insuffisant. Solde actuel: '' @ toFixed2 (w_balance w) @
                 '', Montant demand'' @ [CHR 0xE9] @ '': '' @ toFixed2 (num_of (amount body))))"
    if "js_lt (w_balance w) (num_of (amount body))"
    using that by (simp add: debit_insufficient [OF f p r] insufficient_message_def)
  show "toFixed2 (w_balance w) = (if q < 0 then ''-'' else []) @ digits (cents \<bar>q\<bar> div 100) @ ''.'' @
          [digit_char (cents \<bar>q\<bar> div 10 mod 10), digit_char (cents \<bar>q\<bar> mod 10)]"
    if "w_balance w = Fin q \<and> \<bar>q\<bar> < 10 ^ 21" for q
    using that by (simp add: fixed2_def Let_def)
qed

theorem debit_insufficient_funds_witness:
  "findWalletByWalletId (example_db (Fin 500) (Fin 0)) ''WALLET-001'' =
     Some (example_wallet 1 ''WALLET-001'' ''+221771234567'' (Fin 500)) \<and>
   isPositiveNumber (amount (example_body (JNum (Fin 1000)) (Some ''DEBIT-001''))) \<and>
   truthy (reference (example_body (JNum (Fin 1000)) (Some ''DEBIT-001''))) \<and>
   js_lt (Fin 500) (Fin 1000) \<and>
   fst (debit example_clock ''WALLET-001'' (example_body (JNum (Fin 1000)) (Some ''DEBIT-001''))
          (example_db (Fin 500) (Fin 0))) =
     Inl (badRequest 1000 ''INSUFFICIENT_FUNDS''
           (''Solde insuffisant. Solde actuel: 500.00, Montant demand'' @ [CHR 0xE9] @ '': 1000.00''))"
proof -
  have h: "findWalletByWalletId (example_db (Fin 500) (Fin 0)) ''WALLET-001'' =
       Some (example_wallet 1 ''WALLET-001'' ''+221771234567'' (Fin 500)) \<and>
     isPositiveNumber (amount (example_body (JNum (Fin 1000)) (Some ''DEBIT-001''))) \<and>
     truthy (reference (example_body (JNum (Fin 1000)) (Some ''DEBIT-001'')))"
    by (simp add: find_ex1 example_body_def)
  have v: "w_balance (example_wallet 1 ''WALLET-001'' ''+221771234567'' (Fin 500)) = Fin 500"
    "num_of (amount (example_body (JNum (Fin 1000)) (Some ''DEBIT-001''))) = Fin 1000"
    "example_clock 0 = 1000"
    by (simp_all add: example_body_def example_wallet_def example_clock_def)
  have lt: "js_lt (w_balance (example_wallet 1 ''WALLET-001'' ''+221771234567'' (Fin 500)))
      (num_of (amount (example_body (JNum (Fin 1000)) (Some ''DEBIT-001''))))"
    by (simp add: v)
  note T = debit_insufficient_funds [of "example_db (Fin 500) (Fin 0)" "''WALLET-001''"
        "example_wallet 1 ''WALLET-001'' ''+221771234567'' (Fin 500)"
        "example_body (JNum (Fin 1000)) (Some ''DEBIT-001'')" example_clock, THEN mp, OF h]
  have "fst (debit example_clock ''WALLET-001'' (example_body (JNum (Fin 1000)) (Some ''DEBIT-001''))
          (example_db (Fin 500) (Fin 0))) =
     Inl (badRequest 1000 ''INSUFFICIENT_FUNDS''
           (''Solde insuffisant. Solde actuel: 500.00, Montant demand'' @ [CHR 0xE9] @ '': 1000.00''))"
    using T [THEN conjunct2, THEN conjunct2, THEN conjunct1, THEN mp, OF lt]
    by (simp add: v toFixed2_500 toFixed2_1000 del: toFixed2.simps)
  then show ?thesis
    using h by simp
qed

text \<open>
  The claim as stated fails from \<open>10^21\<close> on, where \<^verbatim>\<open>toFixed\<close> answers in exponent notation:
  after a credit of \<open>10^21\<close> on an empty wallet, a debit of \<open>2 * 10^21\<close> is refused with a
  message that shows the balance as \<^verbatim>\<open>1e+21\<close> and not with two decimals.
\<close>

theorem debit_message_counterexample:
  "isl (fst (debit example_clock ''WALLET-001'' (example_body (JNum (Fin (2 * 10 ^ 21))) (Some ''DEBIT-001''))
         (snd (credit example_clock ''WALLET-001'' (example_body (JNum (Fin (10 ^ 21))) (Some ''CREDIT-001''))
            (example_db (Fin 0) (Fin 0)))))) \<and>
   err_error (projl (fst (debit example_clock ''WALLET-001'' (example_body (JNum (Fin (2 * 10 ^ 21))) (Some ''DEBIT-001''))
         (snd (credit example_clock ''WALLET-001'' (example_body (JNum (Fin (10 ^ 21))) (Some ''CREDIT-001''))
            (example_db (Fin 0) (Fin 0))))))) = ''INSUFFICIENT_FUNDS'' \<and>
   err_message (projl (fst (debit example_clock ''WALLET-001'' (example_body (JNum (Fin (2 * 10 ^ 21))) (Some ''DEBIT-001''))
         (snd (credit example_clock ''WALLET-001'' (example_body (JNum (Fin (10 ^ 21))) (Some ''CREDIT-001''))
            (example_db (Fin 0) (Fin 0))))))) =
     ''Solde insuffisant. Solde actuel: 1e+21, Montant demand'' @ [CHR 0xE9] @ '': 2e+21'' \<and>
   fixed2 (10 ^ 21) = ''1000000000000000000000.00'' \<and>
   \<not> str_includes
       (err_message (projl (fst (debit example_clock ''WALLET-001'' (example_body (JNum (Fin (2 * 10 ^ 21))) (Some ''DEBIT-001''))
         (snd (credit example_clock ''WALLET-001'' (example_body (JNum (Fin (10 ^ 21))) (Some ''CREDIT-001''))
            (example_db (Fin 0) (Fin 0))))))))
       (fixed2 (10 ^ 21))"
proof -
  define s1 where "s1 = snd (credit example_clock ''WALLET-001'' (example_body (JNum (Fin (10 ^ 21))) (Some ''CREDIT-001''))
            (example_db (Fin 0) (Fin 0)))"
  have bal: "Number_toFixed2 (js_add (Fin 0) (Fin (10 ^ 21))) = Fin (10 ^ 21)"
    by (simp add: rd_1e21)
  have f1: "findWalletByWalletId s1 ''WALLET-001'' =
      Some ((example_wallet 1 ''WALLET-001'' ''+221771234567'' (Fin 0))\<lparr>w_balance := Fin (10 ^ 21), w_updatedAt := 1000\<rparr>)"
    unfolding s1_def
    by (simp add: credit_success [OF find_ex1] example_body_def findWallet_setBalance_same find_ex1
          example_wallet_def example_clock_def rd_1e21)
  have m1: "toFixed2 (Fin 1000000000000000000000) = ''1e+21''"
    using toFixed2_1e21 by (simp del: toFixed2.simps)
  have m2: "toFixed2 (Fin 2000000000000000000000) = ''2e+21''"
    using toFixed2_2e21 by (simp del: toFixed2.simps)
  have d: "debit example_clock ''WALLET-001'' (example_body (JNum (Fin (2 * 10 ^ 21))) (Some ''DEBIT-001'')) s1 =
      (Inl (badRequest 1000 ''INSUFFICIENT_FUNDS''
          (''Solde insuffisant. Solde actuel: 1e+21, Montant demand'' @ [CHR 0xE9] @ '': 2e+21'')), s1)"
    by (simp add: debit_insufficient [OF f1] example_body_def insufficient_message_def example_clock_def
          m1 m2 del: toFixed2.simps)
  have f2: "fixed2 1000000000000000000000 = ''1000000000000000000000.00''"
    using fixed2_1e21 by simp
  show ?thesis
    unfolding s1_def [symmetric] d
    by (simp add: badRequest_def f2)
qed

section \<open>The effects of an executed transfer\<close>

lemma setBalance_fields [simp]:
  "banks (setBalance walletId v now s) = banks s"
  "events (setBalance walletId v now s) = events s"
  "idempotency (setBalance walletId v now s) = idempotency s"
  by (simp_all add: setBalance_def)

lemma pushTransaction_fields [simp]:
  "banks (pushTransaction t s) = banks s"
  "wallets (pushTransaction t s) = wallets s"
  "events (pushTransaction t s) = events s"
  "idempotency (pushTransaction t s) = idempotency s"
  by (simp_all add: pushTransaction_def)

lemma pushEvent_fields [simp]:
  "banks (pushEvent n1 n2 topic pl s) = banks s"
  "wallets (pushEvent n1 n2 topic pl s) = wallets s"
  "idempotency (pushEvent n1 n2 topic pl s) = idempotency s"
  by (simp_all add: pushEvent_def)

lemma transfer_execute_response:
  "fst (transfer_execute clk body idemKey src dst s) =
     \<lparr>r_transactionId = ''TRF-'' @ show_int (clk 12),
      r_sourceWalletId = str (sourceWalletId body),
      r_destinationWalletId = str (destinationWalletId body),
      r_amount = num_of (amount body), r_status = ''SUCCESS'',
      r_sourceBalanceBefore = w_balance src,
      r_sourceBalanceAfter = Number_toFixed2 (js_sub (w_balance src) (num_of (amount body))),
      r_destinationBalanceBefore = w_balance dst,
      r_destinationBalanceAfter = Number_toFixed2 (js_add (w_balance dst) (num_of (amount body))),
      r_reference = str (reference body),
      r_description = (if truthy (description body) then description body else None),
      r_timestamp = clk 13\<rparr>"
  by (simp add: transfer_execute_def Let_def)

lemma transfer_execute_transactions:
  "transactions (snd (transfer_execute clk body idemKey src dst s)) = transactions s @
     [\<lparr>t_id = clk 2, t_createdAt = clk 3, t_processedAt = clk 4,
       t_transactionId = ''TXN-'' @ show_int (clk 5) @ ''-D'',
       t_walletId = str (sourceWalletId body), t_type = ''DEBIT'',
       t_status = ''SUCCESS'', t_amount = num_of (amount body),
       t_balanceBefore = w_balance src,
       t_balanceAfter = Number_toFixed2 (js_sub (w_balance src) (num_of (amount body))),
       t_reference = str (reference body),
       t_description = Some (if truthy (description body) then description body else None),
       t_timestamp = clk 6\<rparr>,
      \<lparr>t_id = clk 7 + 1, t_createdAt = clk 8, t_processedAt = clk 9,
       t_transactionId = ''TXN-'' @ show_int (clk 10) @ ''-C'',
       t_walletId = str (destinationWalletId body), t_type = ''CREDIT'',
       t_status = ''SUCCESS'', t_amount = num_of (amount body),
       t_balanceBefore = w_balance dst,
       t_balanceAfter = Number_toFixed2 (js_add (w_balance dst) (num_of (amount body))),
       t_reference = str (reference body),
       t_description = Some (if truthy (description body) then description body else None),
       t_timestamp = clk 11\<rparr>]"
  by (simp add: transfer_execute_def Let_def)

lemma transfer_execute_wallets:
  "wallets (snd (transfer_execute clk body idemKey src dst s)) =
     wallets (setBalance (str (destinationWalletId body))
                (Number_toFixed2 (js_add (w_balance dst) (num_of (amount body)))) (clk 1)
             (setBalance (str (sourceWalletId body))
                (Number_toFixed2 (js_sub (w_balance src) (num_of (amount body)))) (clk 0) s))"
  by (simp add: transfer_execute_def Let_def)

lemma findWallet_cong: "wallets s = wallets s' \<Longrightarrow> findWalletByWalletId s w = findWalletByWalletId s' w"
  by (simp add: findWalletByWalletId_def)

lemma transfer_execute_source:
  assumes "str (sourceWalletId body) \<noteq> str (destinationWalletId body)"
    and "findWalletByWalletId s (str (sourceWalletId body)) = Some src"
  shows "findWalletByWalletId (snd (transfer_execute clk body idemKey src dst s)) (str (sourceWalletId body)) =
     Some (src\<lparr>w_balance := Number_toFixed2 (js_sub (w_balance src) (num_of (amount body))),
               w_updatedAt := clk 0\<rparr>)"
  using assms
  by (simp add: findWallet_cong [OF transfer_execute_wallets] findWallet_setBalance_other
        findWallet_setBalance_same)

lemma transfer_execute_destination:
  assumes "str (sourceWalletId body) \<noteq> str (destinationWalletId body)"
    and "findWalletByWalletId s (str (destinationWalletId body)) = Some dst"
  shows "findWalletByWalletId (snd (transfer_execute clk body idemKey src dst s)) (str (destinationWalletId body)) =
     Some (dst\<lparr>w_balance := Number_toFixed2 (js_add (w_balance dst) (num_of (amount body))),
               w_updatedAt := clk 1\<rparr>)"
  using assms
  by (simp add: findWallet_cong [OF transfer_execute_wallets] findWallet_setBalance_other
        findWallet_setBalance_same)

lemma transfer_execute_idempotency:
  "idempotency (snd (transfer_execute clk body idemKey src dst s)) = idempotency s @
     (if truthy idemKey
      then [\<lparr>i_id = clk 16, i_key = str idemKey,
             i_response = fst (transfer_execute clk body idemKey src dst s), i_createdAt = clk 17\<rparr>]
      else [])"
  by (simp add: transfer_execute_def Let_def)

lemma txn_ids_differ: "''TXN-'' @ a @ ''-D'' \<noteq> ''TXN-'' @ b @ ''-C''"
proof
  assume "''TXN-'' @ a @ ''-D'' = ''TXN-'' @ b @ ''-C''"
  then have "last (''TXN-'' @ a @ ''-D'') = last (''TXN-'' @ b @ ''-C'')" by (rule arg_cong)
  then show False by simp
qed

section \<open>Transfer\<close>

lemma transfer_effect:
  "fst (transfer clk body idemKey s) = Inr r \<and>
   (\<not> truthy idemKey \<or> lookup_idempotency s (str idemKey) = None) \<longrightarrow>
   (\<exists>src dst tD tC.
      findWalletByWalletId s (str (sourceWalletId body)) = Some src \<and>
      findWalletByWalletId s (str (destinationWalletId body)) = Some dst \<and>
      map_option w_balance (findWalletByWalletId (snd (transfer clk body idemKey s)) (str (sourceWalletId body))) =
        Some (Number_toFixed2 (js_sub (w_balance src) (num_of (amount body)))) \<and>
      map_option w_balance (findWalletByWalletId (snd (transfer clk body idemKey s)) (str (destinationWalletId body))) =
        Some (Number_toFixed2 (js_add (w_balance dst) (num_of (amount body)))) \<and>
      transactions (snd (transfer clk body idemKey s)) = transactions s @ [tD, tC] \<and>
      t_type tD = ''DEBIT'' \<and> t_status tD = ''SUCCESS'' \<and> t_walletId tD = str (sourceWalletId body) \<and>
      t_amount tD = num_of (amount body) \<and> t_balanceBefore tD = w_balance src \<and>
      t_balanceAfter tD = Number_toFixed2 (js_sub (w_balance src) (num_of (amount body))) \<and>
      t_type tC = ''CREDIT'' \<and> t_status tC = ''SUCCESS'' \<and> t_walletId tC = str (destinationWalletId body) \<and>
      t_amount tC = num_of (amount body) \<and> t_balanceBefore tC = w_balance dst \<and>
      t_balanceAfter tC = Number_toFixed2 (js_add (w_balance dst) (num_of (amount body))) \<and>
      t_reference tD = t_reference tC \<and> t_transactionId tD \<noteq> t_transactionId tC)"
proof (rule impI, elim conjE)
  assume ok: "fst (transfer clk body idemKey s) = Inr r"
    and nc: "\<not> truthy idemKey \<or> lookup_idempotency s (str idemKey) = None"
  show "\<exists>src dst tD tC.
      findWalletByWalletId s (str (sourceWalletId body)) = Some src \<and>
      findWalletByWalletId s (str (destinationWalletId body)) = Some dst \<and>
      map_option w_balance (findWalletByWalletId (snd (transfer clk body idemKey s)) (str (sourceWalletId body))) =
        Some (Number_toFixed2 (js_sub (w_balance src) (num_of (amount body)))) \<and>
      map_option w_balance (findWalletByWalletId (snd (transfer clk body idemKey s)) (str (destinationWalletId body))) =
        Some (Number_toFixed2 (js_add (w_balance dst) (num_of (amount body)))) \<and>
      transactions (snd (transfer clk body idemKey s)) = transactions s @ [tD, tC] \<and>
      t_type tD = ''DEBIT'' \<and> t_status tD = ''SUCCESS'' \<and> t_walletId tD = str (sourceWalletId body) \<and>
      t_amount tD = num_of (amount body) \<and> t_balanceBefore tD = w_balance src \<and>
      t_balanceAfter tD = Number_toFixed2 (js_sub (w_balance src) (num_of (amount body))) \<and>
      t_type tC = ''CREDIT'' \<and> t_status tC = ''SUCCESS'' \<and> t_walletId tC = str (destinationWalletId body) \<and>
      t_amount tC = num_of (amount body) \<and> t_balanceBefore tC = w_balance dst \<and>
      t_balanceAfter tC = Number_toFixed2 (js_add (w_balance dst) (num_of (amount body))) \<and>
      t_reference tD = t_reference tC \<and> t_transactionId tD \<noteq> t_transactionId tC"
  proof (rule transfer_cases [where body = body and s = s and idemKey = idemKey])
    assume "\<not> transfer_fields_ok body"
    then show ?thesis using ok by (simp add: transfer_invalid)
  next
    assume "transfer_fields_ok body" "str (sourceWalletId body) = str (destinationWalletId body)"
    then show ?thesis using ok by (simp add: transfer_same)
  next
    assume "transfer_fields_ok body" "str (sourceWalletId body) \<noteq> str (destinationWalletId body)"
      "findWalletByWalletId s (str (sourceWalletId body)) = None"
    then show ?thesis using ok by (simp add: transfer_no_source)
  next
    fix src
    assume "transfer_fields_ok body" "str (sourceWalletId body) \<noteq> str (destinationWalletId body)"
      "findWalletByWalletId s (str (sourceWalletId body)) = Some src"
      "findWalletByWalletId s (str (destinationWalletId body)) = None"
    then show ?thesis using ok by (simp add: transfer_no_destination)
  next
    fix src dst cached
    assume "truthy idemKey" "lookup_idempotency s (str idemKey) = Some cached"
    then show ?thesis using nc by simp
  next
    fix src dst
    assume "transfer_fields_ok body" "str (sourceWalletId body) \<noteq> str (destinationWalletId body)"
      "findWalletByWalletId s (str (sourceWalletId body)) = Some src"
      "findWalletByWalletId s (str (destinationWalletId body)) = Some dst"
      "\<not> truthy idemKey \<or> lookup_idempotency s (str idemKey) = None"
      "js_lt (w_balance src) (num_of (amount body))"
    then show ?thesis using ok by (simp add: transfer_insufficient)
  next
    fix src dst
    assume a: "transfer_fields_ok body" "str (sourceWalletId body) \<noteq> str (destinationWalletId body)"
      "findWalletByWalletId s (str (sourceWalletId body)) = Some src"
      "findWalletByWalletId s (str (destinationWalletId body)) = Some dst"
      "\<not> truthy idemKey \<or> lookup_idempotency s (str idemKey) = None"
      "\<not> js_lt (w_balance src) (num_of (amount body))"
    note e = transfer_executed [OF a, of clk]
    show ?thesis
      apply (rule exI [of _ src], rule exI [of _ dst])
      apply (simp add: e a transfer_execute_source [OF a(2,3)] transfer_execute_destination [OF a(2,4)]
          transfer_execute_transactions txn_ids_differ)
      done
  qed
qed

text \<open>
  C4.  A transfer that succeeds without being answered from the idempotency cache, of
  amount \<open>a\<close> between a source of balance \<open>s\<close> and a destination of balance \<open>d\<close>, leaves the
  source at \<^verbatim>\<open>Number((s - a).toFixed(2))\<close> and the destination at
  \<^verbatim>\<open>Number((d + a).toFixed(2))\<close>, and appends exactly two transactions: a \<^verbatim>\<open>DEBIT\<close> on
  the source with \<open>balanceBefore = s\<close>, then a \<^verbatim>\<open>CREDIT\<close> on the destination with
  \<open>balanceBefore = d\<close>, with the same reference and different transaction identifiers.
  The two balances are the difference and the sum rounded to two decimals: when the
  difference (the sum) \<open>q\<close> of Numbers is below \<open>10^21\<close> in magnitude, the balance is the
  Number nearest to \<open>N / 100\<close> for an integer \<open>N\<close> at distance at most \<open>1/2\<close> from \<open>100 q\<close>;
  and when \<open>s\<close>, \<open>d\<close> and \<open>a\<close> are amounts of \<open>B + A\<close>, \<open>D\<close> and \<open>A\<close> hundredths, at most
  \<open>2^50\<close> on each side, the source is left at \<open>B\<close> hundredths and the destination at
  \<open>D + A\<close>; a difference or sum of magnitude \<open>10^21\<close> or more, or not finite, is kept as it
  is.
\<close>

theorem transfer_success_effect:
  "fst (transfer clk body idemKey s) = Inr r \<and>
   (\<not> truthy idemKey \<or> lookup_idempotency s (str idemKey) = None) \<longrightarrow>
   (\<exists>src dst tD tC.
      findWalletByWalletId s (str (sourceWalletId body)) = Some src \<and>
      findWalletByWalletId s (str (destinationWalletId body)) = Some dst \<and>
      map_option w_balance (findWalletByWalletId (snd (transfer clk body idemKey s)) (str (sourceWalletId body))) =
        Some (Number_toFixed2 (js_sub (w_balance src) (num_of (amount body)))) \<and>
      map_option w_balance (findWalletByWalletId (snd (transfer clk body idemKey s)) (str (destinationWalletId body))) =
        Some (Number_toFixed2 (js_add (w_balance dst) (num_of (amount body)))) \<and>
      transactions (snd (transfer clk body idemKey s)) = transactions s @ [tD, tC] \<and>
      t_type tD = ''DEBIT'' \<and> t_status tD = ''SUCCESS'' \<and> t_walletId tD = str (sourceWalletId body) \<and>
      t_amount tD = num_of (amount body) \<and> t_balanceBefore tD = w_balance src \<and>
      t_balanceAfter tD = Number_toFixed2 (js_sub (w_balance src) (num_of (amount body))) \<and>
      t_type tC = ''CREDIT'' \<and> t_status tC = ''SUCCESS'' \<and> t_walletId tC = str (destinationWalletId body) \<and>
      t_amount tC = num_of (amount body) \<and> t_balanceBefore tC = w_balance dst \<and>
      t_balanceAfter tC = Number_toFixed2 (js_add (w_balance dst) (num_of (amount body))) \<and>
      t_reference tD = t_reference tC \<and> t_transactionId tD \<noteq> t_transactionId tC \<and>
      (\<forall>q. js_sub (w_balance src) (num_of (amount body)) = Fin q \<and> \<bar>q\<bar> < 10 ^ 21 \<longrightarrow>
         (\<exists>N::int. \<bar>100 * q - of_int N\<bar> \<le> 1 / 2 \<and>
            map_option w_balance (findWalletByWalletId (snd (transfer clk body idemKey s))
               (str (sourceWalletId body))) = Some (rd (of_int N / 100)))) \<and>
      (\<forall>q. js_add (w_balance dst) (num_of (amount body)) = Fin q \<and> \<bar>q\<bar> < 10 ^ 21 \<longrightarrow>
         (\<exists>N::int. \<bar>100 * q - of_int N\<bar> \<le> 1 / 2 \<and>
            map_option w_balance (findWalletByWalletId (snd (transfer clk body idemKey s))
               (str (destinationWalletId body))) = Some (rd (of_int N / 100)))) \<and>
      (\<forall>B D A. w_balance src = rd (of_nat (B + A) / 100) \<and> w_balance dst = rd (of_nat D / 100) \<and>
          amount body = JNum (rd (of_nat A / 100)) \<and> 0 < A \<and> B + A \<le> 2 ^ 50 \<and> D + A \<le> 2 ^ 50 \<longrightarrow>
         map_option w_balance (findWalletByWalletId (snd (transfer clk body idemKey s))
            (str (sourceWalletId body))) = Some (rd (of_nat B / 100)) \<and>
         map_option w_balance (findWalletByWalletId (snd (transfer clk body idemKey s))
            (str (destinationWalletId body))) = Some (rd (of_nat (D + A) / 100))) \<and>
      (\<forall>q. js_sub (w_balance src) (num_of (amount body)) = Fin q \<and> 10 ^ 21 \<le> \<bar>q\<bar> \<longrightarrow>
         map_option w_balance (findWalletByWalletId (snd (transfer clk body idemKey s))
            (str (sourceWalletId body))) = Some (Fin q)) \<and>
      (\<forall>y. js_sub (w_balance src) (num_of (amount body)) = y \<and> \<not> isFinite y \<longrightarrow>
         map_option w_balance (findWalletByWalletId (snd (transfer clk body idemKey s))
            (str (sourceWalletId body))) = Some y) \<and>
      (\<forall>q. js_add (w_balance dst) (num_of (amount body)) = Fin q \<and> 10 ^ 21 \<le> \<bar>q\<bar> \<longrightarrow>
         map_option w_balance (findWalletByWalletId (snd (transfer clk body idemKey s))
            (str (destinationWalletId body))) = Some (Fin q)) \<and>
      (\<forall>y. js_add (w_balance dst) (num_of (amount body)) = y \<and> \<not> isFinite y \<longrightarrow>
         map_option w_balance (findWalletByWalletId (snd (transfer clk body idemKey s))
            (str (destinationWalletId body))) = Some y))"
proof (rule impI)
  assume h: "fst (transfer clk body idemKey s) = Inr r \<and>
   (\<not> truthy idemKey \<or> lookup_idempotency s (str idemKey) = None)"
  from transfer_effect [THEN mp, OF h] obtain src dst tD tC where
    f: "findWalletByWalletId s (str (sourceWalletId body)) = Some src"
       "findWalletByWalletId s (str (destinationWalletId body)) = Some dst"
    and bs: "map_option w_balance (findWalletByWalletId (snd (transfer clk body idemKey s)) (str (sourceWalletId body))) =
        Some (Number_toFixed2 (js_sub (w_balance src) (num_of (amount body))))"
    and bd: "map_option w_balance (findWalletByWalletId (snd (transfer clk body idemKey s)) (str (destinationWalletId body))) =
        Some (Number_toFixed2 (js_add (w_balance dst) (num_of (amount body))))"
    and t: "transactions (snd (transfer clk body idemKey s)) = transactions s @ [tD, tC] \<and>
      t_type tD = ''DEBIT'' \<and> t_status tD = ''SUCCESS'' \<and> t_walletId tD = str (sourceWalletId body) \<and>
      t_amount tD = num_of (amount body) \<and> t_balanceBefore tD = w_balance src \<and>
      t_balanceAfter tD = Number_toFixed2 (js_sub (w_balance src) (num_of (amount body))) \<and>
      t_type tC = ''CREDIT'' \<and> t_status tC = ''SUCCESS'' \<and> t_walletId tC = str (destinationWalletId body) \<and>
      t_amount tC = num_of (amount body) \<and> t_balanceBefore tC = w_balance dst \<and>
      t_balanceAfter tC = Number_toFixed2 (js_add (w_balance dst) (num_of (amount body))) \<and>
      t_reference tD = t_reference tC \<and> t_transactionId tD \<noteq> t_transactionId tC"
    by blast
  have n1: "\<forall>q. js_sub (w_balance src) (num_of (amount body)) = Fin q \<and> \<bar>q\<bar> < 10 ^ 21 \<longrightarrow>
         (\<exists>N::int. \<bar>100 * q - of_int N\<bar> \<le> 1 / 2 \<and>
            map_option w_balance (findWalletByWalletId (snd (transfer clk body idemKey s))
               (str (sourceWalletId body))) = Some (rd (of_int N / 100)))"
  proof (intro allI impI, elim conjE)
    fix q
    assume q: "js_sub (w_balance src) (num_of (amount body)) = Fin q" "\<bar>q\<bar> < 10 ^ 21"
    define N where "N = (if q < 0 then - cents \<bar>q\<bar> else cents \<bar>q\<bar>)"
    have n: "\<bar>100 * q - of_int N\<bar> \<le> 1 / 2"
      unfolding N_def by (rule signed_cents_nearest)
    have v: "Number_toFixed2 (Fin q) = rd (of_int N / 100)"
      using q(2) by (simp add: N_def rd_minus)
    have "map_option w_balance (findWalletByWalletId (snd (transfer clk body idemKey s))
               (str (sourceWalletId body))) = Some (rd (of_int N / 100))"
      by (simp only: bs q(1) v)
    with n show "\<exists>N::int. \<bar>100 * q - of_int N\<bar> \<le> 1 / 2 \<and>
            map_option w_balance (findWalletByWalletId (snd (transfer clk body idemKey s))
               (str (sourceWalletId body))) = Some (rd (of_int N / 100))"
      by blast
  qed
  have n2: "\<forall>q. js_add (w_balance dst) (num_of (amount body)) = Fin q \<and> \<bar>q\<bar> < 10 ^ 21 \<longrightarrow>
         (\<exists>N::int. \<bar>100 * q - of_int N\<bar> \<le> 1 / 2 \<and>
            map_option w_balance (findWalletByWalletId (snd (transfer clk body idemKey s))
               (str (destinationWalletId body))) = Some (rd (of_int N / 100)))"
  proof (intro allI impI, elim conjE)
    fix q
    assume q: "js_add (w_balance dst) (num_of (amount body)) = Fin q" "\<bar>q\<bar> < 10 ^ 21"
    define N where "N = (if q < 0 then - cents \<bar>q\<bar> else cents \<bar>q\<bar>)"
    have n: "\<bar>100 * q - of_int N\<bar> \<le> 1 / 2"
      unfolding N_def by (rule signed_cents_nearest)
    have v: "Number_toFixed2 (Fin q) = rd (of_int N / 100)"
      using q(2) by (simp add: N_def rd_minus)
    have "map_option w_balance (findWalletByWalletId (snd (transfer clk body idemKey s))
               (str (destinationWalletId body))) = Some (rd (of_int N / 100))"
      by (simp only: bd q(1) v)
    with n show "\<exists>N::int. \<bar>100 * q - of_int N\<bar> \<le> 1 / 2 \<and>
            map_option w_balance (findWalletByWalletId (snd (transfer clk body idemKey s))
               (str (destinationWalletId body))) = Some (rd (of_int N / 100))"
      by blast
  qed
  have n3: "\<forall>B D A. w_balance src = rd (of_nat (B + A) / 100) \<and> w_balance dst = rd (of_nat D / 100) \<and>
          amount body = JNum (rd (of_nat A / 100)) \<and> 0 < A \<and> B + A \<le> 2 ^ 50 \<and> D + A \<le> 2 ^ 50 \<longrightarrow>
         map_option w_balance (findWalletByWalletId (snd (transfer clk body idemKey s))
            (str (sourceWalletId body))) = Some (rd (of_nat B / 100)) \<and>
         map_option w_balance (findWalletByWalletId (snd (transfer clk body idemKey s))
            (str (destinationWalletId body))) = Some (rd (of_nat (D + A) / 100))"
  proof (intro allI impI, elim conjE)
    fix B D A :: nat
    assume a: "w_balance src = rd (of_nat (B + A) / 100)" "w_balance dst = rd (of_nat D / 100)"
      "amount body = JNum (rd (of_nat A / 100))" "0 < A" "B + A \<le> 2 ^ 50" "D + A \<le> 2 ^ 50"
    have "Number_toFixed2 (js_sub (w_balance src) (num_of (amount body))) = rd (of_nat B / 100)"
      using cents_amounts(4) [OF a(4,5)] by (simp only: a num_of.simps)
    moreover have "Number_toFixed2 (js_add (w_balance dst) (num_of (amount body))) = rd (of_nat (D + A) / 100)"
      using cents_amounts(2) [OF a(4,6)] by (simp only: a num_of.simps)
    ultimately show "map_option w_balance (findWalletByWalletId (snd (transfer clk body idemKey s))
            (str (sourceWalletId body))) = Some (rd (of_nat B / 100)) \<and>
         map_option w_balance (findWalletByWalletId (snd (transfer clk body idemKey s))
            (str (destinationWalletId body))) = Some (rd (of_nat (D + A) / 100))"
      by (simp only: bs bd)
  qed
  show "\<exists>src dst tD tC.
      findWalletByWalletId s (str (sourceWalletId body)) = Some src \<and>
      findWalletByWalletId s (str (destinationWalletId body)) = Some dst \<and>
      map_option w_balance (findWalletByWalletId (snd (transfer clk body idemKey s)) (str (sourceWalletId body))) =
        Some (Number_toFixed2 (js_sub (w_balance src) (num_of (amount body)))) \<and>
      map_option w_balance (findWalletByWalletId (snd (transfer clk body idemKey s)) (str (destinationWalletId body))) =
        Some (Number_toFixed2 (js_add (w_balance dst) (num_of (amount body)))) \<and>
      transactions (snd (transfer clk body idemKey s)) = transactions s @ [tD, tC] \<and>
      t_type tD = ''DEBIT'' \<and> t_status tD = ''SUCCESS'' \<and> t_walletId tD = str (sourceWalletId body) \<and>
      t_amount tD = num_of (amount body) \<and> t_balanceBefore tD = w_balance src \<and>
      t_balanceAfter tD = Number_toFixed2 (js_sub (w_balance src) (num_of (amount body))) \<and>
      t_type tC = ''CREDIT'' \<and> t_status tC = ''SUCCESS'' \<and> t_walletId tC = str (destinationWalletId body) \<and>
      t_amount tC = num_of (amount body) \<and> t_balanceBefore tC = w_balance dst \<and>
      t_balanceAfter tC = Number_toFixed2 (js_add (w_balance dst) (num_of (amount body))) \<and>
      t_reference tD = t_reference tC \<and> t_transactionId tD \<noteq> t_transactionId tC \<and>
      (\<forall>q. js_sub (w_balance src) (num_of (amount body)) = Fin q \<and> \<bar>q\<bar> < 10 ^ 21 \<longrightarrow>
         (\<exists>N::int. \<bar>100 * q - of_int N\<bar> \<le> 1 / 2 \<and>
            map_option w_balance (findWalletByWalletId (snd (transfer clk body idemKey s))
               (str (sourceWalletId body))) = Some (rd (of_int N / 100)))) \<and>
      (\<forall>q. js_add (w_balance dst) (num_of (amount body)) = Fin q \<and> \<bar>q\<bar> < 10 ^ 21 \<longrightarrow>
         (\<exists>N::int. \<bar>100 * q - of_int N\<bar> \<le> 1 / 2 \<and>
            map_option w_balance (findWalletByWalletId (snd (transfer clk body idemKey s))
               (str (destinationWalletId body))) = Some (rd (of_int N / 100)))) \<and>
      (\<forall>B D A. w_balance src = rd (of_nat (B + A) / 100) \<and> w_balance dst = rd (of_nat D / 100) \<and>
          amount body = JNum (rd (of_nat A / 100)) \<and> 0 < A \<and> B + A \<le> 2 ^ 50 \<and> D + A \<le> 2 ^ 50 \<longrightarrow>
         map_option w_balance (findWalletByWalletId (snd (transfer clk body idemKey s))
            (str (sourceWalletId body))) = Some (rd (of_nat B / 100)) \<and>
         map_option w_balance (findWalletByWalletId (snd (transfer clk body idemKey s))
            (str (destinationWalletId body))) = Some (rd (of_nat (D + A) / 100))) \<and>
      (\<forall>q. js_sub (w_balance src) (num_of (amount body)) = Fin q \<and> 10 ^ 21 \<le> \<bar>q\<bar> \<longrightarrow>
         map_option w_balance (findWalletByWalletId (snd (transfer clk body idemKey s))
            (str (sourceWalletId body))) = Some (Fin q)) \<and>
      (\<forall>y. js_sub (w_balance src) (num_of (amount body)) = y \<and> \<not> isFinite y \<longrightarrow>
         map_option w_balance (findWalletByWalletId (snd (transfer clk body idemKey s))
            (str (sourceWalletId body))) = Some y) \<and>
      (\<forall>q. js_add (w_balance dst) (num_of (amount body)) = Fin q \<and> 10 ^ 21 \<le> \<bar>q\<bar> \<longrightarrow>
         map_option w_balance (findWalletByWalletId (snd (transfer clk body idemKey s))
            (str (destinationWalletId body))) = Some (Fin q)) \<and>
      (\<forall>y. js_add (w_balance dst) (num_of (amount body)) = y \<and> \<not> isFinite y \<longrightarrow>
         map_option w_balance (findWalletByWalletId (snd (transfer clk body idemKey s))
            (str (destinationWalletId body))) = Some y)"
    using f bs bd t n1 n2 n3 kept_balance [OF bs] kept_balance [OF bd]
    apply -
    apply (rule exI [of _ src], rule exI [of _ dst], rule exI [of _ tD], rule exI [of _ tC])
    apply (elim conjE)
    apply (intro conjI; assumption)
    done
qed

lemma example_transfer_ok:
  "transfer_fields_ok (example_transfer (Some ''WALLET-001'') (Some ''WALLET-002'') (JNum (Fin 2000)) (Some ''TRF-001''))"
  by (simp add: transfer_fields_ok_def example_transfer_def)

theorem transfer_success_effect_witness:
  "fst (transfer example_clock
         (example_transfer (Some ''WALLET-001'') (Some ''WALLET-002'') (JNum (Fin 2000)) (Some ''TRF-001''))
         None (example_db (Fin 3500) (Fin 2000))) =
     Inr \<lparr>r_transactionId = ''TRF-1012'', r_sourceWalletId = ''WALLET-001'',
          r_destinationWalletId = ''WALLET-002'', r_amount = Fin 2000, r_status = ''SUCCESS'',
          r_sourceBalanceBefore = Fin 3500, r_sourceBalanceAfter = Fin 1500,
          r_destinationBalanceBefore = Fin 2000, r_destinationBalanceAfter = Fin 4000,
          r_reference = ''TRF-001'', r_description = Some ''Paiement facture'', r_timestamp = 1013\<rparr> \<and>
   \<not> truthy None \<and>
   map_option w_balance (findWalletByWalletId
     (snd (transfer example_clock
         (example_transfer (Some ''WALLET-001'') (Some ''WALLET-002'') (JNum (Fin 2000)) (Some ''TRF-001''))
         None (example_db (Fin 3500) (Fin 2000)))) ''WALLET-001'') = Some (Fin 1500) \<and>
   map_option w_balance (findWalletByWalletId
     (snd (transfer example_clock
         (example_transfer (Some ''WALLET-001'') (Some ''WALLET-002'') (JNum (Fin 2000)) (Some ''TRF-001''))
         None (example_db (Fin 3500) (Fin 2000)))) ''WALLET-002'') = Some (Fin 4000) \<and>
   length (transactions (snd (transfer example_clock
         (example_transfer (Some ''WALLET-001'') (Some ''WALLET-002'') (JNum (Fin 2000)) (Some ''TRF-001''))
         None (example_db (Fin 3500) (Fin 2000))))) = 2 \<and>
   fst (transfer example_clock
         (example_transfer (Some ''WALLET-001'') (Some ''WALLET-002'') (JNum (rd (1 / 5))) (Some ''TRF-002''))
         (Some ''KEY-2'') (example_db (rd (3 / 10)) (rd (1 / 10)))) =
     Inr \<lparr>r_transactionId = ''TRF-1012'', r_sourceWalletId = ''WALLET-001'',
          r_destinationWalletId = ''WALLET-002'', r_amount = rd (1 / 5), r_status = ''SUCCESS'',
          r_sourceBalanceBefore = rd (3 / 10), r_sourceBalanceAfter = rd (1 / 10),
          r_destinationBalanceBefore = rd (1 / 10), r_destinationBalanceAfter = rd (3 / 10),
          r_reference = ''TRF-002'', r_description = Some ''Paiement facture'', r_timestamp = 1013\<rparr> \<and>
   lookup_idempotency (example_db (rd (3 / 10)) (rd (1 / 10))) (str (Some ''KEY-2'')) = None \<and>
   map_option w_balance (findWalletByWalletId
     (snd (transfer example_clock
         (example_transfer (Some ''WALLET-001'') (Some ''WALLET-002'') (JNum (rd (1 / 5))) (Some ''TRF-002''))
         (Some ''KEY-2'') (example_db (rd (3 / 10)) (rd (1 / 10))))) ''WALLET-001'') = Some (rd (1 / 10)) \<and>
   map_option w_balance (findWalletByWalletId
     (snd (transfer example_clock
         (example_transfer (Some ''WALLET-001'') (Some ''WALLET-002'') (JNum (rd (1 / 5))) (Some ''TRF-002''))
         (Some ''KEY-2'') (example_db (rd (3 / 10)) (rd (1 / 10))))) ''WALLET-002'') = Some (rd (3 / 10)) \<and>
   js_sub (rd (3 / 10)) (rd (1 / 5)) \<noteq> rd (1 / 10) \<and>
   js_add (rd (1 / 10)) (rd (1 / 5)) \<noteq> rd (3 / 10)"
proof -
  define body where "body = example_transfer (Some ''WALLET-001'') (Some ''WALLET-002'') (JNum (Fin 2000)) (Some ''TRF-001'')"
  define s0 where "s0 = example_db (Fin 3500) (Fin 2000)"
  define R where "R = \<lparr>r_transactionId = ''TRF-1012'', r_sourceWalletId = ''WALLET-001'',
          r_destinationWalletId = ''WALLET-002'', r_amount = Fin 2000, r_status = ''SUCCESS'',
          r_sourceBalanceBefore = Fin 3500, r_sourceBalanceAfter = Fin 1500,
          r_destinationBalanceBefore = Fin 2000, r_destinationBalanceAfter = Fin 4000,
          r_reference = ''TRF-001'', r_description = Some ''Paiement facture'', r_timestamp = 1013\<rparr>"
  have b: "str (sourceWalletId body) = ''WALLET-001''" "str (destinationWalletId body) = ''WALLET-002''"
    "num_of (amount body) = Fin 2000" "str (reference body) = ''TRF-001''"
    "description body = Some ''Paiement facture''"
    by (simp_all add: body_def example_transfer_def)
  have f: "findWalletByWalletId s0 (str (sourceWalletId body)) = Some (example_wallet 1 ''WALLET-001'' ''+221771234567'' (Fin 3500))"
    "findWalletByWalletId s0 (str (destinationWalletId body)) = Some (example_wallet 2 ''WALLET-002'' ''+221771234568'' (Fin 2000))"
    by (simp_all add: b s0_def find_ex1 find_ex2)
  have ok: "transfer_fields_ok body" unfolding body_def by (rule example_transfer_ok)
  have v: "Number_toFixed2 (js_sub (Fin 3500) (Fin 2000)) = Fin 1500"
    "Number_toFixed2 (js_add (Fin 2000) (Fin 2000)) = Fin 4000"
    by (simp_all add: js_sub_def rd_numeral cents_numeral)
  have e: "transfer example_clock body None s0 =
     (Inr (fst (transfer_execute example_clock body None (example_wallet 1 ''WALLET-001'' ''+221771234567'' (Fin 3500))
                 (example_wallet 2 ''WALLET-002'' ''+221771234568'' (Fin 2000)) s0)),
      snd (transfer_execute example_clock body None (example_wallet 1 ''WALLET-001'' ''+221771234567'' (Fin 3500))
                 (example_wallet 2 ''WALLET-002'' ''+221771234568'' (Fin 2000)) s0))"
    by (rule transfer_executed [OF ok _ f]) (simp_all add: b example_wallet_def)
  have h: "fst (transfer example_clock body None s0) = Inr R \<and>
      (\<not> truthy None \<or> lookup_idempotency s0 (str None) = None)"
    using v by (simp add: e transfer_execute_response b R_def example_wallet_def example_clock_def
        show_int_def digits_eval del: Number_toFixed2.simps)
  from transfer_success_effect [of example_clock body None s0 R, THEN mp, OF h]
  obtain src dst tD tC where
    r: "findWalletByWalletId s0 (str (sourceWalletId body)) = Some src"
      "findWalletByWalletId s0 (str (destinationWalletId body)) = Some dst"
      "map_option w_balance (findWalletByWalletId (snd (transfer example_clock body None s0)) (str (sourceWalletId body))) =
        Some (Number_toFixed2 (js_sub (w_balance src) (num_of (amount body))))"
      "map_option w_balance (findWalletByWalletId (snd (transfer example_clock body None s0)) (str (destinationWalletId body))) =
        Some (Number_toFixed2 (js_add (w_balance dst) (num_of (amount body))))"
      "transactions (snd (transfer example_clock body None s0)) = transactions s0 @ [tD, tC]"
    by blast
  from r(1,2) f have "src = example_wallet 1 ''WALLET-001'' ''+221771234567'' (Fin 3500)"
    "dst = example_wallet 2 ''WALLET-002'' ''+221771234568'' (Fin 2000)"
    by simp_all
  then have sd: "w_balance src = Fin 3500" "w_balance dst = Fin 2000"
    by (simp_all add: example_wallet_def)
  have "map_option w_balance (findWalletByWalletId (snd (transfer example_clock body None s0)) ''WALLET-001'') = Some (Fin 1500)"
    using r(3) v by (simp add: sd b del: Number_toFixed2.simps)
  moreover have "map_option w_balance (findWalletByWalletId (snd (transfer example_clock body None s0)) ''WALLET-002'') = Some (Fin 4000)"
    using r(4) v by (simp add: sd b del: Number_toFixed2.simps)
  moreover have "length (transactions (snd (transfer example_clock body None s0))) = 2"
    using r(5) by (simp add: s0_def example_db_def)
  ultimately have first:
    "fst (transfer example_clock body None s0) = Inr R \<and> \<not> truthy None \<and>
     map_option w_balance (findWalletByWalletId (snd (transfer example_clock body None s0)) ''WALLET-001'') = Some (Fin 1500) \<and>
     map_option w_balance (findWalletByWalletId (snd (transfer example_clock body None s0)) ''WALLET-002'') = Some (Fin 4000) \<and>
     length (transactions (snd (transfer example_clock body None s0))) = 2"
    using h by simp
  define body2 where "body2 = example_transfer (Some ''WALLET-001'') (Some ''WALLET-002'') (JNum (rd (1 / 5))) (Some ''TRF-002'')"
  define s2 where "s2 = example_db (rd (3 / 10)) (rd (1 / 10))"
  define R2 where "R2 = \<lparr>r_transactionId = ''TRF-1012'', r_sourceWalletId = ''WALLET-001'',
          r_destinationWalletId = ''WALLET-002'', r_amount = rd (1 / 5), r_status = ''SUCCESS'',
          r_sourceBalanceBefore = rd (3 / 10), r_sourceBalanceAfter = rd (1 / 10),
          r_destinationBalanceBefore = rd (1 / 10), r_destinationBalanceAfter = rd (3 / 10),
          r_reference = ''TRF-002'', r_description = Some ''Paiement facture'', r_timestamp = 1013\<rparr>"
  have b2: "str (sourceWalletId body2) = ''WALLET-001''" "str (destinationWalletId body2) = ''WALLET-002''"
    "amount body2 = JNum (rd (1 / 5))" "num_of (amount body2) = rd (1 / 5)"
    "str (reference body2) = ''TRF-002''" "description body2 = Some ''Paiement facture''"
    by (simp_all add: body2_def example_transfer_def)
  have f2: "findWalletByWalletId s2 (str (sourceWalletId body2)) = Some (example_wallet 1 ''WALLET-001'' ''+221771234567'' (rd (3 / 10)))"
    "findWalletByWalletId s2 (str (destinationWalletId body2)) = Some (example_wallet 2 ''WALLET-002'' ''+221771234568'' (rd (1 / 10)))"
    by (simp_all add: b2 s2_def find_ex1 find_ex2)
  have ok2: "transfer_fields_ok body2"
    using tenths(3) by (simp add: body2_def transfer_fields_ok_def example_transfer_def)
  have l2: "lookup_idempotency s2 (str (Some ''KEY-2'')) = None"
    by (simp add: s2_def lookup_idempotency_def example_db_def)
  have e2: "transfer example_clock body2 (Some ''KEY-2'') s2 =
     (Inr (fst (transfer_execute example_clock body2 (Some ''KEY-2'') (example_wallet 1 ''WALLET-001'' ''+221771234567'' (rd (3 / 10)))
                 (example_wallet 2 ''WALLET-002'' ''+221771234568'' (rd (1 / 10))) s2)),
      snd (transfer_execute example_clock body2 (Some ''KEY-2'') (example_wallet 1 ''WALLET-001'' ''+221771234567'' (rd (3 / 10)))
                 (example_wallet 2 ''WALLET-002'' ''+221771234568'' (rd (1 / 10))) s2))"
    by (rule transfer_executed [OF ok2 _ f2]) (use tenths(4) l2 in \<open>simp_all add: b2 example_wallet_def\<close>)
  have v2: "Number_toFixed2 (js_add (rd (1 / 10)) (rd (1 / 5))) = rd (3 / 10)"
    "Number_toFixed2 (js_sub (rd (3 / 10)) (rd (1 / 5))) = rd (1 / 10)"
    unfolding js_add_tenths js_sub_tenths by (simp_all add: cents_def floor_rat_numeral)
  have h2: "fst (transfer example_clock body2 (Some ''KEY-2'') s2) = Inr R2 \<and>
      (\<not> truthy (Some ''KEY-2'') \<or> lookup_idempotency s2 (str (Some ''KEY-2'')) = None)"
    using v2 l2 by (simp add: e2 transfer_execute_response b2 R2_def example_wallet_def example_clock_def
        show_int_def digits_eval del: Number_toFixed2.simps)
  from transfer_success_effect [of example_clock body2 "Some ''KEY-2''" s2 R2, THEN mp, OF h2]
  obtain src2 dst2 tD2 tC2 where
    r2: "findWalletByWalletId s2 (str (sourceWalletId body2)) = Some src2"
      "findWalletByWalletId s2 (str (destinationWalletId body2)) = Some dst2"
      "\<forall>B D A. w_balance src2 = rd (of_nat (B + A) / 100) \<and> w_balance dst2 = rd (of_nat D / 100) \<and>
          amount body2 = JNum (rd (of_nat A / 100)) \<and> 0 < A \<and> B + A \<le> 2 ^ 50 \<and> D + A \<le> 2 ^ 50 \<longrightarrow>
         map_option w_balance (findWalletByWalletId (snd (transfer example_clock body2 (Some ''KEY-2'') s2))
            (str (sourceWalletId body2))) = Some (rd (of_nat B / 100)) \<and>
         map_option w_balance (findWalletByWalletId (snd (transfer example_clock body2 (Some ''KEY-2'') s2))
            (str (destinationWalletId body2))) = Some (rd (of_nat (D + A) / 100))"
    by (elim exE conjE) blast
  from r2(1,2) f2 have "src2 = example_wallet 1 ''WALLET-001'' ''+221771234567'' (rd (3 / 10))"
    "dst2 = example_wallet 2 ''WALLET-002'' ''+221771234568'' (rd (1 / 10))"
    by simp_all
  then have sd2: "w_balance src2 = rd (3 / 10)" "w_balance dst2 = rd (1 / 10)"
    by (simp_all add: example_wallet_def)
  have p2: "w_balance src2 = rd (of_nat (10 + 20) / 100) \<and> w_balance dst2 = rd (of_nat 10 / 100) \<and>
          amount body2 = JNum (rd (of_nat 20 / 100)) \<and> (0::nat) < 20 \<and> (10::nat) + 20 \<le> 2 ^ 50 \<and> (10::nat) + 20 \<le> 2 ^ 50"
    by (simp add: sd2 b2)
  from r2(3) [rule_format, of 10 20 10, OF p2]
  have second: "map_option w_balance (findWalletByWalletId (snd (transfer example_clock body2 (Some ''KEY-2'') s2)) ''WALLET-001'') = Some (rd (1 / 10)) \<and>
     map_option w_balance (findWalletByWalletId (snd (transfer example_clock body2 (Some ''KEY-2'') s2)) ''WALLET-002'') = Some (rd (3 / 10))"
    by (simp add: b2)
  show ?thesis
    using first h2 l2 second tenths(1,2) unfolding body_def s0_def R_def body2_def s2_def R2_def by simp
qed


section \<open>The example database after a first transfer\<close>

lemma example_request_fields:
  "str (sourceWalletId example_request) = ''WALLET-001''"
  "str (destinationWalletId example_request) = ''WALLET-002''"
  "num_of (amount example_request) = Fin 2000"
  "str (reference example_request) = ''TRF-001''"
  "description example_request = Some ''Paiement facture''"
  "transfer_fields_ok example_request"
  by (simp_all add: example_request_def example_transfer_def transfer_fields_ok_def)

lemma example_amounts:
  "Number_toFixed2 (js_sub (Fin 3500) (Fin 2000)) = Fin 1500"
  "Number_toFixed2 (js_add (Fin 2000) (Fin 2000)) = Fin 4000"
  by (simp_all add: js_sub_def rd_numeral cents_numeral)

lemma example_executed:
  "transfer example_clock example_request (Some ''KEY-1'') (example_db (Fin 3500) (Fin 2000)) =
     (Inr (fst (transfer_execute example_clock example_request (Some ''KEY-1'')
                 (example_wallet 1 ''WALLET-001'' ''+221771234567'' (Fin 3500))
                 (example_wallet 2 ''WALLET-002'' ''+221771234568'' (Fin 2000)) (example_db (Fin 3500) (Fin 2000)))),
      snd (transfer_execute example_clock example_request (Some ''KEY-1'')
                 (example_wallet 1 ''WALLET-001'' ''+221771234567'' (Fin 3500))
                 (example_wallet 2 ''WALLET-002'' ''+221771234568'' (Fin 2000)) (example_db (Fin 3500) (Fin 2000))))"
proof -
  have f: "findWalletByWalletId (example_db (Fin 3500) (Fin 2000)) (str (sourceWalletId example_request)) =
       Some (example_wallet 1 ''WALLET-001'' ''+221771234567'' (Fin 3500))"
    "findWalletByWalletId (example_db (Fin 3500) (Fin 2000)) (str (destinationWalletId example_request)) =
       Some (example_wallet 2 ''WALLET-002'' ''+221771234568'' (Fin 2000))"
    by (simp_all add: example_request_fields find_ex1 find_ex2)
  show ?thesis
    by (rule transfer_executed [OF example_request_fields(6) _ f])
       (simp_all add: example_request_fields example_wallet_def lookup_idempotency_def example_db_def)
qed

lemma example_executed_response:
  "fst (transfer_execute example_clock example_request (Some ''KEY-1'')
                 (example_wallet 1 ''WALLET-001'' ''+221771234567'' (Fin 3500))
                 (example_wallet 2 ''WALLET-002'' ''+221771234568'' (Fin 2000)) (example_db (Fin 3500) (Fin 2000))) =
      example_response"
  using example_amounts
  by (simp add: transfer_execute_response example_request_fields example_response_def example_wallet_def
        example_clock_def show_int_def digits_eval del: Number_toFixed2.simps)

lemma example_replay_db_eq:
  "example_replay_db = snd (transfer_execute example_clock example_request (Some ''KEY-1'')
                 (example_wallet 1 ''WALLET-001'' ''+221771234567'' (Fin 3500))
                 (example_wallet 2 ''WALLET-002'' ''+221771234568'' (Fin 2000)) (example_db (Fin 3500) (Fin 2000)))"
  by (simp add: example_replay_db_def example_executed)

lemma example_first_transfer:
  "transfer example_clock example_request (Some ''KEY-1'') (example_db (Fin 3500) (Fin 2000)) =
     (Inr example_response, example_replay_db)"
  by (simp add: example_executed example_executed_response example_replay_db_eq)

lemma example_replay_source:
  "findWalletByWalletId example_replay_db ''WALLET-001'' =
     Some ((example_wallet 1 ''WALLET-001'' ''+221771234567'' (Fin 3500))\<lparr>w_balance := Fin 1500, w_updatedAt := 1000\<rparr>)"
  using transfer_execute_source [of example_request "example_db (Fin 3500) (Fin 2000)"
      "example_wallet 1 ''WALLET-001'' ''+221771234567'' (Fin 3500)" example_clock "Some ''KEY-1''"
      "example_wallet 2 ''WALLET-002'' ''+221771234568'' (Fin 2000)"] example_amounts
  by (simp add: example_replay_db_eq example_request_fields find_ex1 example_wallet_def example_clock_def
        del: Number_toFixed2.simps)

lemma example_replay_destination:
  "findWalletByWalletId example_replay_db ''WALLET-002'' =
     Some ((example_wallet 2 ''WALLET-002'' ''+221771234568'' (Fin 2000))\<lparr>w_balance := Fin 4000, w_updatedAt := 1001\<rparr>)"
  using transfer_execute_destination [of example_request "example_db (Fin 3500) (Fin 2000)"
      "example_wallet 2 ''WALLET-002'' ''+221771234568'' (Fin 2000)" example_clock "Some ''KEY-1''"
      "example_wallet 1 ''WALLET-001'' ''+221771234567'' (Fin 3500)"] example_amounts
  by (simp add: example_replay_db_eq example_request_fields find_ex2 example_wallet_def example_clock_def
        del: Number_toFixed2.simps)

lemma example_replay_missing:
  "findWalletByWalletId example_replay_db ''WALLET-404'' = None"
  by (simp add: example_replay_db_eq findWallet_cong [OF transfer_execute_wallets]
        findWallet_setBalance_other example_request_fields find_ex3)

lemma example_replay_cached:
  "lookup_idempotency example_replay_db ''KEY-1'' =
     Some \<lparr>i_id = 1016, i_key = ''KEY-1'', i_response = example_response, i_createdAt = 1017\<rparr>"
  by (simp add: example_replay_db_eq lookup_idempotency_def transfer_execute_idempotency
        example_executed_response)
     (simp add: example_db_def example_clock_def)


section \<open>The errors of a transfer\<close>

lemma fails_withI: "res = (Inl e, s) \<Longrightarrow> err_error e = code \<Longrightarrow> fails_with res s code"
  by (simp add: fails_with_def)

lemma transfer_fails_invalid:
  "\<not> transfer_fields_ok body \<Longrightarrow> fails_with (transfer clk body idemKey s) s ''INVALID_REQUEST''"
  by (rule fails_withI [OF transfer_invalid]) (simp_all add: badRequest_def)

lemma transfer_fails_same:
  "transfer_fields_ok body \<Longrightarrow> str (sourceWalletId body) = str (destinationWalletId body) \<Longrightarrow>
   fails_with (transfer clk body idemKey s) s ''INVALID_TRANSFER''"
  by (rule fails_withI [OF transfer_same]) (simp_all add: badRequest_def)

lemma transfer_fails_missing:
  assumes "transfer_fields_ok body" "str (sourceWalletId body) \<noteq> str (destinationWalletId body)"
    and "findWalletByWalletId s (str (sourceWalletId body)) = None \<or>
         findWalletByWalletId s (str (destinationWalletId body)) = None"
  shows "fails_with (transfer clk body idemKey s) s ''WALLET_NOT_FOUND''"
proof (cases "findWalletByWalletId s (str (sourceWalletId body))")
  case None
  show ?thesis
    by (rule fails_withI [OF transfer_no_source [OF assms(1,2) None]]) (simp add: notFound_def)
next
  case (Some src)
  with assms(3) have d: "findWalletByWalletId s (str (destinationWalletId body)) = None" by simp
  show ?thesis
    by (rule fails_withI [OF transfer_no_destination [OF assms(1,2) Some d]]) (simp add: notFound_def)
qed

lemma transfer_fails_insufficient:
  assumes "transfer_fields_ok body" "str (sourceWalletId body) \<noteq> str (destinationWalletId body)"
    "findWalletByWalletId s (str (sourceWalletId body)) = Some src"
    "findWalletByWalletId s (str (destinationWalletId body)) = Some dst"
    "\<not> truthy idemKey \<or> lookup_idempotency s (str idemKey) = None"
    "js_lt (w_balance src) (num_of (amount body))"
  shows "fails_with (transfer clk body idemKey s) s ''INSUFFICIENT_FUNDS''"
  by (rule fails_withI [OF transfer_insufficient [OF assms]]) (simp add: badRequest_def)

text \<open>
  C7 (as amended).  The errors of a transfer, in the order of the checks:
  \<^verbatim>\<open>INVALID_REQUEST\<close> when the source, the destination or the reference is missing or the
  amount is not a positive finite number; else \<^verbatim>\<open>INVALID_TRANSFER\<close> when source and
  destination are the same; else \<^verbatim>\<open>WALLET_NOT_FOUND\<close> when one of the two wallets does
  not exist; else, when the source balance is below the amount, \<^verbatim>\<open>INSUFFICIENT_FUNDS\<close>,
  provided that the request carries no idempotency key with a cached result (such a result
  is returned instead, see C3); whether or not it does, no other error can be answered then.
  Each hypothesis leaves the later conditions free, so the earlier error wins.
\<close>

theorem transfer_error_order:
  "(\<not> truthy (sourceWalletId b1) \<or> \<not> truthy (destinationWalletId b1) \<or> \<not> truthy (reference b1) \<or>
    \<not> isPositiveNumber (amount b1) \<longrightarrow>
      fails_with (transfer c1 b1 k1 s1) s1 ''INVALID_REQUEST'') \<and>
   (transfer_fields_ok b2 \<and> str (sourceWalletId b2) = str (destinationWalletId b2) \<longrightarrow>
      fails_with (transfer c2 b2 k2 s2) s2 ''INVALID_TRANSFER'') \<and>
   (transfer_fields_ok b3 \<and> str (sourceWalletId b3) \<noteq> str (destinationWalletId b3) \<and>
    (findWalletByWalletId s3 (str (sourceWalletId b3)) = None \<or>
     findWalletByWalletId s3 (str (destinationWalletId b3)) = None) \<longrightarrow>
      fails_with (transfer c3 b3 k3 s3) s3 ''WALLET_NOT_FOUND'') \<and>
   (transfer_fields_ok b4 \<and> str (sourceWalletId b4) \<noteq> str (destinationWalletId b4) \<and>
    findWalletByWalletId s4 (str (sourceWalletId b4)) = Some src \<and>
    findWalletByWalletId s4 (str (destinationWalletId b4)) = Some dst \<and>
    js_lt (w_balance src) (num_of (amount b4)) \<longrightarrow>
      (\<forall>e. fst (transfer c4 b4 k4 s4) = Inl e \<longrightarrow> err_error e = ''INSUFFICIENT_FUNDS'') \<and>
      (\<not> truthy k4 \<or> lookup_idempotency s4 (str k4) = None \<longrightarrow>
         fails_with (transfer c4 b4 k4 s4) s4 ''INSUFFICIENT_FUNDS''))"
proof (intro conjI impI allI)
  assume "\<not> truthy (sourceWalletId b1) \<or> \<not> truthy (destinationWalletId b1) \<or> \<not> truthy (reference b1) \<or>
    \<not> isPositiveNumber (amount b1)"
  then have "\<not> transfer_fields_ok b1" by (auto simp add: transfer_fields_ok_def)
  then show "fails_with (transfer c1 b1 k1 s1) s1 ''INVALID_REQUEST''" by (rule transfer_fails_invalid)
next
  assume "transfer_fields_ok b2 \<and> str (sourceWalletId b2) = str (destinationWalletId b2)"
  then show "fails_with (transfer c2 b2 k2 s2) s2 ''INVALID_TRANSFER''"
    by (intro transfer_fails_same) simp_all
next
  assume "transfer_fields_ok b3 \<and> str (sourceWalletId b3) \<noteq> str (destinationWalletId b3) \<and>
    (findWalletByWalletId s3 (str (sourceWalletId b3)) = None \<or>
     findWalletByWalletId s3 (str (destinationWalletId b3)) = None)"
  then show "fails_with (transfer c3 b3 k3 s3) s3 ''WALLET_NOT_FOUND''"
    by (intro transfer_fails_missing) simp_all
next
  fix e
  assume h: "transfer_fields_ok b4 \<and> str (sourceWalletId b4) \<noteq> str (destinationWalletId b4) \<and>
    findWalletByWalletId s4 (str (sourceWalletId b4)) = Some src \<and>
    findWalletByWalletId s4 (str (destinationWalletId b4)) = Some dst \<and>
    js_lt (w_balance src) (num_of (amount b4))"
  assume e: "fst (transfer c4 b4 k4 s4) = Inl e"
  show "err_error e = ''INSUFFICIENT_FUNDS''"
  proof (cases "truthy k4 \<and> lookup_idempotency s4 (str k4) \<noteq> None")
    case True
    then obtain cached where "lookup_idempotency s4 (str k4) = Some cached" by auto
    with h True have "transfer c4 b4 k4 s4 = (Inr (i_response cached), s4)"
      by (intro transfer_cached) simp_all
    with e show ?thesis by simp
  next
    case False
    with h have "transfer c4 b4 k4 s4 = (Inl (badRequest (c4 0) ''INSUFFICIENT_FUNDS''
       (insufficient_message (w_balance src) (num_of (amount b4)))), s4)"
      by (intro transfer_insufficient) auto
    with e show ?thesis by (auto simp add: badRequest_def)
  qed
next
  assume h: "transfer_fields_ok b4 \<and> str (sourceWalletId b4) \<noteq> str (destinationWalletId b4) \<and>
    findWalletByWalletId s4 (str (sourceWalletId b4)) = Some src \<and>
    findWalletByWalletId s4 (str (destinationWalletId b4)) = Some dst \<and>
    js_lt (w_balance src) (num_of (amount b4))"
  assume "\<not> truthy k4 \<or> lookup_idempotency s4 (str k4) = None"
  with h show "fails_with (transfer c4 b4 k4 s4) s4 ''INSUFFICIENT_FUNDS''"
    by (intro transfer_fails_insufficient [where src = src and dst = dst]) simp_all
qed

theorem transfer_error_order_witness:
  "\<not> truthy (reference (example_transfer (Some ''WALLET-404'') (Some ''WALLET-404'') (JNum (Fin 1000)) None)) \<and>
   fails_with (transfer example_clock (example_transfer (Some ''WALLET-404'') (Some ''WALLET-404'') (JNum (Fin 1000)) None)
                 None (example_db (Fin 500) (Fin 0))) (example_db (Fin 500) (Fin 0)) ''INVALID_REQUEST'' \<and>
   transfer_fields_ok (example_transfer (Some ''WALLET-404'') (Some ''WALLET-404'') (JNum (Fin 1000)) (Some ''TRF-001'')) \<and>
   fails_with (transfer example_clock (example_transfer (Some ''WALLET-404'') (Some ''WALLET-404'') (JNum (Fin 1000)) (Some ''TRF-001''))
                 None (example_db (Fin 500) (Fin 0))) (example_db (Fin 500) (Fin 0)) ''INVALID_TRANSFER'' \<and>
   findWalletByWalletId (example_db (Fin 500) (Fin 0)) ''WALLET-404'' = None \<and>
   fails_with (transfer example_clock (example_transfer (Some ''WALLET-001'') (Some ''WALLET-404'') (JNum (Fin 1000)) (Some ''TRF-001''))
                 None (example_db (Fin 500) (Fin 0))) (example_db (Fin 500) (Fin 0)) ''WALLET_NOT_FOUND'' \<and>
   js_lt (Fin 500) (Fin 1000) \<and>
   lookup_idempotency (example_db (Fin 500) (Fin 0)) (str (Some ''KEY-2'')) = None \<and>
   fails_with (transfer example_clock (example_transfer (Some ''WALLET-001'') (Some ''WALLET-002'') (JNum (Fin 1000)) (Some ''TRF-001''))
                 (Some ''KEY-2'') (example_db (Fin 500) (Fin 0))) (example_db (Fin 500) (Fin 0)) ''INSUFFICIENT_FUNDS''"
proof -
  have l: "lookup_idempotency (example_db (Fin 500) (Fin 0)) (str (Some ''KEY-2'')) = None"
    by (simp add: lookup_idempotency_def example_db_def)
  show ?thesis
  using l transfer_error_order [where
      ?b1.0 = "example_transfer (Some ''WALLET-404'') (Some ''WALLET-404'') (JNum (Fin 1000)) None" and
      ?b2.0 = "example_transfer (Some ''WALLET-404'') (Some ''WALLET-404'') (JNum (Fin 1000)) (Some ''TRF-001'')" and
      ?b3.0 = "example_transfer (Some ''WALLET-001'') (Some ''WALLET-404'') (JNum (Fin 1000)) (Some ''TRF-001'')" and
      ?b4.0 = "example_transfer (Some ''WALLET-001'') (Some ''WALLET-002'') (JNum (Fin 1000)) (Some ''TRF-001'')" and
      ?s1.0 = "example_db (Fin 500) (Fin 0)" and ?s2.0 = "example_db (Fin 500) (Fin 0)" and
      ?s3.0 = "example_db (Fin 500) (Fin 0)" and ?s4.0 = "example_db (Fin 500) (Fin 0)" and
      ?c1.0 = example_clock and ?c2.0 = example_clock and ?c3.0 = example_clock and ?c4.0 = example_clock and
      ?k1.0 = None and ?k2.0 = None and ?k3.0 = None and ?k4.0 = "Some ''KEY-2''" and
      src = "example_wallet 1 ''WALLET-001'' ''+221771234567'' (Fin 500)" and
      dst = "example_wallet 2 ''WALLET-002'' ''+221771234568'' (Fin 0)"]
  by (simp add: transfer_fields_ok_def example_transfer_def find_ex1 find_ex2 find_ex3 example_wallet_def)
qed

text \<open>
  The claim as stated fails when the request carries an idempotency key that has a cached
  result: after a first transfer of 2000 under \<^verbatim>\<open>KEY-1\<close> the source holds 1500; the same
  request under \<^verbatim>\<open>KEY-1\<close> passes the first checks, the source balance is below the
  amount, and the answer is the cached success, not \<^verbatim>\<open>INSUFFICIENT_FUNDS\<close>.
\<close>

theorem cached_transfer_counterexample:
  "transfer_fields_ok example_request \<and>
   str (sourceWalletId example_request) \<noteq> str (destinationWalletId example_request) \<and>
   map_option w_balance (findWalletByWalletId example_replay_db (str (sourceWalletId example_request))) =
     Some (Fin 1500) \<and>
   findWalletByWalletId example_replay_db (str (destinationWalletId example_request)) \<noteq> None \<and>
   js_lt (Fin 1500) (num_of (amount example_request)) \<and>
   transfer example_clock example_request (Some ''KEY-1'') example_replay_db =
     (Inr example_response, example_replay_db) \<and>
   \<not> fails_with (transfer example_clock example_request (Some ''KEY-1'') example_replay_db)
       example_replay_db ''INSUFFICIENT_FUNDS''"
proof -
  have r: "transfer example_clock example_request (Some ''KEY-1'') example_replay_db =
      (Inr example_response, example_replay_db)"
    using transfer_cached [where idemKey = "Some ''KEY-1''" and body = example_request and
          s = example_replay_db and clk = example_clock and
          cached = "\<lparr>i_id = 1016, i_key = ''KEY-1'', i_response = example_response, i_createdAt = 1017\<rparr>" and
          src = "(example_wallet 1 ''WALLET-001'' ''+221771234567'' (Fin 3500))\<lparr>w_balance := Fin 1500, w_updatedAt := 1000\<rparr>" and
          dst = "(example_wallet 2 ''WALLET-002'' ''+221771234568'' (Fin 2000))\<lparr>w_balance := Fin 4000, w_updatedAt := 1001\<rparr>"]
    by (simp add: example_request_fields example_replay_source example_replay_destination
          example_replay_cached)
  show ?thesis
    by (simp add: r fails_with_def example_request_fields example_replay_source example_replay_destination)
qed


section \<open>Idempotent replay\<close>

lemma idempotency_credit: "idempotency (snd (credit clk walletId body s)) = idempotency s"
  by (simp add: credit_def Let_def split: option.splits)

lemma idempotency_debit: "idempotency (snd (debit clk walletId body s)) = idempotency s"
  by (simp add: debit_def Let_def split: option.splits)

lemma idempotency_post_wallet: "idempotency (snd (post_wallet clk body s)) = idempotency s"
  by (simp add: post_wallet_def Let_def)

lemma idempotency_put_wallet: "idempotency (snd (put_wallet clk walletId body s)) = idempotency s"
  by (simp add: put_wallet_def Let_def split: option.splits)

lemma idempotency_delete_wallet: "idempotency (snd (delete_wallet clk walletId s)) = idempotency s"
  by (simp add: delete_wallet_def split: option.splits)

lemma idempotency_patch_wallet: "idempotency (snd (patch_wallet clk walletId patch s)) = idempotency s"
  by (simp add: patch_wallet_def Let_def split: option.splits)

lemma idempotency_post_bank: "idempotency (snd (post_bank clk body s)) = idempotency s"
  by (simp add: post_bank_def Let_def)

lemma idempotency_put_bank: "idempotency (snd (put_bank clk bankId body s)) = idempotency s"
  by (simp add: put_bank_def Let_def split: option.splits)

lemma idempotency_patch_bank: "idempotency (snd (patch_bank clk bankId patch s)) = idempotency s"
  by (simp add: patch_bank_def Let_def split: option.splits)

lemma idempotency_delete_bank: "idempotency (snd (delete_bank clk bankId s)) = idempotency s"
  by (simp add: delete_bank_def split: option.splits)

lemma lookup_idempotency_cong:
  "idempotency s = idempotency s' \<Longrightarrow> lookup_idempotency s k = lookup_idempotency s' k"
  by (simp add: lookup_idempotency_def)

lemma find_filter_out: "find (\<lambda>w. f w = x) (filter (\<lambda>w. f w \<noteq> x) xs) = None"
  by (induction xs) auto

text \<open>
  C3 (as amended).  A transfer request that passes the validation of its fields, the
  self-transfer check and the resolution of both wallets, and that carries an idempotency
  key with a cached result, is answered with the cached response as it was stored and
  leaves the whole database (balances, transactions, events, cache) as it was, whatever the
  balances have become.
\<close>

theorem replay_returns_cached:
  "transfer_fields_ok body \<and> str (sourceWalletId body) \<noteq> str (destinationWalletId body) \<and>
   findWalletByWalletId s (str (sourceWalletId body)) = Some src \<and>
   findWalletByWalletId s (str (destinationWalletId body)) = Some dst \<and>
   truthy idemKey \<and> lookup_idempotency s (str idemKey) = Some cached \<longrightarrow>
     transfer clk body idemKey s = (Inr (i_response cached), s)"
  by (auto intro: transfer_cached)

text \<open>
  The replay of the example request under \<^verbatim>\<open>KEY-1\<close>: the source is down to 1500, below the
  2000 asked, and the cached response of the first run comes back.
\<close>

theorem replay_returns_cached_witness:
  "transfer_fields_ok example_request \<and>
   str (sourceWalletId example_request) \<noteq> str (destinationWalletId example_request) \<and>
   map_option w_balance (findWalletByWalletId example_replay_db (str (sourceWalletId example_request))) = Some (Fin 1500) \<and>
   map_option w_balance (findWalletByWalletId example_replay_db (str (destinationWalletId example_request))) = Some (Fin 4000) \<and>
   truthy (Some ''KEY-1'') \<and>
   map_option i_response (lookup_idempotency example_replay_db (str (Some ''KEY-1''))) = Some example_response \<and>
   transfer (\<lambda>k. 2000 + int k) example_request (Some ''KEY-1'') example_replay_db =
     (Inr example_response, example_replay_db)"
  using replay_returns_cached [of example_request example_replay_db
      "(example_wallet 1 ''WALLET-001'' ''+221771234567'' (Fin 3500))\<lparr>w_balance := Fin 1500, w_updatedAt := 1000\<rparr>"
      "(example_wallet 2 ''WALLET-002'' ''+221771234568'' (Fin 2000))\<lparr>w_balance := Fin 4000, w_updatedAt := 1001\<rparr>"
      "Some ''KEY-1''" "\<lparr>i_id = 1016, i_key = ''KEY-1'', i_response = example_response, i_createdAt = 1017\<rparr>"
      "\<lambda>k. 2000 + int k"]
  by (simp add: example_request_fields example_replay_source example_replay_destination example_replay_cached)

text \<open>
  The claim as stated fails where the checks that precede the cache lookup fail.  After
  the first transfer under \<^verbatim>\<open>KEY-1\<close>, the source wallet is emptied by a debit of the 1500
  left and deleted; the same request under the same key is then answered
  \<^verbatim>\<open>WALLET_NOT_FOUND\<close>, although the cache still holds the response.
\<close>

theorem replay_counterexample:
  "lookup_idempotency
     (serve [Debit example_clock ''WALLET-001'' (example_body (JNum (Fin 1500)) (Some ''DEBIT-001'')),
             DeleteWallet example_clock ''WALLET-001''] example_replay_db) ''KEY-1'' =
     Some \<lparr>i_id = 1016, i_key = ''KEY-1'', i_response = example_response, i_createdAt = 1017\<rparr> \<and>
   fails_with
     (transfer example_clock example_request (Some ''KEY-1'')
        (serve [Debit example_clock ''WALLET-001'' (example_body (JNum (Fin 1500)) (Some ''DEBIT-001'')),
                DeleteWallet example_clock ''WALLET-001''] example_replay_db))
     (serve [Debit example_clock ''WALLET-001'' (example_body (JNum (Fin 1500)) (Some ''DEBIT-001'')),
             DeleteWallet example_clock ''WALLET-001''] example_replay_db)
     ''WALLET_NOT_FOUND''"
proof -
  define sa where "sa = snd (debit example_clock ''WALLET-001'' (example_body (JNum (Fin 1500)) (Some ''DEBIT-001'')) example_replay_db)"
  define sb where "sb = snd (delete_wallet example_clock ''WALLET-001'' sa)"
  have sv: "serve [Debit example_clock ''WALLET-001'' (example_body (JNum (Fin 1500)) (Some ''DEBIT-001'')),
             DeleteWallet example_clock ''WALLET-001''] example_replay_db = sb"
    by (simp add: sa_def sb_def)
  have z: "Number_toFixed2 (js_sub (Fin 1500) (Fin 1500)) = Fin 0"
    by (simp add: js_sub_def rd_zero cents_zero)
  have fa: "findWalletByWalletId sa ''WALLET-001'' =
      Some ((example_wallet 1 ''WALLET-001'' ''+221771234567'' (Fin 3500))\<lparr>w_balance := Fin 0, w_updatedAt := 1000\<rparr>)"
    unfolding sa_def using z
    by (simp add: debit_success [OF example_replay_source] example_body_def example_wallet_def
          findWallet_setBalance_same example_replay_source example_clock_def del: Number_toFixed2.simps)
  have sbw: "wallets sb = filter (\<lambda>w. w_walletId w \<noteq> ''WALLET-001'') (wallets sa)"
    by (simp add: sb_def delete_wallet_def fa)
  have fb: "findWalletByWalletId sb ''WALLET-001'' = None"
    by (simp add: findWalletByWalletId_def sbw find_filter_out)
  have c: "lookup_idempotency sb ''KEY-1'' =
      Some \<lparr>i_id = 1016, i_key = ''KEY-1'', i_response = example_response, i_createdAt = 1017\<rparr>"
  proof -
    have "idempotency sb = idempotency example_replay_db"
      by (simp add: sb_def sa_def idempotency_delete_wallet idempotency_debit)
    then show ?thesis
      by (simp add: lookup_idempotency_cong [of sb example_replay_db] example_replay_cached)
  qed
  have "fails_with (transfer example_clock example_request (Some ''KEY-1'') sb) sb ''WALLET_NOT_FOUND''"
    by (rule transfer_fails_missing) (simp_all add: example_request_fields fb)
  with c show ?thesis by (simp only: sv)
qed

text \<open>
  C10.  When the request carries an idempotency key with a cached result, the cached
  response is returned only behind the checks: invalid fields are answered
  \<^verbatim>\<open>INVALID_REQUEST\<close>, a self-transfer \<^verbatim>\<open>INVALID_TRANSFER\<close>, a missing wallet
  \<^verbatim>\<open>WALLET_NOT_FOUND\<close>, each leaving the database and its cache unchanged; a success is
  the cached response, and it implies that every check passed; the cache is never changed.
\<close>

theorem cached_result_behind_checks:
  "truthy k \<and> lookup_idempotency s (str k) = Some cached \<longrightarrow>
     (\<not> transfer_fields_ok b1 \<longrightarrow> fails_with (transfer c1 b1 k s) s ''INVALID_REQUEST'') \<and>
     (transfer_fields_ok b2 \<and> str (sourceWalletId b2) = str (destinationWalletId b2) \<longrightarrow>
        fails_with (transfer c2 b2 k s) s ''INVALID_TRANSFER'') \<and>
     (transfer_fields_ok b3 \<and> str (sourceWalletId b3) \<noteq> str (destinationWalletId b3) \<and>
      (findWalletByWalletId s (str (sourceWalletId b3)) = None \<or>
       findWalletByWalletId s (str (destinationWalletId b3)) = None) \<longrightarrow>
        fails_with (transfer c3 b3 k s) s ''WALLET_NOT_FOUND'') \<and>
     (\<forall>r. fst (transfer c4 b4 k s) = Inr r \<longrightarrow>
        r = i_response cached \<and> transfer_fields_ok b4 \<and>
        str (sourceWalletId b4) \<noteq> str (destinationWalletId b4) \<and>
        findWalletByWalletId s (str (sourceWalletId b4)) \<noteq> None \<and>
        findWalletByWalletId s (str (destinationWalletId b4)) \<noteq> None) \<and>
     snd (transfer c4 b4 k s) = s"
proof (intro impI conjI allI)
  assume "\<not> transfer_fields_ok b1"
  then show "fails_with (transfer c1 b1 k s) s ''INVALID_REQUEST''" by (rule transfer_fails_invalid)
next
  assume "transfer_fields_ok b2 \<and> str (sourceWalletId b2) = str (destinationWalletId b2)"
  then show "fails_with (transfer c2 b2 k s) s ''INVALID_TRANSFER''"
    by (intro transfer_fails_same) simp_all
next
  assume "transfer_fields_ok b3 \<and> str (sourceWalletId b3) \<noteq> str (destinationWalletId b3) \<and>
      (findWalletByWalletId s (str (sourceWalletId b3)) = None \<or>
       findWalletByWalletId s (str (destinationWalletId b3)) = None)"
  then show "fails_with (transfer c3 b3 k s) s ''WALLET_NOT_FOUND''"
    by (intro transfer_fails_missing) simp_all
next
  fix r
  assume c: "truthy k \<and> lookup_idempotency s (str k) = Some cached"
    and ok: "fst (transfer c4 b4 k s) = Inr r"
  show "r = i_response cached" "transfer_fields_ok b4"
    "str (sourceWalletId b4) \<noteq> str (destinationWalletId b4)"
    "findWalletByWalletId s (str (sourceWalletId b4)) \<noteq> None"
    "findWalletByWalletId s (str (destinationWalletId b4)) \<noteq> None"
    using c ok
    by (rule_tac [!] transfer_cases [where body = b4 and s = s and idemKey = k])
       (simp_all add: transfer_invalid transfer_same transfer_no_source transfer_no_destination
          transfer_cached)
next
  assume c: "truthy k \<and> lookup_idempotency s (str k) = Some cached"
  show "snd (transfer c4 b4 k s) = s"
    using c
    by (rule_tac transfer_cases [where body = b4 and s = s and idemKey = k])
       (simp_all add: transfer_invalid transfer_same transfer_no_source transfer_no_destination
          transfer_cached)
qed

theorem cached_result_behind_checks_witness:
  "truthy (Some ''KEY-1'') \<and>
   lookup_idempotency example_replay_db (str (Some ''KEY-1'')) =
     Some \<lparr>i_id = 1016, i_key = ''KEY-1'', i_response = example_response, i_createdAt = 1017\<rparr> \<and>
   fails_with (transfer example_clock
       (example_transfer (Some ''WALLET-001'') (Some ''WALLET-002'') (JNum (Fin 2000)) None)
       (Some ''KEY-1'') example_replay_db) example_replay_db ''INVALID_REQUEST'' \<and>
   fails_with (transfer example_clock
       (example_transfer (Some ''WALLET-001'') (Some ''WALLET-001'') (JNum (Fin 2000)) (Some ''TRF-001''))
       (Some ''KEY-1'') example_replay_db) example_replay_db ''INVALID_TRANSFER'' \<and>
   fails_with (transfer example_clock
       (example_transfer (Some ''WALLET-001'') (Some ''WALLET-404'') (JNum (Fin 2000)) (Some ''TRF-001''))
       (Some ''KEY-1'') example_replay_db) example_replay_db ''WALLET_NOT_FOUND'' \<and>
   snd (transfer example_clock example_request (Some ''KEY-1'') example_replay_db) = example_replay_db"
  using cached_result_behind_checks [where k = "Some ''KEY-1''" and s = example_replay_db and
      cached = "\<lparr>i_id = 1016, i_key = ''KEY-1'', i_response = example_response, i_createdAt = 1017\<rparr>" and
      ?b1.0 = "example_transfer (Some ''WALLET-001'') (Some ''WALLET-002'') (JNum (Fin 2000)) None" and
      ?b2.0 = "example_transfer (Some ''WALLET-001'') (Some ''WALLET-001'') (JNum (Fin 2000)) (Some ''TRF-001'')" and
      ?b3.0 = "example_transfer (Some ''WALLET-001'') (Some ''WALLET-404'') (JNum (Fin 2000)) (Some ''TRF-001'')" and
      ?b4.0 = example_request and
      ?c1.0 = example_clock and ?c2.0 = example_clock and ?c3.0 = example_clock and ?c4.0 = example_clock]
  by (simp add: example_replay_cached transfer_fields_ok_def example_transfer_def example_replay_missing)

section \<open>The idempotency cache\<close>

lemma find_append_Some: "find P xs = Some x \<Longrightarrow> find P (xs @ ys) = Some x"
  by (induction xs) (auto split: if_splits)

lemma truthy_Some: "truthy k \<Longrightarrow> \<exists>x. k = Some x \<and> x \<noteq> [] \<and> str k = x"
  by (cases k) simp_all

lemma lookup_idempotency_None: "lookup_idempotency s k = None \<Longrightarrow> k \<notin> set (map i_key (idempotency s))"
  by (auto simp add: lookup_idempotency_def find_None_iff)

lemma transfer_idempotency_step:
  "idempotency (snd (transfer clk body k s)) = idempotency s \<or>
   (truthy k \<and> lookup_idempotency s (str k) = None \<and>
    (\<exists>r. idempotency (snd (transfer clk body k s)) = idempotency s @ [r] \<and> i_key r = str k))"
proof (rule transfer_cases [where body = body and s = s and idemKey = k])
  fix src dst
  assume a: "transfer_fields_ok body" "str (sourceWalletId body) \<noteq> str (destinationWalletId body)"
    "findWalletByWalletId s (str (sourceWalletId body)) = Some src"
    "findWalletByWalletId s (str (destinationWalletId body)) = Some dst"
    "\<not> truthy k \<or> lookup_idempotency s (str k) = None"
    "\<not> js_lt (w_balance src) (num_of (amount body))"
  show ?thesis
    using a(5) by (auto simp add: transfer_executed [OF a] transfer_execute_idempotency)
qed (simp_all add: transfer_invalid transfer_same transfer_no_source transfer_no_destination
       transfer_cached transfer_insufficient)

lemma handle_idempotency_step:
  "idempotency (handle r s) = idempotency s \<or>
   (\<exists>clk body k rec. r = Transfer clk body (Some k) \<and> k \<noteq> [] \<and> lookup_idempotency s k = None \<and>
      idempotency (handle r s) = idempotency s @ [rec] \<and> i_key rec = k)"
proof (cases r)
  case (Transfer clk body k)
  show ?thesis
    using transfer_idempotency_step [of clk body k s] truthy_Some [of k]
    by (auto simp add: Transfer)
qed (simp_all add: idempotency_credit idempotency_debit idempotency_post_wallet
       idempotency_put_wallet idempotency_patch_wallet idempotency_delete_wallet
       idempotency_post_bank idempotency_put_bank idempotency_patch_bank idempotency_delete_bank)

lemma serve_idempotency_grows:
  "\<exists>new. idempotency (serve rs s) = idempotency s @ new \<and>
     (\<forall>rec \<in> set new. \<exists>clk body k. Transfer clk body (Some k) \<in> set rs \<and> k \<noteq> [] \<and> i_key rec = k)"
proof (induction rs arbitrary: s)
  case Nil
  then show ?case by simp
next
  case (Cons r rs)
  obtain new where new: "idempotency (serve rs (handle r s)) = idempotency (handle r s) @ new"
    "\<forall>rec \<in> set new. \<exists>clk body k. Transfer clk body (Some k) \<in> set rs \<and> k \<noteq> [] \<and> i_key rec = k"
    using Cons.IH [of "handle r s"] by blast
  from handle_idempotency_step [of r s] show ?case
  proof
    assume "idempotency (handle r s) = idempotency s"
    with new show ?thesis
      by (intro exI [of _ new]) (auto, blast)
  next
    assume "\<exists>clk body k rec. r = Transfer clk body (Some k) \<and> k \<noteq> [] \<and> lookup_idempotency s k = None \<and>
      idempotency (handle r s) = idempotency s @ [rec] \<and> i_key rec = k"
    then obtain clk body k rec where r: "r = Transfer clk body (Some k)" "k \<noteq> []"
      "idempotency (handle r s) = idempotency s @ [rec]" "i_key rec = k"
      by blast
    with new show ?thesis
      by (intro exI [of _ "rec # new"]) (auto, blast)
  qed
qed

lemma serve_idempotency_distinct:
  "distinct (map i_key (idempotency s)) \<Longrightarrow> distinct (map i_key (idempotency (serve rs s)))"
proof (induction rs arbitrary: s)
  case Nil
  then show ?case by simp
next
  case (Cons r rs)
  have "distinct (map i_key (idempotency (handle r s)))"
    using handle_idempotency_step [of r s] Cons.prems lookup_idempotency_None [of s]
    by auto
  then show ?case using Cons.IH by simp
qed

text \<open>
  C9.  Over any sequence of requests (transfers among them) the cache holds at most one
  record per key, provided it did so at the start: the cache only grows at its end, every
  record added carries the non-empty key of a transfer request of the sequence, and a key
  that has a record keeps that record (first write wins).
\<close>

theorem idempotency_first_write_wins:
  "(distinct (map i_key (idempotency s)) \<longrightarrow> distinct (map i_key (idempotency (serve rs s)))) \<and>
   (\<exists>new. idempotency (serve rs s) = idempotency s @ new \<and>
      (\<forall>rec \<in> set new. \<exists>clk body k. Transfer clk body (Some k) \<in> set rs \<and> k \<noteq> [] \<and> i_key rec = k)) \<and>
   (\<forall>k c. lookup_idempotency s k = Some c \<longrightarrow> lookup_idempotency (serve rs s) k = Some c)"
proof (intro conjI impI allI)
  assume "distinct (map i_key (idempotency s))"
  then show "distinct (map i_key (idempotency (serve rs s)))" by (rule serve_idempotency_distinct)
next
  show "\<exists>new. idempotency (serve rs s) = idempotency s @ new \<and>
      (\<forall>rec \<in> set new. \<exists>clk body k. Transfer clk body (Some k) \<in> set rs \<and> k \<noteq> [] \<and> i_key rec = k)"
    by (rule serve_idempotency_grows)
next
  fix k c
  assume c: "lookup_idempotency s k = Some c"
  obtain new where "idempotency (serve rs s) = idempotency s @ new"
    using serve_idempotency_grows [of rs s] by blast
  with c show "lookup_idempotency (serve rs s) k = Some c"
    by (simp add: lookup_idempotency_def find_append_Some)
qed

lemma example_replay_idempotency:
  "idempotency example_replay_db = [\<lparr>i_id = 1016, i_key = ''KEY-1'', i_response = example_response, i_createdAt = 1017\<rparr>]"
  by (simp add: example_replay_db_eq transfer_execute_idempotency example_executed_response)
     (simp add: example_db_def example_clock_def)

theorem idempotency_first_write_wins_witness:
  "distinct (map i_key (idempotency (example_db (Fin 3500) (Fin 2000)))) \<and>
   map i_key (idempotency (serve [Transfer example_clock example_request (Some ''KEY-1''),
                                  Transfer (\<lambda>k. 2000 + int k) example_request (Some ''KEY-1'')]
                             (example_db (Fin 3500) (Fin 2000)))) = [''KEY-1''] \<and>
   distinct (map i_key (idempotency (serve [Transfer example_clock example_request (Some ''KEY-1''),
                                  Transfer (\<lambda>k. 2000 + int k) example_request (Some ''KEY-1'')]
                             (example_db (Fin 3500) (Fin 2000)))))"
proof -
  have d: "distinct (map i_key (idempotency (example_db (Fin 3500) (Fin 2000))))"
    by (simp add: example_db_def)
  have r: "transfer (\<lambda>k. 2000 + int k) example_request (Some ''KEY-1'') example_replay_db =
      (Inr example_response, example_replay_db)"
    using transfer_cached [where idemKey = "Some ''KEY-1''" and body = example_request and
          s = example_replay_db and clk = "\<lambda>k. 2000 + int k" and
          cached = "\<lparr>i_id = 1016, i_key = ''KEY-1'', i_response = example_response, i_createdAt = 1017\<rparr>" and
          src = "(example_wallet 1 ''WALLET-001'' ''+221771234567'' (Fin 3500))\<lparr>w_balance := Fin 1500, w_updatedAt := 1000\<rparr>" and
          dst = "(example_wallet 2 ''WALLET-002'' ''+221771234568'' (Fin 2000))\<lparr>w_balance := Fin 4000, w_updatedAt := 1001\<rparr>"]
    by (simp add: example_request_fields example_replay_source example_replay_destination
          example_replay_cached)
  have s: "serve [Transfer example_clock example_request (Some ''KEY-1''),
                  Transfer (\<lambda>k. 2000 + int k) example_request (Some ''KEY-1'')]
             (example_db (Fin 3500) (Fin 2000)) = example_replay_db"
    by (simp add: example_first_transfer r)
  have "map i_key (idempotency (serve [Transfer example_clock example_request (Some ''KEY-1''),
                                  Transfer (\<lambda>k. 2000 + int k) example_request (Some ''KEY-1'')]
                             (example_db (Fin 3500) (Fin 2000)))) = [''KEY-1'']"
    by (simp only: s example_replay_idempotency) simp
  with d idempotency_first_write_wins [of "example_db (Fin 3500) (Fin 2000)"
      "[Transfer example_clock example_request (Some ''KEY-1''),
        Transfer (\<lambda>k. 2000 + int k) example_request (Some ''KEY-1'')]"]
  show ?thesis by blast
qed

section \<open>Non-negative balances\<close>


























section \<open>Credit then debit\<close>

lemma credit_then_debit:
  assumes f: "findWalletByWalletId s walletId = Some w"
    and p: "isPositiveNumber (amount body)" and r: "truthy (reference body)"
    and p': "amount body' = amount body" and r': "truthy (reference body')"
    and ge: "\<not> js_lt (Number_toFixed2 (js_add (w_balance w) (num_of (amount body)))) (num_of (amount body))"
  shows "\<not> isl (fst (credit clk walletId body s))"
    and "\<not> isl (fst (debit clk' walletId body' (snd (credit clk walletId body s))))"
    and "map_option w_balance (findWalletByWalletId
           (snd (debit clk' walletId body' (snd (credit clk walletId body s)))) walletId) =
         Some (Number_toFixed2 (js_sub (Number_toFixed2 (js_add (w_balance w) (num_of (amount body))))
                 (num_of (amount body))))"
proof -
  define s1 where "s1 = snd (credit clk walletId body s)"
  define w1 where "w1 = w\<lparr>w_balance := Number_toFixed2 (js_add (w_balance w) (num_of (amount body))),
                          w_updatedAt := clk 0\<rparr>"
  show "\<not> isl (fst (credit clk walletId body s))"
    by (simp add: credit_success [OF f p r])
  have f1: "findWalletByWalletId s1 walletId = Some w1"
    by (simp add: s1_def w1_def credit_success [OF f p r] findWallet_setBalance_same f)
  have p1: "isPositiveNumber (amount body')" using p p' by simp
  have ge1: "\<not> js_lt (w_balance w1) (num_of (amount body'))"
    using ge by (simp add: w1_def p')
  show "\<not> isl (fst (debit clk' walletId body' (snd (credit clk walletId body s))))"
    unfolding s1_def [symmetric] by (simp add: debit_success [OF f1 p1 r' ge1])
  show "map_option w_balance (findWalletByWalletId
           (snd (debit clk' walletId body' (snd (credit clk walletId body s)))) walletId) =
         Some (Number_toFixed2 (js_sub (Number_toFixed2 (js_add (w_balance w) (num_of (amount body))))
                 (num_of (amount body))))"
    unfolding s1_def [symmetric]
    by (simp add: debit_success [OF f1 p1 r' ge1] findWallet_setBalance_same f1)
       (simp add: w1_def p')
qed

text \<open>
  C8 (as amended).  Let the balance \<open>b\<close> of a wallet and a positive amount \<open>a\<close> be amounts
  with two decimals: the Numbers nearest to \<open>B / 100\<close> and \<open>A / 100\<close> for integers
  \<open>B \<ge> 0\<close> and \<open>A > 0\<close>, with \<open>B + A \<le> 2^50\<close>.  Then a credit of \<open>a\<close> followed by a debit
  of \<open>a\<close> both succeed and leave the balance at \<open>b\<close> exactly.
\<close>

theorem credit_debit_round_trip:
  "findWalletByWalletId s walletId = Some w \<and> w_balance w = rd (of_nat B / 100) \<and>
   amount body = JNum (rd (of_nat A / 100)) \<and> amount body' = amount body \<and>
   0 < A \<and> B + A \<le> 2 ^ 50 \<and> truthy (reference body) \<and> truthy (reference body') \<longrightarrow>
     \<not> isl (fst (credit clk walletId body s)) \<and>
     \<not> isl (fst (debit clk' walletId body' (snd (credit clk walletId body s)))) \<and>
     map_option w_balance (findWalletByWalletId
        (snd (debit clk' walletId body' (snd (credit clk walletId body s)))) walletId) =
       Some (w_balance w)"
proof (rule impI, elim conjE)
  assume f: "findWalletByWalletId s walletId = Some w" and b: "w_balance w = rd (of_nat B / 100)"
    and a: "amount body = JNum (rd (of_nat A / 100))" and a': "amount body' = amount body"
    and A: "0 < A" and AB: "B + A \<le> 2 ^ 50"
    and r: "truthy (reference body)" and r': "truthy (reference body')"
  note n = cents_amounts [OF A AB]
  have p: "isPositiveNumber (amount body)"
    using n(1) by (auto simp add: a)
  have na: "num_of (amount body) = rd (of_nat A / 100)" by (simp add: a)
  have ge: "\<not> js_lt (Number_toFixed2 (js_add (w_balance w) (num_of (amount body)))) (num_of (amount body))"
    unfolding na b n(2) by (rule n(3))
  note t = credit_then_debit [OF f p r a' r' ge]
  have "Number_toFixed2 (js_sub (Number_toFixed2 (js_add (w_balance w) (num_of (amount body))))
          (num_of (amount body))) = w_balance w"
    unfolding na b n(2) by (rule n(4))
  with t show "\<not> isl (fst (credit clk walletId body s)) \<and>
     \<not> isl (fst (debit clk' walletId body' (snd (credit clk walletId body s)))) \<and>
     map_option w_balance (findWalletByWalletId
        (snd (debit clk' walletId body' (snd (credit clk walletId body s)))) walletId) =
       Some (w_balance w)"
    by simp
qed

theorem credit_debit_round_trip_witness:
  "findWalletByWalletId (example_db (rd (of_nat 12345 / 100)) (Fin 0)) ''WALLET-001'' =
     Some (example_wallet 1 ''WALLET-001'' ''+221771234567'' (rd (of_nat 12345 / 100))) \<and>
   (0::nat) < 1999 \<and> (12345::nat) + 1999 \<le> 2 ^ 50 \<and> truthy (Some ''CREDIT-001'') \<and> truthy (Some ''DEBIT-001'') \<and>
   map_option w_balance (findWalletByWalletId
      (snd (debit example_clock ''WALLET-001'' (example_body (JNum (rd (of_nat 1999 / 100))) (Some ''DEBIT-001''))
         (snd (credit example_clock ''WALLET-001'' (example_body (JNum (rd (of_nat 1999 / 100))) (Some ''CREDIT-001''))
            (example_db (rd (of_nat 12345 / 100)) (Fin 0)))))) ''WALLET-001'') =
     Some (rd (of_nat 12345 / 100))"
proof -
  have h: "findWalletByWalletId (example_db (rd (of_nat 12345 / 100)) (Fin 0)) ''WALLET-001'' =
       Some (example_wallet 1 ''WALLET-001'' ''+221771234567'' (rd (of_nat 12345 / 100))) \<and>
     w_balance (example_wallet 1 ''WALLET-001'' ''+221771234567'' (rd (of_nat 12345 / 100))) = rd (of_nat 12345 / 100) \<and>
     amount (example_body (JNum (rd (of_nat 1999 / 100))) (Some ''CREDIT-001'')) = JNum (rd (of_nat 1999 / 100)) \<and>
     amount (example_body (JNum (rd (of_nat 1999 / 100))) (Some ''DEBIT-001'')) =
       amount (example_body (JNum (rd (of_nat 1999 / 100))) (Some ''CREDIT-001'')) \<and>
     (0::nat) < 1999 \<and> (12345::nat) + 1999 \<le> 2 ^ 50 \<and>
     truthy (reference (example_body (JNum (rd (of_nat 1999 / 100))) (Some ''CREDIT-001''))) \<and>
     truthy (reference (example_body (JNum (rd (of_nat 1999 / 100))) (Some ''DEBIT-001'')))"
    by (simp add: find_ex1 example_wallet_def example_body_def)
  from credit_debit_round_trip [THEN mp, OF h, of example_clock example_clock]
  have "map_option w_balance (findWalletByWalletId
      (snd (debit example_clock ''WALLET-001'' (example_body (JNum (rd (of_nat 1999 / 100))) (Some ''DEBIT-001''))
         (snd (credit example_clock ''WALLET-001'' (example_body (JNum (rd (of_nat 1999 / 100))) (Some ''CREDIT-001''))
            (example_db (rd (of_nat 12345 / 100)) (Fin 0)))))) ''WALLET-001'') =
     Some (w_balance (example_wallet 1 ''WALLET-001'' ''+221771234567'' (rd (of_nat 12345 / 100))))"
    by blast
  then show ?thesis
    using h by (simp add: example_wallet_def)
qed

text \<open>
  The claim as stated fails for an amount with more decimals: on a new wallet (balance 0)
  a credit of 0.125 leaves 0.13, and the debit of 0.125 that follows leaves 0.01, not 0.
\<close>

theorem round_trip_counterexample:
  "isPositiveNumber (JNum (Fin (1 / 8))) \<and>
   \<not> isl (fst (credit example_clock ''WALLET-001'' (example_body (JNum (Fin (1 / 8))) (Some ''CREDIT-001''))
             (example_db (Fin 0) (Fin 0)))) \<and>
   \<not> isl (fst (debit example_clock ''WALLET-001'' (example_body (JNum (Fin (1 / 8))) (Some ''DEBIT-001''))
      (snd (credit example_clock ''WALLET-001'' (example_body (JNum (Fin (1 / 8))) (Some ''CREDIT-001''))
             (example_db (Fin 0) (Fin 0)))))) \<and>
   map_option w_balance (findWalletByWalletId
      (snd (debit example_clock ''WALLET-001'' (example_body (JNum (Fin (1 / 8))) (Some ''DEBIT-001''))
         (snd (credit example_clock ''WALLET-001'' (example_body (JNum (Fin (1 / 8))) (Some ''CREDIT-001''))
            (example_db (Fin 0) (Fin 0)))))) ''WALLET-001'') =
     Some (Fin (5764607523034235 / 576460752303423488)) \<and>
   Fin (5764607523034235 / 576460752303423488) \<noteq> Fin 0"
proof -
  have c: "Number_toFixed2 (js_add (Fin 0) (Fin (1 / 8))) = Fin (1170935903116329 / 9007199254740992)"
    by (simp add: rd_eighth cents_def rd_13_100)
  have d: "Number_toFixed2 (js_sub (Fin (1170935903116329 / 9007199254740992)) (Fin (1 / 8))) =
      Fin (5764607523034235 / 576460752303423488)"
    by (simp add: js_sub_def rd_diff cents_def floor_rat_numeral rd_1_100)
  have b: "w_balance (example_wallet 1 ''WALLET-001'' ''+221771234567'' (Fin 0)) = Fin 0"
    "amount (example_body (JNum (Fin (1 / 8))) (Some ''CREDIT-001'')) = JNum (Fin (1 / 8))"
    "amount (example_body (JNum (Fin (1 / 8))) (Some ''DEBIT-001'')) = JNum (Fin (1 / 8))"
    "truthy (reference (example_body (JNum (Fin (1 / 8))) (Some ''CREDIT-001'')))"
    "truthy (reference (example_body (JNum (Fin (1 / 8))) (Some ''DEBIT-001'')))"
    by (simp_all add: example_wallet_def example_body_def)
  have ge: "\<not> js_lt (Number_toFixed2 (js_add (w_balance (example_wallet 1 ''WALLET-001'' ''+221771234567'' (Fin 0)))
        (num_of (amount (example_body (JNum (Fin (1 / 8))) (Some ''CREDIT-001''))))))
      (num_of (amount (example_body (JNum (Fin (1 / 8))) (Some ''CREDIT-001''))))"
    unfolding b num_of.simps c by simp
  note t = credit_then_debit [OF find_ex1 _ b(4) _ b(5) ge]
  have "map_option w_balance (findWalletByWalletId
      (snd (debit example_clock ''WALLET-001'' (example_body (JNum (Fin (1 / 8))) (Some ''DEBIT-001''))
         (snd (credit example_clock ''WALLET-001'' (example_body (JNum (Fin (1 / 8))) (Some ''CREDIT-001''))
            (example_db (Fin 0) (Fin 0)))))) ''WALLET-001'') =
     Some (Fin (5764607523034235 / 576460752303423488))"
    using t(3) unfolding b num_of.simps c d by simp
  moreover have "\<not> isl (fst (credit example_clock ''WALLET-001'' (example_body (JNum (Fin (1 / 8))) (Some ''CREDIT-001''))
             (example_db (Fin 0) (Fin 0))))"
    using t(1) by (simp add: b)
  moreover have "\<not> isl (fst (debit example_clock ''WALLET-001'' (example_body (JNum (Fin (1 / 8))) (Some ''DEBIT-001''))
      (snd (credit example_clock ''WALLET-001'' (example_body (JNum (Fin (1 / 8))) (Some ''CREDIT-001''))
             (example_db (Fin 0) (Fin 0))))))"
    using t(2) by (simp add: b)
  ultimately show ?thesis by simp
qed

end
